theory Spec2Isabelle
  imports Complex_Main "HOL-Library.AList"
begin

section \<open>Values of the program\<close>

text \<open>
  The agent moves JSON values around: what \<^verbatim>\<open>json.loads\<close> and \<^verbatim>\<open>response.json()\<close>
  return, the parameters of a command, the data of a tool. A Python \<^verbatim>\<open>dict\<close> keeps its
  keys in insertion order, so an object is an association list; a float is the pair
  (mantissa, exponent) of a finite binary fraction, of which the program only ever asks
  whether it is zero. Python's \<^verbatim>\<open>None\<close> is \<open>JNull\<close>. A string is a list of characters,
  each one code point below 256.
\<close>

datatype json =
    JNull
  | JBool bool
  | JInt int
  | JFloat int int
  | JStr string
  | JArr "json list"
  | JObj "(string \<times> json) list"

type_synonym dict = "(string \<times> json) list"

text \<open>Truth value testing (\<^verbatim>\<open>if x:\<close>, \<^verbatim>\<open>x or y\<close>, \<^verbatim>\<open>not x\<close>).\<close>

fun truthy :: "json \<Rightarrow> bool" where
  "truthy JNull = False"
| "truthy (JBool b) = b"
| "truthy (JInt n) = (n \<noteq> 0)"
| "truthy (JFloat m e) = (m \<noteq> 0)"
| "truthy (JStr s) = (s \<noteq> [])"
| "truthy (JArr xs) = (xs \<noteq> [])"
| "truthy (JObj d) = (d \<noteq> [])"

text \<open>\<^verbatim>\<open>d.get(k, default)\<close>, \<^verbatim>\<open>d.get(k)\<close>, \<^verbatim>\<open>d[k] = v\<close>, \<^verbatim>\<open>d.update(other)\<close> and \<^verbatim>\<open>k in d\<close> on a dict.\<close>

definition dict_get_default :: "dict \<Rightarrow> string \<Rightarrow> json \<Rightarrow> json" where
  "dict_get_default d k dflt = (case map_of d k of Some v \<Rightarrow> v | None \<Rightarrow> dflt)"

definition dict_get :: "dict \<Rightarrow> string \<Rightarrow> json" where
  "dict_get d k = dict_get_default d k JNull"

definition dict_set :: "dict \<Rightarrow> string \<Rightarrow> json \<Rightarrow> dict" where
  "dict_set d k v = AList.update k v d"

definition dict_update :: "dict \<Rightarrow> dict \<Rightarrow> dict" where
  "dict_update d other = fold (\<lambda>(k, v) acc. dict_set acc k v) other d"

definition dict_has :: "dict \<Rightarrow> string \<Rightarrow> bool" where
  "dict_has d k = (map_of d k \<noteq> None)"

section \<open>Exceptions\<close>

text \<open>
  Every \<^verbatim>\<open>raise\<close> of the source and every exception of the interpreter or of a library
  is a value: its class and the text \<^verbatim>\<open>str(e)\<close> gives. The classes are the ones the
  \<^verbatim>\<open>except\<close> clauses of the source tell apart. \<open>RequestsTimeout\<close> is
  \<^verbatim>\<open>requests.exceptions.Timeout\<close>, \<open>RequestException\<close> any other
  \<^verbatim>\<open>requests.exceptions.RequestException\<close>; \<open>PlainException\<close> is the class
  \<^verbatim>\<open>Exception\<close> itself and \<open>OtherException\<close> any further subclass of it.
\<close>

datatype exn_class =
    ValueError
  | TypeError
  | KeyError
  | IndexError
  | AttributeError
  | JSONDecodeError
  | RequestsTimeout
  | RequestException
  | ValidationError
  | PlainException
  | OtherException

datatype exn = Exn exn_class string

fun exn_str :: "exn \<Rightarrow> string" where
  "exn_str (Exn c msg) = msg"

fun exn_cls :: "exn \<Rightarrow> exn_class" where
  "exn_cls (Exn c msg) = c"

text \<open>
  The faults the interpreter itself raises on a value of the wrong shape. Their class is
  fixed; their text depends on the Python version and is read from the environment.
\<close>

datatype fault =
    NoAttribute json string
  | NotSubscriptable json
  | BadIndex json
  | MissingKey string
  | MissingIndex json
  | NotIterable json
  | UpdateElemNotSeq nat json
  | UpdateElemLength nat json
  | Unhashable json
  | BadEnumValue string
  | JoinNotStr nat

fun fault_class :: "fault \<Rightarrow> exn_class" where
  "fault_class (NoAttribute v a) = AttributeError"
| "fault_class (NotSubscriptable v) = TypeError"
| "fault_class (BadIndex v) = TypeError"
| "fault_class (MissingKey k) = KeyError"
| "fault_class (MissingIndex v) = (case v of JObj d \<Rightarrow> KeyError | _ \<Rightarrow> IndexError)"
| "fault_class (NotIterable v) = TypeError"
| "fault_class (UpdateElemNotSeq i v) = TypeError"
| "fault_class (UpdateElemLength i v) = ValueError"
| "fault_class (Unhashable v) = TypeError"
| "fault_class (BadEnumValue s) = ValueError"
| "fault_class (JoinNotStr i) = TypeError"

section \<open>Strings\<close>

text \<open>
  The \<^verbatim>\<open>str\<close> methods the parser of model replies uses. \<^verbatim>\<open>str.strip()\<close> removes the
  characters for which \<^verbatim>\<open>str.isspace()\<close> holds; below 256 these are the code points
  9 to 13, 28 to 32, 133 and 160.
\<close>

definition is_space :: "char \<Rightarrow> bool" where
  "is_space c = (let n = of_char c :: nat in
     (9 \<le> n \<and> n \<le> 13) \<or> (28 \<le> n \<and> n \<le> 32) \<or> n = 133 \<or> n = 160)"

definition strip :: "string \<Rightarrow> string" where
  "strip s = rev (dropWhile is_space (rev (dropWhile is_space s)))"

definition startswith :: "string \<Rightarrow> string \<Rightarrow> bool" where
  "startswith s p = (take (length p) s = p)"

definition endswith :: "string \<Rightarrow> string \<Rightarrow> bool" where
  "endswith s p = (length p \<le> length s \<and> drop (length s - length p) s = p)"

text \<open>\<^verbatim>\<open>s.find(sep)\<close> and \<^verbatim>\<open>s.rfind(sep)\<close>: the lowest and the highest index at which
  \<open>sep\<close> occurs, \<open>None\<close> for Python's \<open>-1\<close>.\<close>

fun find_sub :: "string \<Rightarrow> string \<Rightarrow> nat option" where
  "find_sub [] sep = (if sep = [] then Some 0 else None)"
| "find_sub (c # cs) sep =
     (if startswith (c # cs) sep then Some 0 else map_option Suc (find_sub cs sep))"

definition rfind_sub :: "string \<Rightarrow> string \<Rightarrow> nat option" where
  "rfind_sub s sep =
     map_option (\<lambda>j. length s - length sep - j) (find_sub (rev s) (rev sep))"

text \<open>
  \<^verbatim>\<open>s.split(sep)\<close> for a non-empty separator: the pieces between the occurrences of
  \<open>sep\<close>, found from the left and not overlapping. \<open>skip\<close> counts the characters of
  an occurrence still to be passed over, \<open>acc\<close> holds the current piece reversed.
\<close>

fun split_aux :: "string \<Rightarrow> nat \<Rightarrow> string \<Rightarrow> string \<Rightarrow> string list" where
  "split_aux sep skip acc [] = [rev acc]"
| "split_aux sep (Suc k) acc (c # cs) = split_aux sep k acc cs"
| "split_aux sep 0 acc (c # cs) =
     (if startswith (c # cs) sep
      then rev acc # split_aux sep (length sep - 1) [] cs
      else split_aux sep 0 (c # acc) cs)"

definition split :: "string \<Rightarrow> string \<Rightarrow> string list" where
  "split s sep = split_aux sep 0 [] s"

text \<open>\<^verbatim>\<open>s.rsplit(sep, 1)\<close>: cut once, at the last occurrence.\<close>

definition rsplit1 :: "string \<Rightarrow> string \<Rightarrow> string list" where
  "rsplit1 s sep =
     (case rfind_sub s sep of
        None \<Rightarrow> [s]
      | Some i \<Rightarrow> [take i s, drop (i + length sep) s])"

text \<open>\<^verbatim>\<open>s.replace(old, new)\<close> for a non-empty \<open>old\<close>.\<close>

fun replace_aux :: "string \<Rightarrow> string \<Rightarrow> nat \<Rightarrow> string \<Rightarrow> string" where
  "replace_aux old new skip [] = []"
| "replace_aux old new (Suc k) (c # cs) = replace_aux old new k cs"
| "replace_aux old new 0 (c # cs) =
     (if startswith (c # cs) old
      then new @ replace_aux old new (length old - 1) cs
      else c # replace_aux old new 0 cs)"

definition replace :: "string \<Rightarrow> string \<Rightarrow> string \<Rightarrow> string" where
  "replace s old new = replace_aux old new 0 s"

text \<open>\<^verbatim>\<open>xs[i]\<close> on a list of strings, for an index that is not negative.\<close>

definition str_list_index :: "string list \<Rightarrow> nat \<Rightarrow> exn + string" where
  "str_list_index xs i =
     (if i < length xs then Inr (xs ! i) else Inl (Exn IndexError ''list index out of range''))"

text \<open>\<^verbatim>\<open>sub in s\<close> on strings.\<close>

definition str_contains :: "string \<Rightarrow> string \<Rightarrow> bool" where
  "str_contains s sub = (find_sub s sub \<noteq> None)"

text \<open>\<^verbatim>\<open>sep.join(xs)\<close>.\<close>

fun join :: "string \<Rightarrow> string list \<Rightarrow> string" where
  "join sep [] = []"
| "join sep [x] = x"
| "join sep (x # y # ys) = x @ sep @ join sep (y # ys)"

definition fence :: string where
  "fence = ''```''"

definition fence_json :: string where
  "fence_json = ''```json''"

definition backslash :: char where
  "backslash = CHR 0x5C"

definition newline :: char where
  "newline = CHR 0x0A"

section \<open>The parser of structured model replies\<close>

text \<open>
  \<^verbatim>\<open>json.loads\<close> is the standard library's; what it makes of a text is a parameter of
  the model. It returns the decoded value, raises \<^verbatim>\<open>json.JSONDecodeError\<close> with a
  message, or raises something else (a \<^verbatim>\<open>RecursionError\<close> on a deeply nested text).
\<close>

datatype loads_outcome = Decoded json | DecodeError string | LoadsRaised exn

text \<open>
  Lines 176 to 188 of \<^verbatim>\<open>modules/llm.py\<close>: strip the reply, remove the markdown
  fences, undo the escaped underscore. The subscript \<^verbatim>\<open>[1]\<close> after \<^verbatim>\<open>split\<close> can
  raise \<^verbatim>\<open>IndexError\<close> as far as the language knows.
\<close>

definition remove_markdown :: "string \<Rightarrow> exn + string" where
  "remove_markdown raw =
     (let response = strip raw in
      case (if startswith response fence_json then str_list_index (split response fence_json) 1
            else if startswith response fence then str_list_index (split response fence) 1
            else Inr response) of
        Inl e \<Rightarrow> Inl e
      | Inr response \<Rightarrow>
          (let response = (if endswith response fence then hd (rsplit1 response fence)
                           else response)
           in Inr (replace response [backslash, CHR ''_''] ''_'')))"

text \<open>\<^verbatim>\<open>end = s.rfind(c) + 1; if end != 0: s = s[:end]\<close>.\<close>

definition truncate_after_last :: "string \<Rightarrow> string \<Rightarrow> string" where
  "truncate_after_last s c =
     (let end = (case rfind_sub s c of None \<Rightarrow> - 1 | Some i \<Rightarrow> int i) + 1
      in if end \<noteq> 0 then take (nat end) s else s)"

text \<open>
  Lines 190 to 218: the \<^verbatim>\<open>try\<close> block. Its handler catches
  \<^verbatim>\<open>json.JSONDecodeError\<close> only, so the \<^verbatim>\<open>ValueError\<close> of the last branch and
  whatever else \<^verbatim>\<open>json.loads\<close> raises leave the function as they are.
\<close>

definition decode_failure :: "string \<Rightarrow> string \<Rightarrow> exn" where
  "decode_failure msg response =
     Exn ValueError (''Failed to parse JSON response: '' @ msg @ [newline]
                     @ ''Response was: '' @ response)"

definition parse_cleaned :: "(string \<Rightarrow> loads_outcome) \<Rightarrow> string \<Rightarrow> exn + json list" where
  "parse_cleaned loads response =
     (let cleaned_response = strip response in
      if startswith cleaned_response ''[''
      then (case loads (truncate_after_last cleaned_response '']'') of
              Decoded result \<Rightarrow> Inr (case result of JArr xs \<Rightarrow> xs | _ \<Rightarrow> [result])
            | DecodeError msg \<Rightarrow> Inl (decode_failure msg response)
            | LoadsRaised e \<Rightarrow> Inl e)
      else if startswith cleaned_response ''{''
      then (case loads (truncate_after_last cleaned_response ''}'') of
              Decoded result \<Rightarrow> Inr [result]
            | DecodeError msg \<Rightarrow> Inl (decode_failure msg response)
            | LoadsRaised e \<Rightarrow> Inl e)
      else Inl (Exn ValueError ''Response neither starts with [ nor {''))"

text \<open>The post-processing of \<^verbatim>\<open>structured_output_prompt\<close>, from the reply text on.\<close>

definition parse_reply :: "(string \<Rightarrow> loads_outcome) \<Rightarrow> string \<Rightarrow> exn + json list" where
  "parse_reply loads raw =
     (case remove_markdown raw of
        Inl e \<Rightarrow> Inl e
      | Inr response \<Rightarrow> parse_cleaned loads response)"

text \<open>
  Three descriptions in terms of positions, for stating what the removal of the fences
  amounts to: the text before the first occurrence of a marker (all of it when there is
  none), the text without a fence at its end, and the text with every escaped underscore
  replaced.
\<close>

definition up_to :: "string \<Rightarrow> string \<Rightarrow> string" where
  "up_to marker s = (case find_sub s marker of None \<Rightarrow> s | Some i \<Rightarrow> take i s)"

definition without_trailing_fence :: "string \<Rightarrow> string" where
  "without_trailing_fence s =
     (if endswith s fence then take (length s - length fence) s else s)"

definition unescape_underscores :: "string \<Rightarrow> string" where
  "unescape_underscores s = replace s [backslash, CHR ''_''] ''_''"

section \<open>The world outside the program\<close>

text \<open>
  The program talks to five HTTP services. Every request is recorded, in order, in the
  world the functions pass along; what a request brings back (a decoded JSON body, or the
  exception that \<^verbatim>\<open>requests\<close>, \<^verbatim>\<open>raise_for_status\<close> or \<^verbatim>\<open>response.json()\<close>
  raises) is decided by the environment, from the number of requests made before and the
  request itself. The text of a prompt does not appear: it matters only through the reply,
  and any reply is possible.
\<close>

datatype service = ModelAPI | SearchAPI | WeatherAPI | NewsAPI | GeoAPI

datatype event = Request service json

type_synonym world = "event list"

datatype http_outcome = Body json | HttpRaised exn

datatype tz_outcome = TzFound | TzUnknown | TzRaised exn

record clock_reading =
  hm :: string
  date :: string
  unix_timestamp :: int
  is_dst :: bool

record env =
  json_loads :: "string \<Rightarrow> loads_outcome"
  http :: "nat \<Rightarrow> event \<Rightarrow> http_outcome"
  getenv :: "string \<Rightarrow> string option"
  py_repr :: "json \<Rightarrow> string"
  fault_text :: "fault \<Rightarrow> string"
  pydantic_data :: "json \<Rightarrow> exn + dict"
  pytz_timezone :: "json \<Rightarrow> tz_outcome"
  clock :: "json \<Rightarrow> clock_reading"
  utc_hm :: string

definition raise_fault :: "env \<Rightarrow> fault \<Rightarrow> exn" where
  "raise_fault E f = Exn (fault_class f) (fault_text E f)"

text \<open>\<^verbatim>\<open>str(v)\<close>, and \<^verbatim>\<open>{v}\<close> in an f-string: a string is itself, anything else is
  printed by the interpreter.\<close>

definition py_str :: "env \<Rightarrow> json \<Rightarrow> string" where
  "py_str E v = (case v of JStr s \<Rightarrow> s | _ \<Rightarrow> py_repr E v)"

text \<open>One HTTP exchange: record the request, ask the environment for the outcome.\<close>

definition fetch :: "env \<Rightarrow> service \<Rightarrow> json \<Rightarrow> world \<Rightarrow> http_outcome \<times> world" where
  "fetch E svc arg w = (http E (length w) (Request svc arg), w @ [Request svc arg])"

section \<open>Operations of the interpreter on JSON values\<close>

text \<open>\<^verbatim>\<open>v.get(k, default)\<close>: only a dict has the method.\<close>

definition py_get_default :: "env \<Rightarrow> json \<Rightarrow> string \<Rightarrow> json \<Rightarrow> exn + json" where
  "py_get_default E v k dflt =
     (case v of
        JObj d \<Rightarrow> Inr (dict_get_default d k dflt)
      | _ \<Rightarrow> Inl (raise_fault E (NoAttribute v ''get'')))"

definition py_get :: "env \<Rightarrow> json \<Rightarrow> string \<Rightarrow> exn + json" where
  "py_get E v k = py_get_default E v k JNull"

text \<open>\<^verbatim>\<open>v[k]\<close> for a string \<open>k\<close>, and \<^verbatim>\<open>v[0]\<close>.\<close>

definition py_item :: "env \<Rightarrow> json \<Rightarrow> string \<Rightarrow> exn + json" where
  "py_item E v k =
     (case v of
        JObj d \<Rightarrow> (case map_of d k of
                     Some x \<Rightarrow> Inr x
                   | None \<Rightarrow> Inl (raise_fault E (MissingKey k)))
      | JArr xs \<Rightarrow> Inl (raise_fault E (BadIndex v))
      | JStr s \<Rightarrow> Inl (raise_fault E (BadIndex v))
      | _ \<Rightarrow> Inl (raise_fault E (NotSubscriptable v)))"

definition py_first :: "env \<Rightarrow> json \<Rightarrow> exn + json" where
  "py_first E v =
     (case v of
        JArr xs \<Rightarrow> (case xs of [] \<Rightarrow> Inl (raise_fault E (MissingIndex v)) | x # _ \<Rightarrow> Inr x)
      | JStr s \<Rightarrow> (case s of [] \<Rightarrow> Inl (raise_fault E (MissingIndex v)) | c # _ \<Rightarrow> Inr (JStr [c]))
      | JObj d \<Rightarrow> Inl (raise_fault E (MissingIndex v))
      | _ \<Rightarrow> Inl (raise_fault E (NotSubscriptable v)))"

text \<open>\<^verbatim>\<open>for x in v\<close>: the elements of a list, the characters of a string, the keys of a
  dict.\<close>

definition py_iter :: "env \<Rightarrow> json \<Rightarrow> exn + json list" where
  "py_iter E v =
     (case v of
        JArr xs \<Rightarrow> Inr xs
      | JStr s \<Rightarrow> Inr (map (\<lambda>c. JStr [c]) s)
      | JObj d \<Rightarrow> Inr (map (\<lambda>kv. JStr (fst kv)) d)
      | _ \<Rightarrow> Inl (raise_fault E (NotIterable v)))"

text \<open>\<^verbatim>\<open>k in v\<close> for a string \<open>k\<close>: a key of a dict, an element of a list, a substring
  of a string.\<close>

definition py_in :: "env \<Rightarrow> string \<Rightarrow> json \<Rightarrow> exn + bool" where
  "py_in E k v =
     (case v of
        JObj d \<Rightarrow> Inr (dict_has d k)
      | JArr xs \<Rightarrow> Inr (JStr k \<in> set xs)
      | JStr s \<Rightarrow> Inr (str_contains s k)
      | _ \<Rightarrow> Inl (raise_fault E (NotIterable v)))"

text \<open>
  \<^verbatim>\<open>d.update(v)\<close>. A dict is merged key by key. Anything else is read as a sequence of
  key/value pairs: each element must be a sequence of length two whose first component
  can be hashed, and the first element that is not raises. A pair whose key is not a
  string is stored by Python under that key; the program reads the merged parameters by
  string keys only, so the model leaves the dict as it is for such a pair.
\<close>

fun update_pairs :: "env \<Rightarrow> nat \<Rightarrow> dict \<Rightarrow> json list \<Rightarrow> exn + dict" where
  "update_pairs E i d [] = Inr d"
| "update_pairs E i d (item # rest) =
     (case py_iter E item of
        Inl e \<Rightarrow> Inl (raise_fault E (UpdateElemNotSeq i item))
      | Inr [key, val] \<Rightarrow>
          (case key of
             JArr xs \<Rightarrow> Inl (raise_fault E (Unhashable key))
           | JObj kvs \<Rightarrow> Inl (raise_fault E (Unhashable key))
           | JStr k \<Rightarrow> update_pairs E (Suc i) (dict_set d k val) rest
           | _ \<Rightarrow> update_pairs E (Suc i) d rest)
      | Inr elems \<Rightarrow> Inl (raise_fault E (UpdateElemLength i item)))"

definition py_dict_update :: "env \<Rightarrow> dict \<Rightarrow> json \<Rightarrow> exn + dict" where
  "py_dict_update E d v =
     (case v of
        JObj other \<Rightarrow> Inr (dict_update d other)
      | _ \<Rightarrow> (case py_iter E v of
                Inl e \<Rightarrow> Inl e
              | Inr items \<Rightarrow> update_pairs E 0 d items))"

section \<open>The tools\<close>

subsection \<open>Location\<close>

text \<open>
  \<^verbatim>\<open>LocationDetector.get_location\<close> (\<^verbatim>\<open>modules/utils/location.py\<close>) asks the
  geolocation service once and caches the answer. Every exception, the
  \<^verbatim>\<open>AttributeError\<close> of a body that is no dict among them, ends in the fallback. The
  latitude and longitude it also stores are never read.
\<close>

record user_location =
  city :: json
  country :: json
  timezone :: json

definition fallback_location :: user_location where
  "fallback_location =
     \<lparr>city = JStr ''London'', country = JStr ''UK'', timezone = JStr ''Europe/London''\<rparr>"

definition get_location :: "http_outcome \<Rightarrow> user_location" where
  "get_location outcome =
     (case outcome of
        HttpRaised e \<Rightarrow> fallback_location
      | Body body \<Rightarrow>
          (case body of
             JObj d \<Rightarrow>
               (if dict_get d ''status'' = JStr ''success''
                then \<lparr>city = dict_get_default d ''city'' (JStr []),
                      country = dict_get_default d ''country'' (JStr []),
                      timezone = dict_get_default d ''timezone'' (JStr [])\<rparr>
                else fallback_location)
           | _ \<Rightarrow> fallback_location))"

subsection \<open>Search\<close>

text \<open>
  \<^verbatim>\<open>SearchTool.search\<close> (\<^verbatim>\<open>modules/tools/search_tool.py\<close>). The description of an
  item is its snippet, replaced by the first \<^verbatim>\<open>og:description\<close> among its metatags.
\<close>

fun first_og_description :: "env \<Rightarrow> json \<Rightarrow> json list \<Rightarrow> exn + json" where
  "first_og_description E description [] = Inr description"
| "first_og_description E description (metatag # rest) =
     (case py_in E ''og:description'' metatag of
        Inl e \<Rightarrow> Inl e
      | Inr True \<Rightarrow> py_item E metatag ''og:description''
      | Inr False \<Rightarrow> first_og_description E description rest)"

definition item_description :: "env \<Rightarrow> dict \<Rightarrow> exn + json" where
  "item_description E item =
     (let description = dict_get_default item ''snippet'' (JStr []) in
      if dict_has item ''pagemap''
      then (case py_in E ''metatags'' (dict_get item ''pagemap'') of
              Inl e \<Rightarrow> Inl e
            | Inr False \<Rightarrow> Inr description
            | Inr True \<Rightarrow>
                (case py_item E (dict_get item ''pagemap'') ''metatags'' of
                   Inl e \<Rightarrow> Inl e
                 | Inr metatags \<Rightarrow>
                     (case py_iter E metatags of
                        Inl e \<Rightarrow> Inl e
                      | Inr ms \<Rightarrow> first_og_description E description ms)))
      else Inr description)"

fun search_items :: "env \<Rightarrow> json list \<Rightarrow> exn + json list" where
  "search_items E [] = Inr []"
| "search_items E (item # rest) =
     (case item of
        JObj d \<Rightarrow>
          (case item_description E d of
             Inl e \<Rightarrow> Inl e
           | Inr description \<Rightarrow>
               (case search_items E rest of
                  Inl e \<Rightarrow> Inl e
                | Inr results \<Rightarrow>
                    Inr (JObj [(''title'', dict_get_default d ''title'' (JStr [])),
                               (''description'', description),
                               (''url'', dict_get_default d ''link'' (JStr []))] # results)))
      | _ \<Rightarrow> Inl (raise_fault E (NoAttribute item ''get'')))"

definition search_results :: "env \<Rightarrow> json \<Rightarrow> exn + json list" where
  "search_results E body =
     (case py_in E ''items'' body of
        Inl e \<Rightarrow> Inl e
      | Inr False \<Rightarrow> Inr []
      | Inr True \<Rightarrow>
          (case py_item E body ''items'' of
             Inl e \<Rightarrow> Inl e
           | Inr items \<Rightarrow>
               (case py_iter E items of
                  Inl e \<Rightarrow> Inl e
                | Inr its \<Rightarrow> search_items E its)))"

definition search_abstract :: "env \<Rightarrow> json list \<Rightarrow> string" where
  "search_abstract E results =
     (case results of
        [] \<Rightarrow> []
      | r # _ \<Rightarrow>
          (case r of
             JObj d \<Rightarrow> py_str E (dict_get d ''title'') @ '': '' @ py_str E (dict_get d ''description'')
           | _ \<Rightarrow> []))"

definition search_failed :: "env \<Rightarrow> json \<Rightarrow> exn \<Rightarrow> dict" where
  "search_failed E query e =
     (if exn_cls e = RequestsTimeout
      then [(''error'', JStr ''Search request timed out''),
            (''results'', JArr []),
            (''abstract'', JStr ''Search timed out, please try again''),
            (''query'', query)]
      else [(''error'', JStr (exn_str e)),
            (''results'', JArr []),
            (''abstract'', JStr (''Search error occurred while searching for: '' @ py_str E query)),
            (''query'', query)])"

definition search :: "env \<Rightarrow> json \<Rightarrow> world \<Rightarrow> dict \<times> world" where
  "search E query w =
     (case fetch E SearchAPI query w of
        (HttpRaised e, w') \<Rightarrow> (search_failed E query e, w')
      | (Body body, w') \<Rightarrow>
          (case search_results E body of
             Inl e \<Rightarrow> (search_failed E query e, w')
           | Inr results \<Rightarrow>
               ([(''abstract'', JStr (search_abstract E results)),
                 (''results'', JArr results),
                 (''query'', query)], w')))"

subsection \<open>Weather\<close>

text \<open>\<^verbatim>\<open>WeatherTool.get_weather\<close> (\<^verbatim>\<open>modules/tools/weather_tool.py\<close>).\<close>

definition weather_failed :: "json \<Rightarrow> string \<Rightarrow> dict" where
  "weather_failed loc msg =
     [(''error'', JStr msg), (''location'', loc),
      (''temperature'', JNull), (''conditions'', JNull)]"

definition weather_handler :: "json \<Rightarrow> exn \<Rightarrow> dict" where
  "weather_handler loc e =
     (if exn_cls e = RequestsTimeout
      then weather_failed loc ''Request timed out after multiple retries''
      else if exn_cls e = RequestException
      then weather_failed loc (''Failed to get weather data: '' @ exn_str e)
      else weather_failed loc (''Unexpected error: '' @ exn_str e))"

text \<open>\<^verbatim>\<open>data.get(section, {}).get(field)\<close>.\<close>

definition nested_get :: "env \<Rightarrow> dict \<Rightarrow> string \<Rightarrow> string \<Rightarrow> exn + json" where
  "nested_get E d section field =
     py_get E (dict_get_default d section (JObj [])) field"

definition weather_report :: "env \<Rightarrow> json \<Rightarrow> json \<Rightarrow> exn + dict" where
  "weather_report E loc body =
     (case body of
        JObj d \<Rightarrow>
          (if truthy (dict_get d ''cod'') \<and> py_str E (dict_get d ''cod'') \<noteq> ''200''
           then Inr [(''error'', dict_get_default d ''message''
                                   (JStr ''Unknown error from weather API'')),
                     (''location'', loc),
                     (''temperature'', JNull),
                     (''conditions'', JNull)]
           else
             (case nested_get E d ''main'' ''temp'' of Inl e \<Rightarrow> Inl e | Inr temp \<Rightarrow>
              case nested_get E d ''main'' ''feels_like'' of Inl e \<Rightarrow> Inl e | Inr feels \<Rightarrow>
              case nested_get E d ''main'' ''humidity'' of Inl e \<Rightarrow> Inl e | Inr humidity \<Rightarrow>
              case py_first E (dict_get_default d ''weather'' (JArr [JObj []])) of
                Inl e \<Rightarrow> Inl e | Inr w0 \<Rightarrow>
              case py_get E w0 ''description'' of Inl e \<Rightarrow> Inl e | Inr conditions \<Rightarrow>
              case nested_get E d ''wind'' ''speed'' of Inl e \<Rightarrow> Inl e | Inr wind \<Rightarrow>
              case nested_get E d ''sys'' ''country'' of Inl e \<Rightarrow> Inl e | Inr ctry \<Rightarrow>
                Inr [(''location'', loc),
                     (''temperature'', temp),
                     (''feels_like'', feels),
                     (''humidity'', humidity),
                     (''conditions'', conditions),
                     (''wind_speed'', wind),
                     (''country'', ctry),
                     (''city'', dict_get d ''name''),
                     (''timestamp'', dict_get d ''dt'')]))
      | _ \<Rightarrow> Inl (raise_fault E (NoAttribute body ''get'')))"

definition get_weather :: "env \<Rightarrow> json \<Rightarrow> world \<Rightarrow> dict \<times> world" where
  "get_weather E loc w =
     (case fetch E WeatherAPI loc w of
        (HttpRaised e, w') \<Rightarrow> (weather_handler loc e, w')
      | (Body body, w') \<Rightarrow>
          (case weather_report E loc body of
             Inl e \<Rightarrow> (weather_handler loc e, w')
           | Inr report \<Rightarrow> (report, w')))"

subsection \<open>News\<close>

text \<open>
  \<^verbatim>\<open>NewsTool.get_latest_news\<close> (\<^verbatim>\<open>modules/tools/news_tool.py\<close>) has no handler of
  its own and does not look at the status: it returns the decoded body, whatever it is,
  and lets any exception through. The topic goes into the request only when it is truthy.
\<close>

definition get_latest_news :: "env \<Rightarrow> json \<Rightarrow> world \<Rightarrow> (exn + json) \<times> world" where
  "get_latest_news E topic w =
     (case fetch E NewsAPI (if truthy topic then topic else JNull) w of
        (HttpRaised e, w') \<Rightarrow> (Inl e, w')
      | (Body body, w') \<Rightarrow> (Inr body, w'))"

subsection \<open>Time\<close>

text \<open>
  \<^verbatim>\<open>TimeTool.get_time\<close> (\<^verbatim>\<open>modules/tools/time_tool.py\<close>) reads the time zone
  database and the clock, both of the environment. The cached location always has the key
  \<^verbatim>\<open>timezone\<close>, so the default \<^verbatim>\<open>"UTC"\<close> of the lookup is never taken.
\<close>

definition get_time :: "env \<Rightarrow> user_location \<Rightarrow> json \<Rightarrow> dict" where
  "get_time E loc tz_arg =
     (let tz = (if \<not> truthy tz_arg then timezone loc else tz_arg) in
      case pytz_timezone E tz of
        TzFound \<Rightarrow>
          [(''timezone'', tz),
           (''current_time'', JStr (hm (clock E tz))),
           (''date'', JStr (date (clock E tz))),
           (''unix_timestamp'', JInt (unix_timestamp (clock E tz))),
           (''is_dst'', JBool (is_dst (clock E tz)))]
      | TzUnknown \<Rightarrow>
          [(''error'', JStr (''Unknown timezone: '' @ py_str E tz)),
           (''timezone'', JStr ''UTC''),
           (''current_time'', JStr (utc_hm E))]
      | TzRaised e \<Rightarrow>
          [(''error'', JStr (exn_str e)),
           (''timezone'', JStr ''UTC''),
           (''current_time'', JStr (utc_hm E))])"

section \<open>The dispatcher\<close>

text \<open>\<^verbatim>\<open>ToolResponse\<close> and \<^verbatim>\<open>ToolManager\<close> of \<^verbatim>\<open>modules/tools_manager.py\<close>.\<close>

record ToolResponse =
  success :: bool
  data :: dict
  error :: "string option"

record ToolManager =
  location :: user_location
  defaults :: "(string \<times> dict) list"

definition ALLOWED_COMMANDS :: "string list" where
  "ALLOWED_COMMANDS = [''search'', ''news'', ''weather'', ''time'', ''help'']"

text \<open>What \<^verbatim>\<open>{Config.ALLOWED_COMMANDS}\<close> prints in an f-string.\<close>

definition ALLOWED_COMMANDS_repr :: string where
  "ALLOWED_COMMANDS_repr =
     ''['' @ join '', '' (map (\<lambda>c. [CHR 0x27] @ c @ [CHR 0x27]) ALLOWED_COMMANDS) @ '']''"

definition ToolManager_init :: "env \<Rightarrow> user_location \<Rightarrow> ToolManager" where
  "ToolManager_init E loc =
     \<lparr>location = loc,
      defaults =
        [(''search'', [(''query'', JStr ''latest news'')]),
         (''weather'', [(''location'', JStr (py_str E (city loc) @ '', '' @ py_str E (country loc)))]),
         (''news'', [(''topic'', JStr ''technology'')]),
         (''time'', [(''timezone'', timezone loc)])]\<rparr>"

text \<open>\<^verbatim>\<open>self.defaults.get(command, {}).copy()\<close>.\<close>

definition defaults_for :: "ToolManager \<Rightarrow> string \<Rightarrow> dict" where
  "defaults_for tm command = (case map_of (defaults tm) command of Some d \<Rightarrow> d | None \<Rightarrow> [])"

text \<open>Lines 50 to 53: the defaults of the command, overlaid with the caller's
  parameters when these are truthy.\<close>

definition merge_params :: "env \<Rightarrow> ToolManager \<Rightarrow> string \<Rightarrow> json \<Rightarrow> exn + dict" where
  "merge_params E tm command params =
     (let tool_params = defaults_for tm command in
      if truthy params then py_dict_update E tool_params params else Inr tool_params)"

text \<open>The result of \<^verbatim>\<open>help\<close>; \<^verbatim>\<open>self.defaults['search']['query']\<close> and its like are
  keys the constructor has set.\<close>

definition help_result :: "env \<Rightarrow> ToolManager \<Rightarrow> dict" where
  "help_result E tm =
     [(''available_commands'', JObj
        [(''search'', JStr (''Search for information (default: ''
            @ py_str E (dict_get (defaults_for tm ''search'') ''query'') @ '')'')),
         (''news'', JStr (''Get latest news (default: ''
            @ py_str E (dict_get (defaults_for tm ''news'') ''topic'') @ '')'')),
         (''weather'', JStr (''Get weather information (default: ''
            @ py_str E (dict_get (defaults_for tm ''weather'') ''location'') @ '')'')),
         (''time'', JStr (''Get current time (default: ''
            @ py_str E (dict_get (defaults_for tm ''time'') ''timezone'') @ '')'')),
         (''help'', JStr ''Show available commands'')])]"

text \<open>
  The body of the \<^verbatim>\<open>try\<close> of \<^verbatim>\<open>execute_command\<close> up to \<^verbatim>\<open>result\<close>, for a command
  of the allow-list: merge, then call the one tool of the command with the one parameter
  it reads.
\<close>

definition run_tool :: "env \<Rightarrow> ToolManager \<Rightarrow> string \<Rightarrow> json \<Rightarrow> world \<Rightarrow> (exn + json) \<times> world" where
  "run_tool E tm command params w =
     (case merge_params E tm command params of
        Inl e \<Rightarrow> (Inl e, w)
      | Inr tool_params \<Rightarrow>
          (if command = ''search''
           then (case search E (dict_get tool_params ''query'') w of
                   (result, w') \<Rightarrow> (Inr (JObj result), w'))
           else if command = ''news''
           then get_latest_news E (dict_get tool_params ''topic'') w
           else if command = ''weather''
           then (case get_weather E (dict_get tool_params ''location'') w of
                   (result, w') \<Rightarrow> (Inr (JObj result), w'))
           else if command = ''time''
           then (Inr (JObj (get_time E (location tm) (dict_get tool_params ''timezone''))), w)
           else (Inr (JObj (help_result E tm)), w)))"

text \<open>
  \<^verbatim>\<open>ToolResponse(success=True, data=result)\<close> validates \<open>result\<close> against
  \<^verbatim>\<open>Dict[str, Any]\<close>: a dict passes as it is; what pydantic makes of anything else (a
  coercion or a \<^verbatim>\<open>ValidationError\<close>, by its version) is the environment's.
\<close>

definition validate_data :: "env \<Rightarrow> json \<Rightarrow> exn + dict" where
  "validate_data E result = (case result of JObj d \<Rightarrow> Inr d | _ \<Rightarrow> pydantic_data E result)"

definition failure :: "string \<Rightarrow> ToolResponse" where
  "failure msg = \<lparr>success = False, data = [], error = Some msg\<rparr>"

definition not_allowed_text :: "string \<Rightarrow> string" where
  "not_allowed_text c = ''Command '' @ c @ '' not allowed. Allowed commands: ''
                        @ ALLOWED_COMMANDS_repr"

text \<open>
  \<^verbatim>\<open>ToolManager.execute_command\<close>. The command is whatever the plan holds: a value that
  is not a string equals no element of the allow-list.
\<close>

definition execute_command ::
  "env \<Rightarrow> ToolManager \<Rightarrow> json \<Rightarrow> json \<Rightarrow> world \<Rightarrow> ToolResponse \<times> world" where
  "execute_command E tm command params w =
     (case command of
        JStr c \<Rightarrow>
          (if c \<notin> set ALLOWED_COMMANDS
           then (failure (not_allowed_text c), w)
           else
             (case run_tool E tm c params w of
                (Inl e, w') \<Rightarrow> (failure (exn_str e), w')
              | (Inr result, w') \<Rightarrow>
                  (case validate_data E result of
                     Inl e \<Rightarrow> (failure (exn_str e), w')
                   | Inr d \<Rightarrow> (\<lparr>success = True, data = d, error = None\<rparr>, w'))))
      | _ \<Rightarrow> (failure (not_allowed_text (py_str E command)), w))"

text \<open>
  An environment whose exceptions all carry a message: the texts of the interpreter's
  faults, of the exceptions the requests raise and of the validation errors are not
  empty.
\<close>

definition messages_nonempty :: "env \<Rightarrow> bool" where
  "messages_nonempty E =
     ((\<forall>f. fault_text E f \<noteq> [])
      \<and> (\<forall>n ev e. http E n ev = HttpRaised e \<longrightarrow> exn_str e \<noteq> [])
      \<and> (\<forall>v e. pydantic_data E v = Inl e \<longrightarrow> exn_str e \<noteq> []))"

section \<open>The model client\<close>

text \<open>\<^verbatim>\<open>LLMProvider\<close> and \<^verbatim>\<open>LLMConfig\<close> of \<^verbatim>\<open>modules/llm.py\<close>.\<close>

datatype LLMProvider = MISTRAL | OPENAI | ANTHROPIC | CUSTOM

text \<open>\<^verbatim>\<open>LLMProvider(value)\<close>: the member with that value, or a \<^verbatim>\<open>ValueError\<close>.\<close>

definition LLMProvider_of :: "env \<Rightarrow> string \<Rightarrow> exn + LLMProvider" where
  "LLMProvider_of E v =
     (if v = ''mistral'' then Inr MISTRAL
      else if v = ''openai'' then Inr OPENAI
      else if v = ''anthropic'' then Inr ANTHROPIC
      else if v = ''custom'' then Inr CUSTOM
      else Inl (raise_fault E (BadEnumValue v)))"

record LLMConfig =
  provider :: LLMProvider
  api_url :: "string option"
  api_key :: "string option"
  model :: "string option"

text \<open>\<^verbatim>\<open>a or b\<close> on optional strings: \<open>a\<close> when it is neither \<^verbatim>\<open>None\<close> nor empty.\<close>

definition str_or :: "string option \<Rightarrow> string option \<Rightarrow> string option" where
  "str_or a b = (case a of None \<Rightarrow> b | Some s \<Rightarrow> if s = [] then b else Some s)"

text \<open>\<^verbatim>\<open>not a\<close> on an optional string.\<close>

definition str_missing :: "string option \<Rightarrow> bool" where
  "str_missing a = (case a of None \<Rightarrow> True | Some s \<Rightarrow> s = [])"

text \<open>
  \<^verbatim>\<open>LLMConfig.__init__\<close>. The provider is given as a member or as a value to look up.
  The only field the constructor checks is the key.
\<close>

definition LLMConfig_init ::
  "env \<Rightarrow> string option \<Rightarrow> string option \<Rightarrow> string + LLMProvider \<Rightarrow> exn + LLMConfig" where
  "LLMConfig_init E url key prov =
     (case (case prov of Inr p \<Rightarrow> Inr p | Inl v \<Rightarrow> LLMProvider_of E v) of
        Inl e \<Rightarrow> Inl e
      | Inr p \<Rightarrow>
          (let cfg = \<lparr>provider = p,
                      api_url = str_or url (getenv E ''LLM_API_URL''),
                      api_key = str_or key (getenv E ''LLM_API_KEY''),
                      model = getenv E ''LLM_MODEL''\<rparr>
           in if str_missing (api_key cfg)
              then Inl (Exn ValueError
                     ''API key not provided and LLM_API_KEY not found in environment'')
              else Inr cfg))"

text \<open>The two shapes of a reply body: \<^verbatim>\<open>result["choices"][0]["message"]["content"]\<close>
  and \<^verbatim>\<open>result["content"][0]["text"]\<close>.\<close>

definition choices_content :: "env \<Rightarrow> json \<Rightarrow> exn + json" where
  "choices_content E result =
     (case py_item E result ''choices'' of Inl e \<Rightarrow> Inl e | Inr choices \<Rightarrow>
      case py_first E choices of Inl e \<Rightarrow> Inl e | Inr choice \<Rightarrow>
      case py_item E choice ''message'' of Inl e \<Rightarrow> Inl e | Inr message \<Rightarrow>
        py_item E message ''content'')"

definition content_text :: "env \<Rightarrow> json \<Rightarrow> exn + json" where
  "content_text E result =
     (case py_item E result ''content'' of Inl e \<Rightarrow> Inl e | Inr content \<Rightarrow>
      case py_first E content of Inl e \<Rightarrow> Inl e | Inr block \<Rightarrow>
        py_item E block ''text'')"

definition extract_reply :: "env \<Rightarrow> LLMProvider \<Rightarrow> json \<Rightarrow> exn + json" where
  "extract_reply E p result =
     (case p of
        MISTRAL \<Rightarrow> choices_content E result
      | OPENAI \<Rightarrow> choices_content E result
      | ANTHROPIC \<Rightarrow> content_text E result
      | CUSTOM \<Rightarrow>
          (case choices_content E result of
             Inr v \<Rightarrow> Inr v
           | Inl e \<Rightarrow>
               (if exn_cls e = KeyError \<or> exn_cls e = IndexError
                then (case py_item E result ''response'' of
                        Inr v \<Rightarrow> Inr v
                      | Inl e' \<Rightarrow>
                          (if exn_cls e' = KeyError then Inr (JStr (py_str E result))
                           else Inl e'))
                else Inl e)))"

text \<open>The two handlers around the request of \<^verbatim>\<open>chat_prompt\<close>; any other exception
  passes.\<close>

definition chat_handler :: "exn \<Rightarrow> exn" where
  "chat_handler e =
     (if exn_cls e = RequestsTimeout \<or> exn_cls e = RequestException
      then Exn PlainException (''API request failed: '' @ exn_str e)
      else if exn_cls e = KeyError \<or> exn_cls e = IndexError
      then Exn PlainException (''Unexpected API response format: '' @ exn_str e)
      else e)"

text \<open>
  \<^verbatim>\<open>chat_prompt\<close>. The wait for the rate limiter comes first and changes nothing but
  the time (it is modelled on its own below); then the configuration is built, at every
  call, and the request is sent. The reply is what the body holds at the place of the
  text: nothing checks that it is a string.
\<close>

definition optional_json :: "string option \<Rightarrow> json" where
  "optional_json s = (case s of None \<Rightarrow> JNull | Some t \<Rightarrow> JStr t)"

definition chat_prompt ::
  "env \<Rightarrow> string + LLMProvider \<Rightarrow> world \<Rightarrow> (exn + json) \<times> world" where
  "chat_prompt E prov w =
     (case LLMConfig_init E None None prov of
        Inl e \<Rightarrow> (Inl e, w)
      | Inr config \<Rightarrow>
          (case fetch E ModelAPI (optional_json (api_url config)) w of
             (HttpRaised e, w') \<Rightarrow> (Inl (chat_handler e), w')
           | (Body result, w') \<Rightarrow>
               (case extract_reply E (provider config) result of
                  Inl e \<Rightarrow> (Inl (chat_handler e), w')
                | Inr reply \<Rightarrow> (Inr reply, w'))))"

text \<open>\<^verbatim>\<open>structured_output_prompt\<close>: one call of the model, then the parser.
  \<^verbatim>\<open>response.strip()\<close> needs a string.\<close>

definition structured_output_prompt ::
  "env \<Rightarrow> string + LLMProvider \<Rightarrow> world \<Rightarrow> (exn + json list) \<times> world" where
  "structured_output_prompt E prov w =
     (case chat_prompt E prov w of
        (Inl e, w') \<Rightarrow> (Inl e, w')
      | (Inr reply, w') \<Rightarrow>
          (case reply of
             JStr raw \<Rightarrow> (parse_reply (json_loads E) raw, w')
           | _ \<Rightarrow> (Inl (raise_fault E (NoAttribute reply ''strip'')), w')))"

section \<open>The orchestrator\<close>

text \<open>
  \<^verbatim>\<open>LLMAgent.process_request\<close> of \<^verbatim>\<open>main.py\<close>. Line 62 prints
  \<^verbatim>\<open>cmd['command']\<close> and \<^verbatim>\<open>cmd['params']\<close> of every command of the plan before any
  tool runs, so a plan with an item that has no such keys raises there.
\<close>

fun plan_commands :: "env \<Rightarrow> json list \<Rightarrow> exn + (json \<times> json) list" where
  "plan_commands E [] = Inr []"
| "plan_commands E (cmd # rest) =
     (case py_item E cmd ''command'' of Inl e \<Rightarrow> Inl e | Inr command \<Rightarrow>
      case py_item E cmd ''params'' of Inl e \<Rightarrow> Inl e | Inr params \<Rightarrow>
      case plan_commands E rest of Inl e \<Rightarrow> Inl e | Inr cmds \<Rightarrow>
        Inr ((command, params) # cmds))"

text \<open>
  Lines 65 to 70: \<^verbatim>\<open>asyncio.gather\<close> over the commands. No tool awaits anything, so
  the calls run one after the other, in the order of the plan, and all of them run.
\<close>

fun run_plan ::
  "env \<Rightarrow> ToolManager \<Rightarrow> (json \<times> json) list \<Rightarrow> world \<Rightarrow> ToolResponse list \<times> world" where
  "run_plan E tm [] w = ([], w)"
| "run_plan E tm ((command, params) # rest) w =
     (case execute_command E tm command params w of
        (resp, w') \<Rightarrow>
          (case run_plan E tm rest w' of
             (resps, w'') \<Rightarrow> (resp # resps, w'')))"

text \<open>\<^verbatim>\<open>'; '.join(errors)\<close>: every element must be a string.\<close>

fun join_errors :: "env \<Rightarrow> nat \<Rightarrow> string option list \<Rightarrow> exn + string list" where
  "join_errors E i [] = Inr []"
| "join_errors E i (None # rest) = Inl (raise_fault E (JoinNotStr i))"
| "join_errors E i (Some s # rest) =
     (case join_errors E (Suc i) rest of Inl e \<Rightarrow> Inl e | Inr ss \<Rightarrow> Inr (s # ss))"

text \<open>Lines 121 to 127: one search per query, kept when it succeeded.\<close>

fun search_each ::
  "env \<Rightarrow> ToolManager \<Rightarrow> json list \<Rightarrow> json list \<Rightarrow> world \<Rightarrow> json list \<times> world" where
  "search_each E tm [] additional_info w = (additional_info, w)"
| "search_each E tm (query # rest) additional_info w =
     (case execute_command E tm (JStr ''search'') (JObj [(''query'', query)]) w of
        (search_result, w') \<Rightarrow>
          search_each E tm rest
            (if success search_result
             then additional_info @ [JObj [(''query'', query), (''data'', JObj (data search_result))]]
             else additional_info)
            w')"

text \<open>Lines 117 to 127: the enrichment. \<^verbatim>\<open>analysis.get\<close> needs a dict.\<close>

definition enrich ::
  "env \<Rightarrow> ToolManager \<Rightarrow> json \<Rightarrow> world \<Rightarrow> (exn + json list) \<times> world" where
  "enrich E tm analysis w =
     (case py_get E analysis ''needs_search'' of
        Inl e \<Rightarrow> (Inl e, w)
      | Inr needs_search \<Rightarrow>
          (if truthy needs_search
           then (case py_iter E needs_search of
                   Inl e \<Rightarrow> (Inl e, w)
                 | Inr queries \<Rightarrow>
                     (case search_each E tm queries [] w of
                        (additional_info, w') \<Rightarrow> (Inr additional_info, w')))
           else (Inr [], w)))"

definition errors_text :: "string list \<Rightarrow> string" where
  "errors_text errors = ''Error(s) occurred: '' @ join ''; '' errors"

definition process_request ::
  "env \<Rightarrow> ToolManager \<Rightarrow> string \<Rightarrow> world \<Rightarrow> (exn + json) \<times> world" where
  "process_request E tm user_input w =
     (case structured_output_prompt E (Inr MISTRAL) w of
        (Inl e, w1) \<Rightarrow> (Inl e, w1)
      | (Inr plan, w1) \<Rightarrow>
     (case plan_commands E plan of
        Inl e \<Rightarrow> (Inl e, w1)
      | Inr cmds \<Rightarrow>
     (case run_plan E tm cmds w1 of (tool_responses, w2) \<Rightarrow>
     (let errors = map error (filter (\<lambda>resp. \<not> success resp) tool_responses) in
      if errors \<noteq> []
      then (case join_errors E 0 errors of
              Inl e \<Rightarrow> (Inl e, w2)
            | Inr es \<Rightarrow> (Inr (JStr (errors_text es)), w2))
      else
     (case structured_output_prompt E (Inr MISTRAL) w2 of
        (Inl e, w3) \<Rightarrow> (Inl e, w3)
      | (Inr drafts, w3) \<Rightarrow>
     (case py_first E (JArr drafts) of
        Inl e \<Rightarrow> (Inl e, w3)
      | Inr analysis \<Rightarrow>
     (case enrich E tm analysis w3 of
        (Inl e, w4) \<Rightarrow> (Inl e, w4)
      | (Inr additional_info, w4) \<Rightarrow> chat_prompt E (Inr MISTRAL) w4)))))))"

text \<open>
  Lines 77 to 150 of \<^verbatim>\<open>main.py\<close> on their own: what \<^verbatim>\<open>process_request\<close> does once
  the responses of the plan hold no failure, from the world the plan left. It is the draft,
  the enrichment and the final answer.
\<close>

definition draft_and_finalize :: "env \<Rightarrow> ToolManager \<Rightarrow> world \<Rightarrow> (exn + json) \<times> world" where
  "draft_and_finalize E tm w2 =
     (case structured_output_prompt E (Inr MISTRAL) w2 of
        (Inl e, w3) \<Rightarrow> (Inl e, w3)
      | (Inr drafts, w3) \<Rightarrow>
     (case py_first E (JArr drafts) of
        Inl e \<Rightarrow> (Inl e, w3)
      | Inr analysis \<Rightarrow>
     (case enrich E tm analysis w3 of
        (Inl e, w4) \<Rightarrow> (Inl e, w4)
      | (Inr additional_info, w4) \<Rightarrow> chat_prompt E (Inr MISTRAL) w4)))"

text \<open>
  Two descriptions for stating what the enrichment collects: the responses of the
  searches for a list of queries, in order, each run in the world the one before left;
  and the items made of the queries whose response succeeded.
\<close>

fun search_responses :: "env \<Rightarrow> ToolManager \<Rightarrow> json list \<Rightarrow> world \<Rightarrow> ToolResponse list" where
  "search_responses E tm [] w = []"
| "search_responses E tm (query # rest) w =
     (case execute_command E tm (JStr ''search'') (JObj [(''query'', query)]) w of
        (r, w') \<Rightarrow> r # search_responses E tm rest w')"

definition enrichment_items :: "json list \<Rightarrow> ToolResponse list \<Rightarrow> json list" where
  "enrichment_items queries responses =
     map (\<lambda>qr. JObj [(''query'', fst qr), (''data'', JObj (data (snd qr)))])
         (filter (\<lambda>qr. success (snd qr)) (zip queries responses))"

text \<open>The items of all the queries, whatever their responses.\<close>

definition all_items :: "json list \<Rightarrow> ToolResponse list \<Rightarrow> json list" where
  "all_items queries responses =
     map (\<lambda>qr. JObj [(''query'', fst qr), (''data'', JObj (data (snd qr)))])
         (zip queries responses)"

text \<open>The number of requests to the model in a world.\<close>

fun is_model_request :: "event \<Rightarrow> bool" where
  "is_model_request (Request svc arg) = (svc = ModelAPI)"

definition model_calls :: "world \<Rightarrow> nat" where
  "model_calls w = length (filter is_model_request w)"

section \<open>The rate limiter\<close>

text \<open>
  \<^verbatim>\<open>RateLimiter\<close> of \<^verbatim>\<open>modules/llm.py\<close>. Time is a real number of seconds and the
  clock is part of the state. \<^verbatim>\<open>asyncio.sleep(t)\<close> returns \<open>t\<close> seconds later plus a
  lateness that the scheduler decides; between the end of the sleep and the reading of
  the clock that is stored, a further delay passes.
\<close>

record RateLimiter =
  requests_per_minute :: int
  interval :: real
  last_request_time :: real

definition new_limiter :: "int \<Rightarrow> RateLimiter" where
  "new_limiter rpm =
     \<lparr>requests_per_minute = rpm, interval = 60 / real_of_int rpm, last_request_time = 0\<rparr>"

text \<open>\<^verbatim>\<open>RateLimiter.__init__\<close>: \<^verbatim>\<open>60.0 / requests_per_minute\<close> raises on zero.\<close>

definition RateLimiter_init :: "int \<Rightarrow> exn + RateLimiter" where
  "RateLimiter_init rpm =
     (if rpm = 0 then Inl (Exn OtherException ''float division by zero'')
      else Inr (new_limiter rpm))"

text \<open>The global instance, \<^verbatim>\<open>RateLimiter(requests_per_minute=10)\<close>.\<close>

definition rate_limiter :: RateLimiter where
  "rate_limiter = new_limiter 10"

text \<open>
  \<^verbatim>\<open>RateLimiter.wait\<close>, from the limiter and the time \<open>now\<close> at which it is called to
  the limiter and the time at which it returns. \<open>lateness\<close> is how much longer than asked
  the sleep took, \<open>delay\<close> the time between the sleep and the last reading of the clock.
\<close>

definition wait :: "real \<Rightarrow> real \<Rightarrow> RateLimiter \<times> real \<Rightarrow> RateLimiter \<times> real" where
  "wait lateness delay st =
     (case st of (rl, now) \<Rightarrow>
        (let current_time = now;
             time_since_last_request = current_time - last_request_time rl;
             after_sleep = (if time_since_last_request < interval rl
                            then now + (interval rl - time_since_last_request) + lateness
                            else now);
             stamp = after_sleep + delay
         in (rl\<lparr>last_request_time := stamp\<rparr>, stamp)))"

section \<open>Sample environments\<close>

text \<open>
  Concrete worlds on which the theorems below are run. In \<open>offline_env\<close> every request
  fails with a connection error, the decoder rejects every text and only the API key is
  set; the others change one part of it.
\<close>

definition quoted :: "string \<Rightarrow> string" where
  "quoted s = [CHR 0x22] @ s @ [CHR 0x22]"

definition sample_clock :: clock_reading where
  "sample_clock = \<lparr>hm = ''09:30 AM'', date = ''Monday, January 01, 2024'',
                    unix_timestamp = 1704101400, is_dst = True\<rparr>"

definition offline_env :: env where
  "offline_env =
     \<lparr>json_loads = (\<lambda>s. DecodeError ''Expecting value''),
      http = (\<lambda>n ev. HttpRaised (Exn RequestException ''connection refused'')),
      getenv = (\<lambda>k. if k = ''LLM_API_KEY'' then Some ''secret'' else None),
      py_repr = (\<lambda>v. ''<value>''),
      fault_text = (\<lambda>f. ''fault''),
      pydantic_data = (\<lambda>v. Inl (Exn ValidationError ''Input should be a valid dictionary'')),
      pytz_timezone = (\<lambda>v. if v = JStr ''Europe/London'' then TzFound else TzUnknown),
      clock = (\<lambda>v. sample_clock),
      utc_hm = ''09:30 AM''\<rparr>"

definition sample_manager :: ToolManager where
  "sample_manager = ToolManager_init offline_env fallback_location"

text \<open>A world whose news service answers with the empty object.\<close>

definition empty_news_env :: env where
  "empty_news_env = offline_env\<lparr>http := (\<lambda>n ev. Body (JObj []))\<rparr>"

text \<open>A world without any of the three variables of the model client.\<close>

definition bare_env :: env where
  "bare_env = offline_env\<lparr>getenv := (\<lambda>k. None)\<rparr>"

text \<open>A decoder that knows two texts.\<close>

definition two_texts :: "string \<Rightarrow> loads_outcome" where
  "two_texts s =
     (if s = ''[1, 2]'' then Decoded (JArr [JInt 1, JInt 2])
      else if s = ''{}'' then Decoded (JObj [])
      else DecodeError ''Expecting value'')"

text \<open>Four replies: an array inside a \<^verbatim>\<open>json\<close> fence, an object inside a bare fence,
  an object followed by prose, and the array inside a \<^verbatim>\<open>python\<close> fence.\<close>

definition fenced_json_reply :: string where
  "fenced_json_reply = ''```json'' @ [newline] @ ''[1, 2]'' @ [newline] @ ''```''"

definition fenced_bare_reply :: string where
  "fenced_bare_reply = ''```'' @ [newline] @ ''{}'' @ [newline] @ ''```''"

definition plain_reply :: string where
  "plain_reply = ''  {} as requested''"

definition fenced_python_reply :: string where
  "fenced_python_reply = ''```python'' @ [newline] @ ''[1, 2]'' @ [newline] @ ''```''"

text \<open>
  A world in which the model answers its first request with a plan of two commands, one
  outside the allow-list and \<^verbatim>\<open>help\<close>.
\<close>

definition plan_text :: string where
  "plan_text =
     ''[{'' @ quoted ''command'' @ '': '' @ quoted ''delete'' @ '', ''
           @ quoted ''params'' @ '': {}}, {''
           @ quoted ''command'' @ '': '' @ quoted ''help'' @ '', ''
           @ quoted ''params'' @ '': {}}]''"

definition plan_value :: json where
  "plan_value =
     JArr [JObj [(''command'', JStr ''delete''), (''params'', JObj [])],
           JObj [(''command'', JStr ''help''), (''params'', JObj [])]]"

definition model_body :: "string \<Rightarrow> json" where
  "model_body text =
     JObj [(''choices'', JArr [JObj [(''message'', JObj [(''content'', JStr text)])]])]"

definition planning_env :: env where
  "planning_env =
     offline_env
       \<lparr>json_loads := (\<lambda>s. if s = plan_text then Decoded plan_value
                            else DecodeError ''Expecting value''),
        http := (\<lambda>n ev. if ev = Request ModelAPI JNull then Body (model_body plan_text)
                         else HttpRaised (Exn RequestException ''connection refused''))\<rparr>"

text \<open>
  A world in which the model answers its first request with a plan of one command,
  \<^verbatim>\<open>weather\<close> without parameters, and every later request is refused.
\<close>

definition weather_plan_text :: string where
  "weather_plan_text =
     ''[{'' @ quoted ''command'' @ '': '' @ quoted ''weather'' @ '', ''
           @ quoted ''params'' @ '': {}}]''"

definition weather_plan_value :: json where
  "weather_plan_value = JArr [JObj [(''command'', JStr ''weather''), (''params'', JObj [])]]"

definition weather_plan_env :: env where
  "weather_plan_env =
     offline_env
       \<lparr>json_loads := (\<lambda>s. if s = weather_plan_text then Decoded weather_plan_value
                            else DecodeError ''Expecting value''),
        http := (\<lambda>n ev. if n = 0 then Body (model_body weather_plan_text)
                         else HttpRaised (Exn RequestException ''connection refused''))\<rparr>"

text \<open>A body of the search service with one item.\<close>

definition search_body :: json where
  "search_body = JObj [(''items'', JArr [JObj [(''title'', JStr ''T''), (''snippet'', JStr ''S''),
                                              (''link'', JStr ''L'')]])]"

text \<open>
  A world for a whole request: the model answers the first request with the empty plan,
  the second with an analysis that asks for two searches and the fifth with the final
  text; the first search finds one item, the second times out.
\<close>

definition draft_text :: string where
  "draft_text = ''{'' @ quoted ''needs_search'' @ '': ['' @ quoted ''a'' @ '', '' @ quoted ''b''
                @ '']}''"

definition draft_value :: json where
  "draft_value = JObj [(''needs_search'', JArr [JStr ''a'', JStr ''b''])]"

definition dialogue_env :: env where
  "dialogue_env =
     offline_env
       \<lparr>json_loads := (\<lambda>s. if s = ''[]'' then Decoded (JArr [])
                            else if s = draft_text then Decoded draft_value
                            else DecodeError ''Expecting value''),
        http := (\<lambda>n ev. if n = 0 then Body (model_body ''[]'')
                         else if n = 1 then Body (model_body draft_text)
                         else if n = 2 then Body search_body
                         else if n = 3 then HttpRaised (Exn RequestsTimeout ''timed out'')
                         else Body (model_body ''Done.''))\<rparr>"

section \<open>Properties of the dispatcher\<close>

lemma map_of_dict_set: "map_of (dict_set d k v) = (map_of d)(k \<mapsto> v)"
  by (simp add: dict_set_def AList.update_conv')

lemma map_of_dict_update:
  "distinct (map fst other) \<Longrightarrow>
   map_of (dict_update d other) k =
     (case map_of other k of Some v \<Rightarrow> Some v | None \<Rightarrow> map_of d k)"
proof (induction other arbitrary: d)
  case Nil
  then show ?case by (simp add: dict_update_def)
next
  case (Cons p ps)
  obtain a b where p: "p = (a, b)" by (cases p)
  from Cons.prems p have notin: "a \<notin> fst ` set ps" and dist: "distinct (map fst ps)"
    by auto
  have step: "dict_update d ((a, b) # ps) = dict_update (dict_set d a b) ps"
    by (simp add: dict_update_def)
  have eq: "map_of (dict_update d ((a, b) # ps)) k =
              (case map_of ps k of Some v \<Rightarrow> Some v | None \<Rightarrow> map_of (dict_set d a b) k)"
    unfolding step by (rule Cons.IH [OF dist])
  have none: "map_of ps a = None"
    using notin by (simp add: map_of_eq_None_iff)
  show ?case
    using none by (auto simp: p eq map_of_dict_set split: option.splits)
qed

lemma not_allowed_text_nonempty: "not_allowed_text c \<noteq> []"
  by (simp add: not_allowed_text_def)

lemma delete_not_allowed: "''delete'' \<notin> set ALLOWED_COMMANDS"
  by (simp add: ALLOWED_COMMANDS_def)

text \<open>
  Claim C4. A command name outside the allow-list, with any parameters, gets a response
  with \<open>success = False\<close> and a text that is not empty in \<open>error\<close>; the world comes back
  as it went in, so no tool ran and no request was made.
\<close>

theorem execute_command_not_allowed:
  assumes "c \<notin> set ALLOWED_COMMANDS"
  shows "execute_command E tm (JStr c) params w =
           (\<lparr>success = False, data = [], error = Some (not_allowed_text c)\<rparr>, w)
         \<and> not_allowed_text c \<noteq> []"
  using assms by (simp add: execute_command_def failure_def not_allowed_text_nonempty)

theorem execute_command_not_allowed_witness:
  "''delete'' \<notin> set ALLOWED_COMMANDS
   \<and> execute_command offline_env sample_manager (JStr ''delete'') (JObj []) [] =
       (\<lparr>success = False, data = [], error = Some (not_allowed_text ''delete'')\<rparr>, [])
   \<and> not_allowed_text ''delete'' \<noteq> []"
  using execute_command_not_allowed [OF delete_not_allowed, of offline_env sample_manager "JObj []" "[]"]
    delete_not_allowed
  by simp

text \<open>
  Claim C5. For parameters that are a mapping, the merge never fails and the merged
  mapping is the defaults of the command overlaid with the caller's parameters key by
  key: a key the caller gives has the caller's value, a key the caller leaves out has the
  default's value when there is one. (A Python dict holds no key twice.)
\<close>

theorem merge_params_overlay:
  assumes "distinct (map fst params)"
  shows "\<exists>merged. merge_params E tm command (JObj params) = Inr merged
           \<and> (\<forall>k. map_of merged k =
                  (case map_of params k of
                     Some v \<Rightarrow> Some v
                   | None \<Rightarrow> map_of (defaults_for tm command) k))"
proof (cases "params = []")
  case True
  then show ?thesis
    by (simp add: merge_params_def)
next
  case False
  then have "merge_params E tm command (JObj params) =
               Inr (dict_update (defaults_for tm command) params)"
    by (simp add: merge_params_def py_dict_update_def)
  moreover have "\<forall>k. map_of (dict_update (defaults_for tm command) params) k =
                  (case map_of params k of
                     Some v \<Rightarrow> Some v
                   | None \<Rightarrow> map_of (defaults_for tm command) k)"
    using map_of_dict_update [OF assms] by blast
  ultimately show ?thesis
    by blast
qed

theorem merge_params_overlay_witness:
  "distinct (map fst [(''location'', JStr ''Paris'')])
   \<and> (\<exists>merged. merge_params offline_env sample_manager ''weather''
                  (JObj [(''location'', JStr ''Paris'')]) = Inr merged
         \<and> map_of merged ''location'' = Some (JStr ''Paris''))
   \<and> (\<exists>merged. merge_params offline_env sample_manager ''weather'' (JObj []) = Inr merged
         \<and> map_of merged ''location'' = Some (JStr ''London, UK''))"
proof -
  have d1: "distinct (map fst [(''location'', JStr ''Paris'')])" by simp
  have d2: "distinct (map fst ([] :: dict))" by simp
  have dflt: "map_of (defaults_for sample_manager ''weather'') ''location''
                = Some (JStr ''London, UK'')"
    by (simp add: defaults_for_def sample_manager_def ToolManager_init_def
        fallback_location_def py_str_def)
  from merge_params_overlay [OF d1, of offline_env sample_manager "''weather''"]
  have a: "\<exists>merged. merge_params offline_env sample_manager ''weather''
                  (JObj [(''location'', JStr ''Paris'')]) = Inr merged
         \<and> map_of merged ''location'' = Some (JStr ''Paris'')"
    by auto
  from merge_params_overlay [OF d2, of offline_env sample_manager "''weather''"] dflt
  have b: "\<exists>merged. merge_params offline_env sample_manager ''weather'' (JObj []) = Inr merged
         \<and> map_of merged ''location'' = Some (JStr ''London, UK'')"
    by auto
  from d1 a b show ?thesis by blast
qed

lemma search_failed_nonempty: "search_failed E q e \<noteq> []"
  by (simp add: search_failed_def)

lemma search_result:
  "\<exists>d. search E q w = (d, w @ [Request SearchAPI q]) \<and> d \<noteq> []"
  unfolding search_def fetch_def
  by (simp add: search_failed_nonempty split: http_outcome.splits sum.splits)

lemma weather_handler_nonempty: "weather_handler loc e \<noteq> []"
  by (simp add: weather_handler_def weather_failed_def)

lemma weather_report_nonempty: "weather_report E loc body = Inr d \<Longrightarrow> d \<noteq> []"
  unfolding weather_report_def
  by (simp split: json.splits sum.splits if_splits) auto

lemma get_weather_result:
  "\<exists>d. get_weather E loc w = (d, w @ [Request WeatherAPI loc]) \<and> d \<noteq> []"
  unfolding get_weather_def fetch_def
  by (simp add: weather_handler_nonempty weather_report_nonempty
      split: http_outcome.splits sum.splits)

lemma get_time_nonempty: "get_time E loc tz \<noteq> []"
  by (simp add: get_time_def Let_def split: tz_outcome.splits)

lemma help_result_nonempty: "help_result E tm \<noteq> []"
  by (simp add: help_result_def)

lemma run_tool_shape:
  assumes "run_tool E tm c params w = (Inr result, w')" and "c \<noteq> ''news''"
  shows "\<exists>d. result = JObj d \<and> d \<noteq> []"
proof -
  obtain tp where m: "merge_params E tm c params = Inr tp"
    using assms(1) by (cases "merge_params E tm c params") (simp_all add: run_tool_def)
  obtain ds where s: "search E (dict_get tp ''query'') w
                        = (ds, w @ [Request SearchAPI (dict_get tp ''query'')])" "ds \<noteq> []"
    using search_result by blast
  obtain dw where g: "get_weather E (dict_get tp ''location'') w
                        = (dw, w @ [Request WeatherAPI (dict_get tp ''location'')])" "dw \<noteq> []"
    using get_weather_result by blast
  have unfolded: "run_tool E tm c params w =
          (if c = ''search'' then (Inr (JObj ds), w @ [Request SearchAPI (dict_get tp ''query'')])
           else if c = ''news'' then get_latest_news E (dict_get tp ''topic'') w
           else if c = ''weather''
           then (Inr (JObj dw), w @ [Request WeatherAPI (dict_get tp ''location'')])
           else if c = ''time''
           then (Inr (JObj (get_time E (location tm) (dict_get tp ''timezone''))), w)
           else (Inr (JObj (help_result E tm)), w))"
    by (simp add: run_tool_def m s(1) g(1))
  consider "c = ''search''" | "c \<noteq> ''search''" "c = ''weather''"
    | "c \<noteq> ''search''" "c \<noteq> ''weather''" "c = ''time''"
    | "c \<noteq> ''search''" "c \<noteq> ''weather''" "c \<noteq> ''time''"
    by blast
  then show ?thesis
  proof cases
    case 1
    have "run_tool E tm c params w
            = (Inr (JObj ds), w @ [Request SearchAPI (dict_get tp ''query'')])"
      using unfolded 1 by simp
    with assms(1) have "result = JObj ds" by simp
    with s(2) show ?thesis by simp
  next
    case 2
    have "run_tool E tm c params w
            = (Inr (JObj dw), w @ [Request WeatherAPI (dict_get tp ''location'')])"
      using unfolded 2 by simp
    with assms(1) have "result = JObj dw" by simp
    with g(2) show ?thesis by simp
  next
    case 3
    have "run_tool E tm c params w
            = (Inr (JObj (get_time E (location tm) (dict_get tp ''timezone''))), w)"
      using unfolded 3 by simp
    with assms(1) have "result = JObj (get_time E (location tm) (dict_get tp ''timezone''))"
      by simp
    then show ?thesis by (simp add: get_time_nonempty)
  next
    case 4
    have "run_tool E tm c params w = (Inr (JObj (help_result E tm)), w)"
      using unfolded 4 assms(2) by simp
    with assms(1) have "result = JObj (help_result E tm)" by simp
    then show ?thesis by (simp add: help_result_nonempty)
  qed
qed

lemma execute_command_non_string:
  assumes "\<And>c. command \<noteq> JStr c"
  shows "execute_command E tm command params w =
           (failure (not_allowed_text (py_str E command)), w)"
proof (cases command)
  case (JStr c)
  with assms show ?thesis by blast
qed (simp_all add: execute_command_def)

lemma news_empty_eval:
  "execute_command empty_news_env sample_manager (JStr ''news'') (JObj []) [] =
     (\<lparr>success = True, data = [], error = None\<rparr>, [Request NewsAPI (JStr ''technology'')])"
  by (simp add: execute_command_def ALLOWED_COMMANDS_def run_tool_def merge_params_def
      defaults_for_def sample_manager_def ToolManager_init_def get_latest_news_def fetch_def
      empty_news_env_def offline_env_def validate_data_def dict_get_def dict_get_default_def)

lemma news_offline_eval:
  "execute_command offline_env sample_manager (JStr ''news'') (JObj []) [] =
     (\<lparr>success = False, data = [], error = Some ''connection refused''\<rparr>,
      [Request NewsAPI (JStr ''technology'')])"
  by (simp add: execute_command_def ALLOWED_COMMANDS_def run_tool_def merge_params_def
      defaults_for_def sample_manager_def ToolManager_init_def get_latest_news_def fetch_def
      offline_env_def failure_def dict_get_def dict_get_default_def)

lemma allowed_commands:
  "''search'' \<in> set ALLOWED_COMMANDS" "''news'' \<in> set ALLOWED_COMMANDS"
  "''weather'' \<in> set ALLOWED_COMMANDS" "''time'' \<in> set ALLOWED_COMMANDS"
  "''help'' \<in> set ALLOWED_COMMANDS"
  by (simp_all add: ALLOWED_COMMANDS_def)

lemma execute_merge_failed:
  assumes "c \<in> set ALLOWED_COMMANDS" and "merge_params E tm c params = Inl e"
  shows "execute_command E tm (JStr c) params w = (failure (exn_str e), w)"
  using assms by (simp add: execute_command_def run_tool_def)

lemma execute_search:
  assumes "merge_params E tm ''search'' params = Inr tp"
  shows "execute_command E tm (JStr ''search'') params w =
           (\<lparr>success = True, data = fst (search E (dict_get tp ''query'') w), error = None\<rparr>,
            snd (search E (dict_get tp ''query'') w))"
  using assms
  by (simp add: execute_command_def allowed_commands run_tool_def validate_data_def
      split: prod.splits)

lemma execute_weather:
  assumes "merge_params E tm ''weather'' params = Inr tp"
  shows "execute_command E tm (JStr ''weather'') params w =
           (\<lparr>success = True, data = fst (get_weather E (dict_get tp ''location'') w), error = None\<rparr>,
            snd (get_weather E (dict_get tp ''location'') w))"
  using assms
  by (simp add: execute_command_def allowed_commands run_tool_def validate_data_def
      split: prod.splits)

lemma execute_time:
  assumes "merge_params E tm ''time'' params = Inr tp"
  shows "execute_command E tm (JStr ''time'') params w =
           (\<lparr>success = True, data = get_time E (location tm) (dict_get tp ''timezone''),
             error = None\<rparr>, w)"
  using assms
  by (simp add: execute_command_def allowed_commands run_tool_def validate_data_def)

lemma execute_help:
  assumes "merge_params E tm ''help'' params = Inr tp"
  shows "execute_command E tm (JStr ''help'') params w =
           (\<lparr>success = True, data = help_result E tm, error = None\<rparr>, w)"
  using assms
  by (simp add: execute_command_def allowed_commands run_tool_def validate_data_def)

lemma execute_news:
  assumes "merge_params E tm ''news'' params = Inr tp"
  shows "execute_command E tm (JStr ''news'') params w =
           (case get_latest_news E (dict_get tp ''topic'') w of
              (Inl e, w') \<Rightarrow> (failure (exn_str e), w')
            | (Inr body, w') \<Rightarrow>
                (case validate_data E body of
                   Inl e \<Rightarrow> (failure (exn_str e), w')
                 | Inr d \<Rightarrow> (\<lparr>success = True, data = d, error = None\<rparr>, w')))"
  using assms
  by (simp add: execute_command_def allowed_commands run_tool_def)

lemma update_pairs_fault:
  "update_pairs E i d items = Inl e \<Longrightarrow> \<exists>f. e = raise_fault E f"
proof (induction items arbitrary: i d)
  case Nil
  then show ?case by simp
next
  case (Cons item rest)
  show ?case
  proof (cases "py_iter E item")
    case (Inl e')
    with Cons.prems show ?thesis by auto
  next
    case (Inr elems)
    show ?thesis
    proof (cases "\<exists>key val. elems = [key, val]")
      case False
      then have "update_pairs E i d (item # rest) = Inl (raise_fault E (UpdateElemLength i item))"
        using Inr
        by (cases elems; cases "tl elems"; cases "tl (tl elems)") auto
      with Cons.prems show ?thesis by auto
    next
      case True
      then obtain key val where kv: "elems = [key, val]" by blast
      show ?thesis
        using Cons.prems Inr kv Cons.IH
        by (cases key) auto
    qed
  qed
qed

lemma merge_params_fault:
  assumes "merge_params E tm c params = Inl e"
  shows "\<exists>f. e = raise_fault E f"
proof -
  from assms have u: "py_dict_update E (defaults_for tm c) params = Inl e"
    by (simp add: merge_params_def Let_def split: if_splits)
  show ?thesis
  proof (cases "\<exists>other. params = JObj other")
    case True
    with u show ?thesis by (auto simp: py_dict_update_def)
  next
    case False
    show ?thesis
    proof (cases "py_iter E params")
      case (Inl e')
      with u False have "e = e'"
        by (cases params) (auto simp: py_dict_update_def)
      moreover from Inl have "\<exists>f. e' = raise_fault E f"
        by (cases params) (auto simp: py_iter_def)
      ultimately show ?thesis by simp
    next
      case (Inr items)
      with u False have "update_pairs E 0 (defaults_for tm c) items = Inl e"
        by (cases params) (auto simp: py_dict_update_def)
      then show ?thesis by (rule update_pairs_fault)
    qed
  qed
qed

lemma raise_fault_text: "exn_str (raise_fault E f) = fault_text E f"
  by (simp add: raise_fault_def)

lemma run_tool_raised:
  assumes "run_tool E tm c params w = (Inl e, w')"
  shows "(\<exists>f. e = raise_fault E f) \<or> (\<exists>n ev. http E n ev = HttpRaised e)"
proof (cases "merge_params E tm c params")
  case (Inl e')
  with assms have "e = e'" by (simp add: run_tool_def)
  with merge_params_fault [OF Inl] show ?thesis by simp
next
  case (Inr tp)
  obtain ds ws where s: "search E (dict_get tp ''query'') w = (ds, ws)"
    by (cases "search E (dict_get tp ''query'') w")
  obtain dw ww where g: "get_weather E (dict_get tp ''location'') w = (dw, ww)"
    by (cases "get_weather E (dict_get tp ''location'') w")
  have unfolded: "run_tool E tm c params w =
          (if c = ''search'' then (Inr (JObj ds), ws)
           else if c = ''news'' then get_latest_news E (dict_get tp ''topic'') w
           else if c = ''weather'' then (Inr (JObj dw), ww)
           else if c = ''time''
           then (Inr (JObj (get_time E (location tm) (dict_get tp ''timezone''))), w)
           else (Inr (JObj (help_result E tm)), w))"
    by (simp add: run_tool_def Inr s g)
  have news: "get_latest_news E (dict_get tp ''topic'') w = (Inl e, w')"
  proof (cases "c = ''news''")
    case True
    with unfolded assms show ?thesis by simp
  next
    case False
    with unfolded assms have False
      by (cases "c = ''search''"; cases "c = ''weather''"; cases "c = ''time''") simp_all
    then show ?thesis ..
  qed
  then have "\<exists>n ev. http E n ev = HttpRaised e"
    by (auto simp: get_latest_news_def fetch_def split: http_outcome.splits)
  then show ?thesis ..
qed

lemma failure_message_nonempty:
  assumes ne: "messages_nonempty E"
    and ex: "execute_command E tm command params w = (r, w')"
    and f: "\<not> success r"
  shows "\<exists>msg. error r = Some msg \<and> msg \<noteq> []"
proof (cases "\<exists>c. command = JStr c")
  case False
  then have "execute_command E tm command params w =
               (failure (not_allowed_text (py_str E command)), w)"
    by (intro execute_command_non_string) blast
  with ex show ?thesis by (auto simp: failure_def not_allowed_text_nonempty)
next
  case True
  then obtain c where c: "command = JStr c" by blast
  show ?thesis
  proof (cases "c \<in> set ALLOWED_COMMANDS")
    case False
    with ex c show ?thesis
      by (auto simp: execute_command_def failure_def not_allowed_text_nonempty)
  next
    case True
    obtain res w1 where rt: "run_tool E tm c params w = (res, w1)"
      by (cases "run_tool E tm c params w")
    show ?thesis
    proof (cases res)
      case (Inl e)
      from run_tool_raised [OF rt [unfolded Inl]] ne have "exn_str e \<noteq> []"
        by (auto simp: messages_nonempty_def raise_fault_text)
      moreover from ex c True rt Inl have "r = failure (exn_str e)"
        by (simp add: execute_command_def)
      ultimately show ?thesis by (simp add: failure_def)
    next
      case (Inr result)
      show ?thesis
      proof (cases "validate_data E result")
        case (Inl e)
        then have "pydantic_data E result = Inl e"
          by (cases result) (simp_all add: validate_data_def)
        with ne have "exn_str e \<noteq> []"
          by (auto simp: messages_nonempty_def)
        moreover from ex c True rt Inr Inl have "r = failure (exn_str e)"
          by (simp add: execute_command_def)
        ultimately show ?thesis by (simp add: failure_def)
      next
        case vd: (Inr d)
        with ex c True rt Inr f show ?thesis
          by (auto simp: execute_command_def)
      qed
    qed
  qed
qed


lemma execute_command_shape:
  assumes "execute_command E tm command params w = (r, w')"
  shows "(success r \<longrightarrow> error r = None)
       \<and> (\<not> success r \<longrightarrow> data r = [] \<and> (\<exists>msg. error r = Some msg))
       \<and> (success r \<and> command \<noteq> JStr ''news'' \<longrightarrow> data r \<noteq> [])"
proof (cases "\<exists>c. command = JStr c")
  case False
  then have "execute_command E tm command params w =
               (failure (not_allowed_text (py_str E command)), w)"
    by (intro execute_command_non_string) blast
  with assms have "r = failure (not_allowed_text (py_str E command))"
    by simp
  then show ?thesis
    by (simp add: failure_def)
next
  case True
  then obtain c where JStr: "command = JStr c" by blast
  show ?thesis
  proof (cases "c \<in> set ALLOWED_COMMANDS")
    case False
    with assms JStr have "r = failure (not_allowed_text c)"
      by (simp add: execute_command_def)
    then show ?thesis
      by (simp add: failure_def)
  next
    case True
    obtain res w1 where rt: "run_tool E tm c params w = (res, w1)"
      by (cases "run_tool E tm c params w")
    show ?thesis
    proof (cases res)
      case (Inl e)
      with assms JStr True rt have "r = failure (exn_str e)"
        by (simp add: execute_command_def)
      then show ?thesis
        by (simp add: failure_def)
    next
      case (Inr result)
      show ?thesis
      proof (cases "validate_data E result")
        case (Inl e)
        with assms JStr True rt Inr have "r = failure (exn_str e)"
          by (simp add: execute_command_def)
        then show ?thesis
          by (simp add: failure_def)
      next
        case vd: (Inr d)
        with assms JStr True rt Inr have r: "r = \<lparr>success = True, data = d, error = None\<rparr>"
          by (simp add: execute_command_def)
        have "d \<noteq> []" if "c \<noteq> ''news''"
        proof -
          from run_tool_shape [OF rt [unfolded Inr] that]
          obtain d' where "result = JObj d'" "d' \<noteq> []" by blast
          with vd show ?thesis by (simp add: validate_data_def)
        qed
        with r JStr show ?thesis
          by simp
      qed
    qed
  qed
qed

lemma search_data_nonempty: "fst (search E q w) \<noteq> []"
  using search_result [of E q w] by auto

lemma get_weather_data_nonempty: "fst (get_weather E loc w) \<noteq> []"
  using get_weather_result [of E loc w] by auto

text \<open>
  Claim C10, as the code has it. Whatever the command and the parameters,
  \<^verbatim>\<open>execute_command\<close> returns a response, and the response has all three fields. A
  command outside the allow-list gives a failure with the text of line 47, in the world
  as it was. For an allowed command, an exception of the merge of the parameters gives a
  failure whose error is the text of that exception, in the world as it was. Otherwise
  the tool runs: \<^verbatim>\<open>search\<close>, \<^verbatim>\<open>weather\<close>, \<^verbatim>\<open>time\<close> and \<^verbatim>\<open>help\<close> give a success
  whose data is the mapping the tool returned, which is never empty; \<^verbatim>\<open>news\<close> gives a
  failure with the text of the exception when its request raises, a success whose data
  is the body of the service when that is a mapping (an empty one included), and for any
  other body what the validation of the response model makes of it, a failure with the
  text of its exception or a success with the mapping it built. So a success has no error
  and a failure has empty data and an error text; that text is not empty as soon as no
  exception of the environment has an empty text.
\<close>

theorem execute_command_well_formed:
  "(c \<notin> set ALLOWED_COMMANDS \<longrightarrow>
      execute_command E tm (JStr c) params w =
        (\<lparr>success = False, data = [], error = Some (not_allowed_text c)\<rparr>, w))
   \<and> ((\<forall>s. command \<noteq> JStr s) \<longrightarrow>
      execute_command E tm command params w =
        (\<lparr>success = False, data = [], error = Some (not_allowed_text (py_str E command))\<rparr>, w))
   \<and> (c \<in> set ALLOWED_COMMANDS \<and> merge_params E tm c params = Inl e \<longrightarrow>
      execute_command E tm (JStr c) params w =
        (\<lparr>success = False, data = [], error = Some (exn_str e)\<rparr>, w))
   \<and> (merge_params E tm ''search'' params = Inr tp \<longrightarrow>
      execute_command E tm (JStr ''search'') params w =
        (\<lparr>success = True, data = fst (search E (dict_get tp ''query'') w), error = None\<rparr>,
         snd (search E (dict_get tp ''query'') w))
      \<and> fst (search E (dict_get tp ''query'') w) \<noteq> [])
   \<and> (merge_params E tm ''weather'' params = Inr tp \<longrightarrow>
      execute_command E tm (JStr ''weather'') params w =
        (\<lparr>success = True, data = fst (get_weather E (dict_get tp ''location'') w), error = None\<rparr>,
         snd (get_weather E (dict_get tp ''location'') w))
      \<and> fst (get_weather E (dict_get tp ''location'') w) \<noteq> [])
   \<and> (merge_params E tm ''time'' params = Inr tp \<longrightarrow>
      execute_command E tm (JStr ''time'') params w =
        (\<lparr>success = True, data = get_time E (location tm) (dict_get tp ''timezone''),
          error = None\<rparr>, w)
      \<and> get_time E (location tm) (dict_get tp ''timezone'') \<noteq> [])
   \<and> (merge_params E tm ''help'' params = Inr tp \<longrightarrow>
      execute_command E tm (JStr ''help'') params w =
        (\<lparr>success = True, data = help_result E tm, error = None\<rparr>, w)
      \<and> help_result E tm \<noteq> [])
   \<and> (merge_params E tm ''news'' params = Inr tp
        \<and> get_latest_news E (dict_get tp ''topic'') w = (Inl e, w') \<longrightarrow>
      execute_command E tm (JStr ''news'') params w =
        (\<lparr>success = False, data = [], error = Some (exn_str e)\<rparr>, w'))
   \<and> (merge_params E tm ''news'' params = Inr tp
        \<and> get_latest_news E (dict_get tp ''topic'') w = (Inr (JObj d), w') \<longrightarrow>
      execute_command E tm (JStr ''news'') params w =
        (\<lparr>success = True, data = d, error = None\<rparr>, w'))
   \<and> (merge_params E tm ''news'' params = Inr tp
        \<and> get_latest_news E (dict_get tp ''topic'') w = (Inr body, w')
        \<and> (\<forall>d. body \<noteq> JObj d) \<and> pydantic_data E body = Inl e \<longrightarrow>
      execute_command E tm (JStr ''news'') params w =
        (\<lparr>success = False, data = [], error = Some (exn_str e)\<rparr>, w'))
   \<and> (merge_params E tm ''news'' params = Inr tp
        \<and> get_latest_news E (dict_get tp ''topic'') w = (Inr body, w')
        \<and> (\<forall>d. body \<noteq> JObj d) \<and> pydantic_data E body = Inr d \<longrightarrow>
      execute_command E tm (JStr ''news'') params w =
        (\<lparr>success = True, data = d, error = None\<rparr>, w'))
   \<and> (execute_command E tm command params w = (r, w'') \<longrightarrow>
      (success r \<longrightarrow> error r = None)
      \<and> (\<not> success r \<longrightarrow> data r = [] \<and> (\<exists>msg. error r = Some msg))
      \<and> (success r \<and> command \<noteq> JStr ''news'' \<longrightarrow> data r \<noteq> [])
      \<and> (\<not> success r \<and> messages_nonempty E \<longrightarrow> (\<exists>msg. error r = Some msg \<and> msg \<noteq> [])))"
proof (intro conjI impI)
  assume "c \<notin> set ALLOWED_COMMANDS"
  then show "execute_command E tm (JStr c) params w =
        (\<lparr>success = False, data = [], error = Some (not_allowed_text c)\<rparr>, w)"
    by (simp add: execute_command_def failure_def)
next
  assume "\<forall>s. command \<noteq> JStr s"
  then show "execute_command E tm command params w =
        (\<lparr>success = False, data = [], error = Some (not_allowed_text (py_str E command))\<rparr>, w)"
    using execute_command_non_string [of command E tm params w] by (simp add: failure_def)
next
  assume "c \<in> set ALLOWED_COMMANDS \<and> merge_params E tm c params = Inl e"
  then show "execute_command E tm (JStr c) params w =
        (\<lparr>success = False, data = [], error = Some (exn_str e)\<rparr>, w)"
    using execute_merge_failed [of c E tm params e w] by (simp add: failure_def)
next
  assume "merge_params E tm ''search'' params = Inr tp"
  then show "execute_command E tm (JStr ''search'') params w =
        (\<lparr>success = True, data = fst (search E (dict_get tp ''query'') w), error = None\<rparr>,
         snd (search E (dict_get tp ''query'') w))"
    by (rule execute_search)
  show "fst (search E (dict_get tp ''query'') w) \<noteq> []"
    by (rule search_data_nonempty)
next
  assume "merge_params E tm ''weather'' params = Inr tp"
  then show "execute_command E tm (JStr ''weather'') params w =
        (\<lparr>success = True, data = fst (get_weather E (dict_get tp ''location'') w), error = None\<rparr>,
         snd (get_weather E (dict_get tp ''location'') w))"
    by (rule execute_weather)
  show "fst (get_weather E (dict_get tp ''location'') w) \<noteq> []"
    by (rule get_weather_data_nonempty)
next
  assume "merge_params E tm ''time'' params = Inr tp"
  then show "execute_command E tm (JStr ''time'') params w =
        (\<lparr>success = True, data = get_time E (location tm) (dict_get tp ''timezone''),
          error = None\<rparr>, w)"
    by (rule execute_time)
  show "get_time E (location tm) (dict_get tp ''timezone'') \<noteq> []"
    by (rule get_time_nonempty)
next
  assume "merge_params E tm ''help'' params = Inr tp"
  then show "execute_command E tm (JStr ''help'') params w =
        (\<lparr>success = True, data = help_result E tm, error = None\<rparr>, w)"
    by (rule execute_help)
  show "help_result E tm \<noteq> []"
    by (rule help_result_nonempty)
next
  assume "merge_params E tm ''news'' params = Inr tp
        \<and> get_latest_news E (dict_get tp ''topic'') w = (Inl e, w')"
  then show "execute_command E tm (JStr ''news'') params w =
        (\<lparr>success = False, data = [], error = Some (exn_str e)\<rparr>, w')"
    using execute_news [of E tm params tp w] by (simp add: failure_def)
next
  assume "merge_params E tm ''news'' params = Inr tp
        \<and> get_latest_news E (dict_get tp ''topic'') w = (Inr (JObj d), w')"
  then show "execute_command E tm (JStr ''news'') params w =
        (\<lparr>success = True, data = d, error = None\<rparr>, w')"
    using execute_news [of E tm params tp w] by (simp add: validate_data_def)
next
  assume a: "merge_params E tm ''news'' params = Inr tp
        \<and> get_latest_news E (dict_get tp ''topic'') w = (Inr body, w')
        \<and> (\<forall>d. body \<noteq> JObj d) \<and> pydantic_data E body = Inl e"
  then have "validate_data E body = Inl e"
    by (cases body) (simp_all add: validate_data_def)
  with a show "execute_command E tm (JStr ''news'') params w =
        (\<lparr>success = False, data = [], error = Some (exn_str e)\<rparr>, w')"
    using execute_news [of E tm params tp w] by (simp add: failure_def)
next
  assume a: "merge_params E tm ''news'' params = Inr tp
        \<and> get_latest_news E (dict_get tp ''topic'') w = (Inr body, w')
        \<and> (\<forall>d. body \<noteq> JObj d) \<and> pydantic_data E body = Inr d"
  then have "validate_data E body = Inr d"
    by (cases body) (simp_all add: validate_data_def)
  with a show "execute_command E tm (JStr ''news'') params w =
        (\<lparr>success = True, data = d, error = None\<rparr>, w')"
    using execute_news [of E tm params tp w] by simp
next
  assume ex: "execute_command E tm command params w = (r, w'')"
  from execute_command_shape [OF ex]
  show "success r \<Longrightarrow> error r = None"
    and "\<not> success r \<Longrightarrow> data r = []"
    and "\<not> success r \<Longrightarrow> \<exists>msg. error r = Some msg"
    and "success r \<and> command \<noteq> JStr ''news'' \<Longrightarrow> data r \<noteq> []"
    by blast+
  show "\<exists>msg. error r = Some msg \<and> msg \<noteq> []" if "\<not> success r \<and> messages_nonempty E"
    using failure_message_nonempty [OF _ ex] that by blast
qed


lemma sample_news_merge:
  "merge_params offline_env sample_manager ''news'' (JObj []) =
     Inr [(''topic'', JStr ''technology'')]"
  by (simp add: merge_params_def defaults_for_def sample_manager_def ToolManager_init_def)

lemma sample_news_refused:
  "get_latest_news offline_env (dict_get [(''topic'', JStr ''technology'')] ''topic'') [] =
     (Inl (Exn RequestException ''connection refused''), [Request NewsAPI (JStr ''technology'')])"
  by (simp add: get_latest_news_def fetch_def offline_env_def dict_get_def dict_get_default_def)

lemma sample_weather_merge:
  "merge_params offline_env sample_manager ''weather'' (JObj []) =
     Inr [(''location'', JStr ''London, UK'')]"
  by (simp add: merge_params_def defaults_for_def sample_manager_def ToolManager_init_def
      fallback_location_def py_str_def)

lemma sample_search_merge:
  "merge_params offline_env sample_manager ''search'' (JObj []) =
     Inr [(''query'', JStr ''latest news'')]"
  by (simp add: merge_params_def defaults_for_def sample_manager_def ToolManager_init_def)

lemma sample_time_merge:
  "merge_params offline_env sample_manager ''time'' (JObj []) =
     Inr [(''timezone'', JStr ''Europe/London'')]"
  by (simp add: merge_params_def defaults_for_def sample_manager_def ToolManager_init_def
      fallback_location_def)

lemma sample_help_merge: "merge_params offline_env sample_manager ''help'' (JObj []) = Inr []"
  by (simp add: merge_params_def defaults_for_def sample_manager_def ToolManager_init_def)

lemma sample_merge_raises:
  "''help'' \<in> set ALLOWED_COMMANDS
   \<and> merge_params offline_env sample_manager ''help'' (JInt 5) =
       Inl (Exn TypeError ''fault'')"
  by (simp add: ALLOWED_COMMANDS_def merge_params_def py_dict_update_def py_iter_def
      raise_fault_def offline_env_def)

lemma sample_news_body:
  "merge_params (offline_env\<lparr>http := (\<lambda>n ev. Body (JObj [(''status'', JStr ''ok'')]))\<rparr>)
       sample_manager ''news'' (JObj []) = Inr [(''topic'', JStr ''technology'')]
   \<and> get_latest_news (offline_env\<lparr>http := (\<lambda>n ev. Body (JObj [(''status'', JStr ''ok'')]))\<rparr>)
         (dict_get [(''topic'', JStr ''technology'')] ''topic'') [] =
       (Inr (JObj [(''status'', JStr ''ok'')]), [Request NewsAPI (JStr ''technology'')])"
  by (simp add: merge_params_def defaults_for_def sample_manager_def ToolManager_init_def
      get_latest_news_def fetch_def offline_env_def dict_get_def dict_get_default_def)

lemma sample_news_list:
  "merge_params (offline_env\<lparr>http := (\<lambda>n ev. Body (JArr []))\<rparr>)
       sample_manager ''news'' (JObj []) = Inr [(''topic'', JStr ''technology'')]
   \<and> get_latest_news (offline_env\<lparr>http := (\<lambda>n ev. Body (JArr []))\<rparr>)
         (dict_get [(''topic'', JStr ''technology'')] ''topic'') [] =
       (Inr (JArr []), [Request NewsAPI (JStr ''technology'')])
   \<and> (\<forall>d. JArr [] \<noteq> JObj d)
   \<and> pydantic_data (offline_env\<lparr>http := (\<lambda>n ev. Body (JArr []))\<rparr>) (JArr []) =
       Inl (Exn ValidationError ''Input should be a valid dictionary'')"
  by (simp add: merge_params_def defaults_for_def sample_manager_def ToolManager_init_def
      get_latest_news_def fetch_def offline_env_def dict_get_def dict_get_default_def)

lemma sample_news_coerced:
  "merge_params (offline_env\<lparr>http := (\<lambda>n ev. Body (JArr [])), pydantic_data := (\<lambda>v. Inr [])\<rparr>)
       sample_manager ''news'' (JObj []) = Inr [(''topic'', JStr ''technology'')]
   \<and> get_latest_news
         (offline_env\<lparr>http := (\<lambda>n ev. Body (JArr [])), pydantic_data := (\<lambda>v. Inr [])\<rparr>)
         (dict_get [(''topic'', JStr ''technology'')] ''topic'') [] =
       (Inr (JArr []), [Request NewsAPI (JStr ''technology'')])
   \<and> pydantic_data
         (offline_env\<lparr>http := (\<lambda>n ev. Body (JArr [])), pydantic_data := (\<lambda>v. Inr [])\<rparr>)
         (JArr []) = Inr []"
  by (simp add: merge_params_def defaults_for_def sample_manager_def ToolManager_init_def
      get_latest_news_def fetch_def offline_env_def dict_get_def dict_get_default_def)

lemma offline_messages: "messages_nonempty offline_env"
  by (simp add: messages_nonempty_def offline_env_def)

theorem execute_command_well_formed_witness:
  "''delete'' \<notin> set ALLOWED_COMMANDS
   \<and> execute_command offline_env sample_manager (JStr ''delete'') (JObj []) [] =
       (\<lparr>success = False, data = [], error = Some (not_allowed_text ''delete'')\<rparr>, [])
   \<and> (\<forall>s. JInt 7 \<noteq> JStr s)
   \<and> execute_command offline_env sample_manager (JInt 7) (JObj []) [] =
       (\<lparr>success = False, data = [],
         error = Some (not_allowed_text (py_str offline_env (JInt 7)))\<rparr>, [])
   \<and> ''help'' \<in> set ALLOWED_COMMANDS
   \<and> merge_params offline_env sample_manager ''help'' (JInt 5) = Inl (Exn TypeError ''fault'')
   \<and> execute_command offline_env sample_manager (JStr ''help'') (JInt 5) [] =
       (\<lparr>success = False, data = [], error = Some ''fault''\<rparr>, [])
   \<and> merge_params offline_env sample_manager ''search'' (JObj []) =
       Inr [(''query'', JStr ''latest news'')]
   \<and> execute_command offline_env sample_manager (JStr ''search'') (JObj []) [] =
       (\<lparr>success = True,
         data = fst (search offline_env
                      (dict_get [(''query'', JStr ''latest news'')] ''query'') []),
         error = None\<rparr>,
        snd (search offline_env (dict_get [(''query'', JStr ''latest news'')] ''query'') []))
   \<and> fst (search offline_env (dict_get [(''query'', JStr ''latest news'')] ''query'') []) \<noteq> []
   \<and> merge_params offline_env sample_manager ''weather'' (JObj []) =
       Inr [(''location'', JStr ''London, UK'')]
   \<and> execute_command offline_env sample_manager (JStr ''weather'') (JObj []) [] =
       (\<lparr>success = True,
         data = fst (get_weather offline_env
                      (dict_get [(''location'', JStr ''London, UK'')] ''location'') []),
         error = None\<rparr>,
        snd (get_weather offline_env
              (dict_get [(''location'', JStr ''London, UK'')] ''location'') []))
   \<and> fst (get_weather offline_env
            (dict_get [(''location'', JStr ''London, UK'')] ''location'') []) \<noteq> []
   \<and> merge_params offline_env sample_manager ''time'' (JObj []) =
       Inr [(''timezone'', JStr ''Europe/London'')]
   \<and> execute_command offline_env sample_manager (JStr ''time'') (JObj []) [] =
       (\<lparr>success = True,
         data = get_time offline_env (location sample_manager)
                  (dict_get [(''timezone'', JStr ''Europe/London'')] ''timezone''),
         error = None\<rparr>, [])
   \<and> get_time offline_env (location sample_manager)
        (dict_get [(''timezone'', JStr ''Europe/London'')] ''timezone'') \<noteq> []
   \<and> merge_params offline_env sample_manager ''help'' (JObj []) = Inr []
   \<and> execute_command offline_env sample_manager (JStr ''help'') (JObj []) [] =
       (\<lparr>success = True, data = help_result offline_env sample_manager, error = None\<rparr>, [])
   \<and> help_result offline_env sample_manager \<noteq> []
   \<and> merge_params offline_env sample_manager ''news'' (JObj []) =
       Inr [(''topic'', JStr ''technology'')]
   \<and> get_latest_news offline_env (dict_get [(''topic'', JStr ''technology'')] ''topic'') [] =
       (Inl (Exn RequestException ''connection refused''), [Request NewsAPI (JStr ''technology'')])
   \<and> execute_command offline_env sample_manager (JStr ''news'') (JObj []) [] =
       (\<lparr>success = False, data = [], error = Some ''connection refused''\<rparr>,
        [Request NewsAPI (JStr ''technology'')])
   \<and> messages_nonempty offline_env
   \<and> (\<exists>msg. error \<lparr>success = False, data = [], error = Some ''connection refused''\<rparr> = Some msg
          \<and> msg \<noteq> [])
   \<and> execute_command (offline_env\<lparr>http := (\<lambda>n ev. Body (JObj [(''status'', JStr ''ok'')]))\<rparr>)
         sample_manager (JStr ''news'') (JObj []) [] =
       (\<lparr>success = True, data = [(''status'', JStr ''ok'')], error = None\<rparr>,
        [Request NewsAPI (JStr ''technology'')])
   \<and> execute_command (offline_env\<lparr>http := (\<lambda>n ev. Body (JArr []))\<rparr>)
         sample_manager (JStr ''news'') (JObj []) [] =
       (\<lparr>success = False, data = [], error = Some ''Input should be a valid dictionary''\<rparr>,
        [Request NewsAPI (JStr ''technology'')])
   \<and> execute_command
         (offline_env\<lparr>http := (\<lambda>n ev. Body (JArr [])), pydantic_data := (\<lambda>v. Inr [])\<rparr>)
         sample_manager (JStr ''news'') (JObj []) [] =
       (\<lparr>success = True, data = [], error = None\<rparr>, [Request NewsAPI (JStr ''technology'')])"
proof -
  note a = execute_command_well_formed [where c = "''delete''" and E = offline_env
      and tm = sample_manager and params = "JObj []" and w = "[]" and command = "JInt 7"]
  note m = execute_command_well_formed [where c = "''help''" and E = offline_env
      and tm = sample_manager and params = "JInt 5" and w = "[]"
      and e = "Exn TypeError ''fault''"]
  note s = execute_command_well_formed [where E = offline_env and tm = sample_manager
      and params = "JObj []" and w = "[]" and tp = "[(''query'', JStr ''latest news'')]"]
  note c = execute_command_well_formed [where E = offline_env and tm = sample_manager
      and params = "JObj []" and w = "[]" and tp = "[(''location'', JStr ''London, UK'')]"]
  note t = execute_command_well_formed [where E = offline_env and tm = sample_manager
      and params = "JObj []" and w = "[]" and tp = "[(''timezone'', JStr ''Europe/London'')]"]
  note h = execute_command_well_formed [where E = offline_env and tm = sample_manager
      and params = "JObj []" and w = "[]" and tp = "[]"]
  note b = execute_command_well_formed [where E = offline_env and tm = sample_manager
      and params = "JObj []" and w = "[]" and command = "JStr ''news''"
      and e = "Exn RequestException ''connection refused''"
      and tp = "[(''topic'', JStr ''technology'')]"
      and w' = "[Request NewsAPI (JStr ''technology'')]"
      and r = "\<lparr>success = False, data = [], error = Some ''connection refused''\<rparr>"
      and w'' = "[Request NewsAPI (JStr ''technology'')]"]
  note n1 = execute_command_well_formed
      [where E = "offline_env\<lparr>http := (\<lambda>n ev. Body (JObj [(''status'', JStr ''ok'')]))\<rparr>"
        and tm = sample_manager and params = "JObj []" and w = "[]"
        and tp = "[(''topic'', JStr ''technology'')]" and d = "[(''status'', JStr ''ok'')]"
        and w' = "[Request NewsAPI (JStr ''technology'')]"]
  note n2 = execute_command_well_formed
      [where E = "offline_env\<lparr>http := (\<lambda>n ev. Body (JArr []))\<rparr>"
        and tm = sample_manager and params = "JObj []" and w = "[]"
        and tp = "[(''topic'', JStr ''technology'')]" and body = "JArr []"
        and e = "Exn ValidationError ''Input should be a valid dictionary''"
        and w' = "[Request NewsAPI (JStr ''technology'')]"]
  note n3 = execute_command_well_formed
      [where E = "offline_env\<lparr>http := (\<lambda>n ev. Body (JArr [])), pydantic_data := (\<lambda>v. Inr [])\<rparr>"
        and tm = sample_manager and params = "JObj []" and w = "[]"
        and tp = "[(''topic'', JStr ''technology'')]" and body = "JArr []" and d = "[]"
        and w' = "[Request NewsAPI (JStr ''technology'')]"]
  have ns: "\<forall>s. JInt 7 \<noteq> JStr s" by simp
  from a delete_not_allowed have 1:
    "execute_command offline_env sample_manager (JStr ''delete'') (JObj []) [] =
       (\<lparr>success = False, data = [], error = Some (not_allowed_text ''delete'')\<rparr>, [])"
    by blast
  from a ns have 2:
    "execute_command offline_env sample_manager (JInt 7) (JObj []) [] =
       (\<lparr>success = False, data = [],
         error = Some (not_allowed_text (py_str offline_env (JInt 7)))\<rparr>, [])"
    by blast
  from m sample_merge_raises have 3:
    "execute_command offline_env sample_manager (JStr ''help'') (JInt 5) [] =
       (\<lparr>success = False, data = [], error = Some ''fault''\<rparr>, [])"
    by simp
  from s sample_search_merge have 4:
    "execute_command offline_env sample_manager (JStr ''search'') (JObj []) [] =
       (\<lparr>success = True,
         data = fst (search offline_env
                      (dict_get [(''query'', JStr ''latest news'')] ''query'') []),
         error = None\<rparr>,
        snd (search offline_env (dict_get [(''query'', JStr ''latest news'')] ''query'') []))"
    and 5: "fst (search offline_env (dict_get [(''query'', JStr ''latest news'')] ''query'') [])
              \<noteq> []"
    by blast+
  from c sample_weather_merge have 6:
    "execute_command offline_env sample_manager (JStr ''weather'') (JObj []) [] =
       (\<lparr>success = True,
         data = fst (get_weather offline_env
                      (dict_get [(''location'', JStr ''London, UK'')] ''location'') []),
         error = None\<rparr>,
        snd (get_weather offline_env
              (dict_get [(''location'', JStr ''London, UK'')] ''location'') []))"
    and 7: "fst (get_weather offline_env
            (dict_get [(''location'', JStr ''London, UK'')] ''location'') []) \<noteq> []"
    by blast+
  from t sample_time_merge have 8:
    "execute_command offline_env sample_manager (JStr ''time'') (JObj []) [] =
       (\<lparr>success = True,
         data = get_time offline_env (location sample_manager)
                  (dict_get [(''timezone'', JStr ''Europe/London'')] ''timezone''),
         error = None\<rparr>, [])"
    and 9: "get_time offline_env (location sample_manager)
        (dict_get [(''timezone'', JStr ''Europe/London'')] ''timezone'') \<noteq> []"
    by blast+
  from h sample_help_merge have 10:
    "execute_command offline_env sample_manager (JStr ''help'') (JObj []) [] =
       (\<lparr>success = True, data = help_result offline_env sample_manager, error = None\<rparr>, [])"
    and 11: "help_result offline_env sample_manager \<noteq> []"
    by blast+
  from b sample_news_merge sample_news_refused have 12:
    "execute_command offline_env sample_manager (JStr ''news'') (JObj []) [] =
       (\<lparr>success = False, data = [], error = Some ''connection refused''\<rparr>,
        [Request NewsAPI (JStr ''technology'')])"
    by simp
  from b 12 offline_messages have 13:
    "\<exists>msg. error \<lparr>success = False, data = [], error = Some ''connection refused''\<rparr> = Some msg
          \<and> msg \<noteq> []"
    by simp
  from n1 sample_news_body have 14:
    "execute_command (offline_env\<lparr>http := (\<lambda>n ev. Body (JObj [(''status'', JStr ''ok'')]))\<rparr>)
         sample_manager (JStr ''news'') (JObj []) [] =
       (\<lparr>success = True, data = [(''status'', JStr ''ok'')], error = None\<rparr>,
        [Request NewsAPI (JStr ''technology'')])"
    by blast
  from n2 sample_news_list have 15:
    "execute_command (offline_env\<lparr>http := (\<lambda>n ev. Body (JArr []))\<rparr>)
         sample_manager (JStr ''news'') (JObj []) [] =
       (\<lparr>success = False, data = [], error = Some ''Input should be a valid dictionary''\<rparr>,
        [Request NewsAPI (JStr ''technology'')])"
    by simp
  from sample_news_list have nd: "\<forall>d. JArr [] \<noteq> JObj d" by blast
  from n3 sample_news_coerced nd have 16:
    "execute_command
         (offline_env\<lparr>http := (\<lambda>n ev. Body (JArr [])), pydantic_data := (\<lambda>v. Inr [])\<rparr>)
         sample_manager (JStr ''news'') (JObj []) [] =
       (\<lparr>success = True, data = [], error = None\<rparr>, [Request NewsAPI (JStr ''technology'')])"
    by blast
  from sample_merge_raises have mr1: "''help'' \<in> set ALLOWED_COMMANDS"
    and mr2: "merge_params offline_env sample_manager ''help'' (JInt 5)
                = Inl (Exn TypeError ''fault'')"
    by blast+
  from delete_not_allowed 1 ns 2 mr1 mr2 3 sample_search_merge 4 5 sample_weather_merge 6 7
    sample_time_merge 8 9 sample_help_merge 10 11 sample_news_merge sample_news_refused 12
    offline_messages 13 14 15 16
  show ?thesis by (intro conjI)
qed

text \<open>
  Claim C10, as stated, fails: the news tool hands on the body of the service, and when
  that is the empty object the response has \<open>success = True\<close> and empty data.
\<close>

theorem execute_command_empty_data_counterexample:
  "success (fst (execute_command empty_news_env sample_manager (JStr ''news'') (JObj []) []))
   \<and> data (fst (execute_command empty_news_env sample_manager (JStr ''news'') (JObj []) [])) = []"
  by (simp add: news_empty_eval)

section \<open>Transport failures of weather and search\<close>

lemma startswith_refl: "startswith s s"
  by (simp add: startswith_def)

lemma find_sub_suffix: "find_sub (pre @ s) s \<noteq> None"
proof (induction pre)
  case Nil
  show ?case by (cases s) (simp_all add: startswith_refl)
next
  case (Cons c pre)
  then show ?case by simp
qed

lemma str_contains_suffix: "str_contains (pre @ s) s"
  by (simp add: str_contains_def find_sub_suffix)

lemma str_contains_refl: "str_contains s s"
  using str_contains_suffix [of "[]" s] by simp

lemma get_weather_failed:
  assumes "http E (length w) (Request WeatherAPI loc) = HttpRaised e"
  shows "get_weather E loc w = (weather_handler loc e, w @ [Request WeatherAPI loc])"
  using assms by (simp add: get_weather_def fetch_def)

lemma search_failed_eq:
  assumes "http E (length w) (Request SearchAPI q) = HttpRaised e"
  shows "search E q w = (search_failed E q e, w @ [Request SearchAPI q])"
  using assms by (simp add: search_def fetch_def)

lemma weather_handler_error:
  "\<exists>txt. map_of (weather_handler loc e) ''error'' = Some (JStr txt)
        \<and> (if exn_cls e = RequestsTimeout
           then txt = ''Request timed out after multiple retries''
           else str_contains txt (exn_str e))"
proof (cases "exn_cls e = RequestsTimeout")
  case True
  then show ?thesis by (simp add: weather_handler_def weather_failed_def)
next
  case False
  show ?thesis
  proof (cases "exn_cls e = RequestException")
    case True
    with False have "map_of (weather_handler loc e) ''error''
                       = Some (JStr (''Failed to get weather data: '' @ exn_str e))"
      by (simp add: weather_handler_def weather_failed_def)
    with False str_contains_suffix [of "''Failed to get weather data: ''" "exn_str e"]
    show ?thesis by (simp only: if_False) blast
  next
    case neither: False
    with False have "map_of (weather_handler loc e) ''error''
                       = Some (JStr (''Unexpected error: '' @ exn_str e))"
      by (simp add: weather_handler_def weather_failed_def)
    with False str_contains_suffix [of "''Unexpected error: ''" "exn_str e"]
    show ?thesis by (simp only: if_False) blast
  qed
qed

lemma search_failed_error:
  "\<exists>txt. map_of (search_failed E q e) ''error'' = Some (JStr txt)
        \<and> (if exn_cls e = RequestsTimeout
           then txt = ''Search request timed out''
           else str_contains txt (exn_str e))"
  by (simp add: search_failed_def str_contains_refl)

section \<open>Properties of the parser\<close>

lemma startswith_append: "startswith (p @ s) p"
  by (simp add: startswith_def)

lemma startswith_decompose: "startswith s p \<Longrightarrow> s = p @ drop (length p) s"
  by (metis append_take_drop_id startswith_def)

lemma split_aux_skip: "split_aux sep (length xs) acc (xs @ ys) = split_aux sep 0 acc ys"
  by (induction xs) simp_all

lemma split_aux_first:
  assumes "sep \<noteq> []"
  shows "\<exists>rest. split_aux sep 0 acc ys =
           (rev acc @ (case find_sub ys sep of None \<Rightarrow> ys | Some i \<Rightarrow> take i ys)) # rest"
proof (induction ys arbitrary: acc)
  case Nil
  with assms show ?case by simp
next
  case (Cons c cs)
  show ?case
  proof (cases "startswith (c # cs) sep")
    case True
    then show ?thesis by simp
  next
    case False
    from Cons [of "c # acc"] obtain rest where
      "split_aux sep 0 (c # acc) cs =
         (rev (c # acc) @ (case find_sub cs sep of None \<Rightarrow> cs | Some i \<Rightarrow> take i cs)) # rest"
      by blast
    with False show ?thesis
      by (cases "find_sub cs sep") simp_all
  qed
qed

lemma split_leading:
  assumes "sep \<noteq> []"
  shows "\<exists>rest. split (sep @ body) sep =
           [] # (case find_sub body sep of None \<Rightarrow> body | Some i \<Rightarrow> take i body) # rest"
proof -
  obtain c cs where sep: "sep = c # cs" using assms by (cases sep) auto
  have "split (sep @ body) sep = [] # split_aux sep (length cs) [] (cs @ body)"
    using startswith_append [of sep body] by (simp add: split_def sep)
  also have "split_aux sep (length cs) [] (cs @ body) = split_aux sep 0 [] body"
    by (rule split_aux_skip)
  finally show ?thesis
    using split_aux_first [OF assms, of "[]" body] by auto
qed

lemma split_second:
  assumes "sep \<noteq> []"
  shows "str_list_index (split (sep @ body) sep) 1 =
           Inr (case find_sub body sep of None \<Rightarrow> body | Some i \<Rightarrow> take i body)"
  using split_leading [OF assms, of body] by (auto simp: str_list_index_def)

lemma find_sub_startswith: "startswith s sep \<Longrightarrow> find_sub s sep = Some 0"
  by (cases s) (auto simp: startswith_def)

lemma endswith_rev: "endswith s p \<Longrightarrow> startswith (rev s) (rev p)"
  unfolding endswith_def startswith_def
  by (metis length_rev rev_drop rev_rev_ident take_rev)

lemma rsplit1_trailing:
  assumes "endswith s sep"
  shows "hd (rsplit1 s sep) = take (length s - length sep) s"
proof -
  have "find_sub (rev s) (rev sep) = Some 0"
    using assms by (intro find_sub_startswith endswith_rev)
  then show ?thesis
    by (simp add: rsplit1_def rfind_sub_def)
qed


lemma startswith_char: "startswith s [c] = (\<exists>xs. s = c # xs)"
  by (cases s) (auto simp: startswith_def)

lemma find_sub_char:
  "find_sub s [c] =
     (if c \<in> set s then Some (length (takeWhile (\<lambda>x. x \<noteq> c) s)) else None)"
  by (induction s) (auto simp: startswith_char)

lemma truncate_after_last_char:
  "truncate_after_last s [c] =
     (if c \<in> set s then rev (dropWhile (\<lambda>x. x \<noteq> c) (rev s)) else s)"
proof (cases "c \<in> set s")
  case False
  then show ?thesis
    by (simp add: truncate_after_last_def rfind_sub_def find_sub_char)
next
  case True
  define t where "t = takeWhile (\<lambda>x. x \<noteq> c) (rev s)"
  define d where "d = dropWhile (\<lambda>x. x \<noteq> c) (rev s)"
  have split: "rev s = t @ d"
    by (simp add: t_def d_def)
  then have s: "s = rev d @ rev t"
    by (metis rev_append rev_rev_ident)
  have "d \<noteq> []"
    using True by (simp add: d_def)
  then have lt: "length t < length s"
    using arg_cong [OF split, of length] by simp
  have len: "length s - length t = length (rev d)"
    using arg_cong [OF split, of length] by simp
  have "truncate_after_last s [c] = take (length s - length t) s"
    using True lt
    by (simp add: truncate_after_last_def rfind_sub_def find_sub_char t_def Let_def
        nat_diff_distrib')
  also have "\<dots> = rev d"
    unfolding len by (subst s) simp
  finally show ?thesis
    using True by (simp add: d_def)
qed

lemma truncate_after_last_spec:
  "\<exists>rest. s = truncate_after_last s [c] @ rest \<and> c \<notin> set rest
         \<and> (if c \<in> set s
            then truncate_after_last s [c] \<noteq> [] \<and> last (truncate_after_last s [c]) = c
            else rest = [])"
proof (cases "c \<in> set s")
  case False
  then show ?thesis by (simp add: truncate_after_last_char)
next
  case True
  define t where "t = takeWhile (\<lambda>x. x \<noteq> c) (rev s)"
  define d where "d = dropWhile (\<lambda>x. x \<noteq> c) (rev s)"
  have "rev s = t @ d"
    by (simp add: t_def d_def)
  then have s: "s = rev d @ rev t"
    by (metis rev_append rev_rev_ident)
  have dne: "d \<noteq> []"
    using True by (simp add: d_def)
  have "hd d = c"
    using hd_dropWhile [of "\<lambda>x. x \<noteq> c" "rev s"] dne by (simp add: d_def)
  then have last: "last (rev d) = c"
    using dne by (simp add: last_rev)
  have notin: "c \<notin> set (rev t)"
    using set_takeWhileD [of c "\<lambda>x. x \<noteq> c" "rev s"] by (auto simp: t_def)
  have tr: "truncate_after_last s [c] = rev d"
    using True by (simp add: truncate_after_last_char d_def)
  show ?thesis
    using True s dne last notin unfolding tr
    by (intro exI [of _ "rev t"]) simp
qed

lemma strip_first:
  assumes "dropWhile is_space s = x # xs"
  shows "\<exists>ys. strip s = x # ys"
proof -
  from assms have nsp: "\<not> is_space x"
    by (simp add: dropWhile_eq_Cons_conv)
  have "strip s = rev (dropWhile is_space (rev xs @ [x]))"
    by (simp add: strip_def assms)
  also have "\<dots> = rev (dropWhile is_space (rev xs) @ [x])"
    using nsp by (simp add: dropWhile_append3)
  finally show ?thesis by simp
qed

lemma strip_empty:
  assumes "dropWhile is_space s = []"
  shows "strip s = []"
  unfolding strip_def assms by simp

lemma strip_startswith_char:
  "startswith (strip s) [c] = startswith (dropWhile is_space s) [c]"
proof (cases "dropWhile is_space s")
  case Nil
  show ?thesis by (simp only: strip_empty [OF Nil] Nil)
next
  case (Cons x xs)
  from strip_first [OF this] obtain ys where "strip s = x # ys" by blast
  with Cons show ?thesis by (simp add: startswith_char)
qed


lemma fence_nonempty: "fence \<noteq> []" "fence_json \<noteq> []"
  by (simp_all add: fence_def fence_json_def)

lemma startswith_prefix:
  assumes "startswith s (p @ q)"
  shows "startswith s p"
proof -
  have "take (length p) s = take (length p) (take (length (p @ q)) s)"
    by (simp add: min_def)
  also have "\<dots> = take (length p) (p @ q)"
    using assms by (simp add: startswith_def)
  finally show ?thesis by (simp add: startswith_def)
qed

lemma fence_json_starts_fence: "startswith s fence_json \<Longrightarrow> startswith s fence"
proof -
  have "fence_json = fence @ ''json''"
    by (simp add: fence_def fence_json_def)
  then show "startswith s fence_json \<Longrightarrow> startswith s fence"
    using startswith_prefix by metis
qed

lemma trailing_fence:
  "(if endswith s fence then hd (rsplit1 s fence) else s) = without_trailing_fence s"
  by (simp add: without_trailing_fence_def rsplit1_trailing)

lemma remove_markdown_marker:
  assumes "startswith (strip raw) marker" and "marker \<noteq> []"
  shows "str_list_index (split (strip raw) marker) 1 =
           Inr (up_to marker (drop (length marker) (strip raw)))"
proof -
  have "strip raw = marker @ drop (length marker) (strip raw)"
    using assms(1) by (rule startswith_decompose)
  then have "split (strip raw) marker = split (marker @ drop (length marker) (strip raw)) marker"
    by simp
  then show ?thesis
    using split_second [OF assms(2), of "drop (length marker) (strip raw)"]
    by (simp add: up_to_def)
qed

lemma remove_markdown_json:
  assumes "startswith (strip raw) fence_json"
  shows "remove_markdown raw =
           Inr (unescape_underscores (without_trailing_fence
                  (up_to fence_json (drop (length fence_json) (strip raw)))))"
  using assms remove_markdown_marker [OF assms fence_nonempty(2)]
  by (simp add: remove_markdown_def Let_def trailing_fence unescape_underscores_def)

lemma remove_markdown_bare:
  assumes "startswith (strip raw) fence" and "\<not> startswith (strip raw) fence_json"
  shows "remove_markdown raw =
           Inr (unescape_underscores (without_trailing_fence
                  (up_to fence (drop (length fence) (strip raw)))))"
  using assms remove_markdown_marker [OF assms(1) fence_nonempty(1)]
  by (simp add: remove_markdown_def Let_def trailing_fence unescape_underscores_def)

lemma remove_markdown_plain:
  assumes "\<not> startswith (strip raw) fence"
  shows "remove_markdown raw =
           Inr (unescape_underscores (without_trailing_fence (strip raw)))"
proof -
  from assms have "\<not> startswith (strip raw) fence_json"
    using fence_json_starts_fence by blast
  with assms show ?thesis
    by (simp add: remove_markdown_def Let_def trailing_fence unescape_underscores_def)
qed

lemma remove_markdown_total: "\<exists>response. remove_markdown raw = Inr response"
  using remove_markdown_json remove_markdown_bare remove_markdown_plain by blast

lemma parse_reply_dispatch:
  assumes "parse_reply loads raw = Inr vs"
  shows "\<exists>response v. remove_markdown raw = Inr response
           \<and> (startswith (strip response) ''[''
                \<and> loads (truncate_after_last (strip response) '']'') = Decoded v
                \<and> vs = (case v of JArr xs \<Rightarrow> xs | _ \<Rightarrow> [v])
              \<or> startswith (strip response) ''{''
                \<and> loads (truncate_after_last (strip response) ''}'') = Decoded v
                \<and> vs = [v])"
proof -
  obtain response where r: "remove_markdown raw = Inr response"
    using remove_markdown_total by blast
  with assms have p: "parse_cleaned loads response = Inr vs"
    by (simp add: parse_reply_def)
  show ?thesis
  proof (cases "startswith (strip response) ''[''")
    case True
    with p obtain v where "loads (truncate_after_last (strip response) '']'') = Decoded v"
      "vs = (case v of JArr xs \<Rightarrow> xs | _ \<Rightarrow> [v])"
      by (cases "loads (truncate_after_last (strip response) '']'')")
        (simp_all add: parse_cleaned_def Let_def)
    with r True show ?thesis by blast
  next
    case False
    show ?thesis
    proof (cases "startswith (strip response) ''{''")
      case True
      with p False obtain v where "loads (truncate_after_last (strip response) ''}'') = Decoded v"
        "vs = [v]"
        by (cases "loads (truncate_after_last (strip response) ''}'')")
          (simp_all add: parse_cleaned_def Let_def)
      with r True show ?thesis by blast
    next
      case neither: False
      with p False show ?thesis
        by (simp add: parse_cleaned_def Let_def)
    qed
  qed
qed

lemma parse_reply_neither:
  assumes "remove_markdown raw = Inr response"
    and "\<not> startswith (strip response) ''[''" and "\<not> startswith (strip response) ''{''"
  shows "parse_reply loads raw = Inl (Exn ValueError ''Response neither starts with [ nor {'')"
  using assms by (simp add: parse_reply_def parse_cleaned_def Let_def)

lemma hello_clean: "remove_markdown ''hello'' = Inr ''hello''"
  by (simp add: remove_markdown_def strip_def is_space_def fence_json_def fence_def
      startswith_def endswith_def replace_def backslash_def)

text \<open>
  Claim C3, at the reply \<^verbatim>\<open>hello\<close>. The cleaned text begins with neither bracket, and
  the parser raises (it returns no default value): a \<^verbatim>\<open>ValueError\<close> whose message is the
  fixed text of line 212. The \<^verbatim>\<open>raise\<close> stands inside the \<^verbatim>\<open>try\<close> whose handler adds
  the reply to the message, but the handler catches \<^verbatim>\<open>json.JSONDecodeError\<close> only, so
  the message does not contain the reply.
\<close>

theorem parse_reply_hello:
  "parse_reply loads ''hello'' = Inl (Exn ValueError ''Response neither starts with [ nor {'')
   \<and> \<not> str_contains ''Response neither starts with [ nor {'' ''hello''"
proof
  show "parse_reply loads ''hello'' = Inl (Exn ValueError ''Response neither starts with [ nor {'')"
    by (rule parse_reply_neither [OF hello_clean])
      (simp_all add: strip_def is_space_def startswith_def)
  show "\<not> str_contains ''Response neither starts with [ nor {'' ''hello''"
    by (simp add: str_contains_def startswith_def)
qed


lemmas parser_eval =
  parse_reply_def remove_markdown_def parse_cleaned_def strip_def is_space_def newline_def
  fence_json_def fence_def startswith_def endswith_def split_def str_list_index_def
  rsplit1_def rfind_sub_def replace_def backslash_def truncate_after_last_def two_texts_def
  Let_def

lemma json_reply_eval: "parse_reply two_texts fenced_json_reply = Inr [JInt 1, JInt 2]"
  by (simp add: fenced_json_reply_def parser_eval)

lemma bare_reply_eval: "parse_reply two_texts fenced_bare_reply = Inr [JObj []]"
  by (simp add: fenced_bare_reply_def parser_eval)

lemma plain_reply_eval: "parse_reply two_texts plain_reply = Inr [JObj []]"
  by (simp add: plain_reply_def parser_eval)

lemma python_reply_eval:
  "parse_reply two_texts fenced_python_reply
     = Inl (Exn ValueError ''Response neither starts with [ nor {'')"
  by (simp add: fenced_python_reply_def parser_eval)

lemma json_reply_starts: "startswith (strip fenced_json_reply) fence_json"
  by (simp add: fenced_json_reply_def parser_eval)

lemma bare_reply_starts:
  "startswith (strip fenced_bare_reply) fence \<and> \<not> startswith (strip fenced_bare_reply) fence_json"
  by (simp add: fenced_bare_reply_def parser_eval)

lemma plain_reply_starts: "\<not> startswith (strip plain_reply) fence"
  by (simp add: plain_reply_def parser_eval)

lemma brace_not_bracket: "startswith s ''{'' \<Longrightarrow> \<not> startswith s ''[''"
  by (cases s) (simp_all add: startswith_def)

lemma parse_reply_array:
  assumes "remove_markdown raw = Inr response" and "startswith (strip response) ''[''"
  shows "parse_reply loads raw =
           (case loads (truncate_after_last (strip response) '']'') of
              Decoded v \<Rightarrow> Inr (case v of JArr xs \<Rightarrow> xs | _ \<Rightarrow> [v])
            | DecodeError msg \<Rightarrow> Inl (decode_failure msg response)
            | LoadsRaised e \<Rightarrow> Inl e)"
  using assms by (simp add: parse_reply_def parse_cleaned_def Let_def)

lemma parse_reply_object:
  assumes "remove_markdown raw = Inr response" and "startswith (strip response) ''{''"
  shows "parse_reply loads raw =
           (case loads (truncate_after_last (strip response) ''}'') of
              Decoded v \<Rightarrow> Inr [v]
            | DecodeError msg \<Rightarrow> Inl (decode_failure msg response)
            | LoadsRaised e \<Rightarrow> Inl e)"
  using assms brace_not_bracket [OF assms(2)]
  by (simp add: parse_reply_def parse_cleaned_def Let_def)

text \<open>
  Claim C6, as the code has it. The reply is stripped. A leading marker is removed when
  it is \<^verbatim>\<open>```json\<close> or a bare \<^verbatim>\<open>```\<close>, and the text kept is the one up to the next
  occurrence of that marker; a fence with any other language tag counts as a bare one,
  so the tag stays in the text. A fence at the end is removed, and every escaped
  underscore is replaced. The parser then looks at the first character of the cleaned
  text that is not white space. When it is \<^verbatim>\<open>[\<close>, the text is cut after its last
  \<^verbatim>\<open>]\<close> and handed to the decoder, and the decoded array is the result. When it is
  \<^verbatim>\<open>{\<close>, the text is cut after its last \<^verbatim>\<open>}\<close> and handed to the decoder, and the result
  is the list whose only element is the decoded object. In both cases a text the decoder
  rejects gives a \<^verbatim>\<open>ValueError\<close> that quotes the cleaned text, and any other exception
  of the decoder is passed on. When it is neither, the parser raises a \<^verbatim>\<open>ValueError\<close>.
  So a successful parse is one of the first two and returns a list. Cutting after the
  last occurrence of a character leaves a prefix that ends with it and drops a rest that
  does not contain it.
\<close>

theorem parse_reply_structure:
  "(startswith (strip raw) fence_json \<longrightarrow>
      remove_markdown raw =
        Inr (unescape_underscores (without_trailing_fence
               (up_to fence_json (drop (length fence_json) (strip raw))))))
   \<and> (startswith (strip raw) fence \<and> \<not> startswith (strip raw) fence_json \<longrightarrow>
      remove_markdown raw =
        Inr (unescape_underscores (without_trailing_fence
               (up_to fence (drop (length fence) (strip raw))))))
   \<and> (\<not> startswith (strip raw) fence \<longrightarrow>
      remove_markdown raw = Inr (unescape_underscores (without_trailing_fence (strip raw))))
   \<and> (remove_markdown raw = Inr response \<and> startswith (strip response) ''['' \<longrightarrow>
      parse_reply loads raw =
        (case loads (truncate_after_last (strip response) '']'') of
           Decoded v \<Rightarrow> Inr (case v of JArr xs \<Rightarrow> xs | _ \<Rightarrow> [v])
         | DecodeError msg \<Rightarrow> Inl (decode_failure msg response)
         | LoadsRaised e \<Rightarrow> Inl e))
   \<and> (remove_markdown raw = Inr response \<and> startswith (strip response) ''{'' \<longrightarrow>
      parse_reply loads raw =
        (case loads (truncate_after_last (strip response) ''}'') of
           Decoded v \<Rightarrow> Inr [v]
         | DecodeError msg \<Rightarrow> Inl (decode_failure msg response)
         | LoadsRaised e \<Rightarrow> Inl e))
   \<and> (remove_markdown raw = Inr response \<and> \<not> startswith (strip response) ''[''
        \<and> \<not> startswith (strip response) ''{'' \<longrightarrow>
      parse_reply loads raw = Inl (Exn ValueError ''Response neither starts with [ nor {''))
   \<and> (parse_reply loads raw = Inr vs \<longrightarrow>
      (\<exists>response v. remove_markdown raw = Inr response
         \<and> (startswith (strip response) ''[''
              \<and> loads (truncate_after_last (strip response) '']'') = Decoded v
              \<and> vs = (case v of JArr xs \<Rightarrow> xs | _ \<Rightarrow> [v])
            \<or> startswith (strip response) ''{''
              \<and> loads (truncate_after_last (strip response) ''}'') = Decoded v
              \<and> vs = [v])))
   \<and> (\<exists>rest. s = truncate_after_last s [c] @ rest \<and> c \<notin> set rest
         \<and> (if c \<in> set s
            then truncate_after_last s [c] \<noteq> [] \<and> last (truncate_after_last s [c]) = c
            else rest = []))
   \<and> startswith (strip s) [c] = startswith (dropWhile is_space s) [c]"
  using remove_markdown_json [of raw] remove_markdown_bare [of raw] remove_markdown_plain [of raw]
    parse_reply_array [of raw response loads] parse_reply_object [of raw response loads]
    parse_reply_neither [of raw response loads]
    parse_reply_dispatch [of loads raw vs] truncate_after_last_spec [of s c]
    strip_startswith_char [of s c]
  by (intro conjI impI) blast+

lemma json_reply_clean:
  "remove_markdown fenced_json_reply = Inr ([newline] @ ''[1, 2]'' @ [newline])"
  by (simp add: fenced_json_reply_def parser_eval)

lemma json_reply_bracket: "startswith (strip ([newline] @ ''[1, 2]'' @ [newline])) ''[''"
  by (simp add: parser_eval)

lemma json_reply_decoded:
  "two_texts (truncate_after_last (strip ([newline] @ ''[1, 2]'' @ [newline])) '']'')
     = Decoded (JArr [JInt 1, JInt 2])"
  by (simp add: parser_eval)

lemma plain_reply_clean: "remove_markdown plain_reply = Inr ''{} as requested''"
  by (simp add: plain_reply_def parser_eval)

lemma plain_reply_brace: "startswith (strip ''{} as requested'') ''{''"
  by (simp add: parser_eval)

lemma plain_reply_decoded:
  "two_texts (truncate_after_last (strip ''{} as requested'') ''}'') = Decoded (JObj [])"
  by (simp add: parser_eval)

lemma python_reply_clean:
  "remove_markdown fenced_python_reply = Inr (''python'' @ [newline] @ ''[1, 2]'' @ [newline])"
  by (simp add: fenced_python_reply_def parser_eval)

lemma python_reply_neither:
  "\<not> startswith (strip (''python'' @ [newline] @ ''[1, 2]'' @ [newline])) ''[''
   \<and> \<not> startswith (strip (''python'' @ [newline] @ ''[1, 2]'' @ [newline])) ''{''"
  by (simp add: parser_eval)

theorem parse_reply_structure_witness:
  "startswith (strip fenced_json_reply) fence_json
   \<and> remove_markdown fenced_json_reply =
        Inr (unescape_underscores (without_trailing_fence
               (up_to fence_json (drop (length fence_json) (strip fenced_json_reply)))))
   \<and> startswith (strip fenced_bare_reply) fence
   \<and> \<not> startswith (strip fenced_bare_reply) fence_json
   \<and> remove_markdown fenced_bare_reply =
        Inr (unescape_underscores (without_trailing_fence
               (up_to fence (drop (length fence) (strip fenced_bare_reply)))))
   \<and> \<not> startswith (strip plain_reply) fence
   \<and> remove_markdown plain_reply =
        Inr (unescape_underscores (without_trailing_fence (strip plain_reply)))
   \<and> remove_markdown fenced_json_reply = Inr ([newline] @ ''[1, 2]'' @ [newline])
   \<and> startswith (strip ([newline] @ ''[1, 2]'' @ [newline])) ''[''
   \<and> parse_reply two_texts fenced_json_reply = Inr [JInt 1, JInt 2]
   \<and> remove_markdown plain_reply = Inr ''{} as requested''
   \<and> startswith (strip ''{} as requested'') ''{''
   \<and> parse_reply two_texts plain_reply = Inr [JObj []]
   \<and> remove_markdown fenced_python_reply =
        Inr (''python'' @ [newline] @ ''[1, 2]'' @ [newline])
   \<and> \<not> startswith (strip (''python'' @ [newline] @ ''[1, 2]'' @ [newline])) ''[''
   \<and> \<not> startswith (strip (''python'' @ [newline] @ ''[1, 2]'' @ [newline])) ''{''
   \<and> parse_reply two_texts fenced_python_reply =
        Inl (Exn ValueError ''Response neither starts with [ nor {'')
   \<and> (\<exists>response v. remove_markdown fenced_json_reply = Inr response
         \<and> (startswith (strip response) ''[''
              \<and> two_texts (truncate_after_last (strip response) '']'') = Decoded v
              \<and> [JInt 1, JInt 2] = (case v of JArr xs \<Rightarrow> xs | _ \<Rightarrow> [v])
            \<or> startswith (strip response) ''{''
              \<and> two_texts (truncate_after_last (strip response) ''}'') = Decoded v
              \<and> [JInt 1, JInt 2] = [v]))"
proof -
  note j = parse_reply_structure [where raw = fenced_json_reply and loads = two_texts
      and response = "[newline] @ ''[1, 2]'' @ [newline]" and vs = "[JInt 1, JInt 2]"
      and s = "[]" and c = "CHR ''x''"]
  note b = parse_reply_structure [where raw = fenced_bare_reply and loads = two_texts
      and response = "[]" and vs = "[]" and s = "[]" and c = "CHR ''x''"]
  note p = parse_reply_structure [where raw = plain_reply and loads = two_texts
      and response = "''{} as requested''" and vs = "[]" and s = "[]" and c = "CHR ''x''"]
  note y = parse_reply_structure [where raw = fenced_python_reply and loads = two_texts
      and response = "''python'' @ [newline] @ ''[1, 2]'' @ [newline]" and vs = "[]"
      and s = "[]" and c = "CHR ''x''"]
  from j json_reply_starts have 1: "remove_markdown fenced_json_reply =
        Inr (unescape_underscores (without_trailing_fence
               (up_to fence_json (drop (length fence_json) (strip fenced_json_reply)))))"
    by blast
  from b bare_reply_starts have 2: "remove_markdown fenced_bare_reply =
        Inr (unescape_underscores (without_trailing_fence
               (up_to fence (drop (length fence) (strip fenced_bare_reply)))))"
    by blast
  from p plain_reply_starts have 3: "remove_markdown plain_reply =
        Inr (unescape_underscores (without_trailing_fence (strip plain_reply)))"
    by blast
  from j json_reply_clean json_reply_bracket
  have "parse_reply two_texts fenced_json_reply =
        (case two_texts (truncate_after_last (strip ([newline] @ ''[1, 2]'' @ [newline])) '']'') of
           Decoded v \<Rightarrow> Inr (case v of JArr xs \<Rightarrow> xs | _ \<Rightarrow> [v])
         | DecodeError msg \<Rightarrow> Inl (decode_failure msg ([newline] @ ''[1, 2]'' @ [newline]))
         | LoadsRaised e \<Rightarrow> Inl e)"
    by blast
  then have 4: "parse_reply two_texts fenced_json_reply = Inr [JInt 1, JInt 2]"
    by (simp only: json_reply_decoded loads_outcome.case json.case)
  from p plain_reply_clean plain_reply_brace
  have "parse_reply two_texts plain_reply =
        (case two_texts (truncate_after_last (strip ''{} as requested'') ''}'') of
           Decoded v \<Rightarrow> Inr [v]
         | DecodeError msg \<Rightarrow> Inl (decode_failure msg ''{} as requested'')
         | LoadsRaised e \<Rightarrow> Inl e)"
    by blast
  then have 5: "parse_reply two_texts plain_reply = Inr [JObj []]"
    by (simp only: plain_reply_decoded loads_outcome.case)
  from y python_reply_clean python_reply_neither
  have 6: "parse_reply two_texts fenced_python_reply =
        Inl (Exn ValueError ''Response neither starts with [ nor {'')"
    by blast
  from j 4 have 7: "\<exists>response v. remove_markdown fenced_json_reply = Inr response
         \<and> (startswith (strip response) ''[''
              \<and> two_texts (truncate_after_last (strip response) '']'') = Decoded v
              \<and> [JInt 1, JInt 2] = (case v of JArr xs \<Rightarrow> xs | _ \<Rightarrow> [v])
            \<or> startswith (strip response) ''{''
              \<and> two_texts (truncate_after_last (strip response) ''}'') = Decoded v
              \<and> [JInt 1, JInt 2] = [v])"
    by blast
  from json_reply_starts bare_reply_starts plain_reply_starts 1 2 3 json_reply_clean
    json_reply_bracket 4 plain_reply_clean plain_reply_brace 5 python_reply_clean
    python_reply_neither 6 7
  show ?thesis by (intro conjI) blast+
qed


text \<open>
  Claim C6, as stated, fails for a fence with a language tag other than \<^verbatim>\<open>json\<close>: the
  array inside a \<^verbatim>\<open>python\<close> fence is not parsed, although the decoder knows it.
\<close>

theorem parse_reply_language_tag_counterexample:
  "parse_reply two_texts fenced_python_reply
     = Inl (Exn ValueError ''Response neither starts with [ nor {'')
   \<and> parse_reply two_texts fenced_json_reply = Inr [JInt 1, JInt 2]"
  by (simp add: python_reply_eval json_reply_eval)

section \<open>Properties of the model client\<close>

lemma LLMConfig_init_member:
  "LLMConfig_init E url key (Inr p) =
     (if str_missing (str_or key (getenv E ''LLM_API_KEY''))
      then Inl (Exn ValueError ''API key not provided and LLM_API_KEY not found in environment'')
      else Inr \<lparr>provider = p,
                api_url = str_or url (getenv E ''LLM_API_URL''),
                api_key = str_or key (getenv E ''LLM_API_KEY''),
                model = getenv E ''LLM_MODEL''\<rparr>)"
  by (simp add: LLMConfig_init_def Let_def)

text \<open>
  Claim C9, as the code has it. When no key is given and \<^verbatim>\<open>LLM_API_KEY\<close> is unset or
  empty, the constructor raises at once, whatever the other arguments; for a provider
  given as a member the exception is the \<^verbatim>\<open>ValueError\<close> about the key. When there is a
  key, the constructor returns the configuration: the endpoint and the model are what
  the arguments and the environment give, present or not, and nothing checks them.
\<close>

theorem LLMConfig_init_checks_key_only:
  "(str_missing (str_or key (getenv E ''LLM_API_KEY'')) \<longrightarrow>
      (\<exists>e. LLMConfig_init E url key prov = Inl e)
      \<and> LLMConfig_init E url key (Inr p) =
          Inl (Exn ValueError ''API key not provided and LLM_API_KEY not found in environment''))
   \<and> (\<not> str_missing (str_or key (getenv E ''LLM_API_KEY'')) \<longrightarrow>
      LLMConfig_init E url key (Inr p) =
        Inr \<lparr>provider = p,
             api_url = str_or url (getenv E ''LLM_API_URL''),
             api_key = str_or key (getenv E ''LLM_API_KEY''),
             model = getenv E ''LLM_MODEL''\<rparr>)"
proof (intro conjI impI)
  assume m: "str_missing (str_or key (getenv E ''LLM_API_KEY''))"
  show "\<exists>e. LLMConfig_init E url key prov = Inl e"
  proof (cases prov)
    case (Inr q)
    with m show ?thesis by (simp add: LLMConfig_init_member)
  next
    case (Inl v)
    show ?thesis
    proof (cases "LLMProvider_of E v")
      case e: (Inl e)
      with Inl show ?thesis by (simp add: LLMConfig_init_def)
    next
      case (Inr q)
      with Inl m show ?thesis by (simp add: LLMConfig_init_def Let_def)
    qed
  qed
  from m show "LLMConfig_init E url key (Inr p) =
          Inl (Exn ValueError ''API key not provided and LLM_API_KEY not found in environment'')"
    by (simp add: LLMConfig_init_member)
next
  assume "\<not> str_missing (str_or key (getenv E ''LLM_API_KEY''))"
  then show "LLMConfig_init E url key (Inr p) =
        Inr \<lparr>provider = p,
             api_url = str_or url (getenv E ''LLM_API_URL''),
             api_key = str_or key (getenv E ''LLM_API_KEY''),
             model = getenv E ''LLM_MODEL''\<rparr>"
    by (simp add: LLMConfig_init_member)
qed

lemma bare_missing: "str_missing (str_or None (getenv bare_env ''LLM_API_KEY''))"
  by (simp add: str_missing_def str_or_def bare_env_def offline_env_def)

lemma bare_given: "\<not> str_missing (str_or (Some ''secret'') (getenv bare_env ''LLM_API_KEY''))"
  by (simp add: str_missing_def str_or_def)

theorem LLMConfig_init_checks_key_only_witness:
  "str_missing (str_or None (getenv bare_env ''LLM_API_KEY''))
   \<and> LLMConfig_init bare_env None None (Inr MISTRAL) =
       Inl (Exn ValueError ''API key not provided and LLM_API_KEY not found in environment'')
   \<and> \<not> str_missing (str_or (Some ''secret'') (getenv bare_env ''LLM_API_KEY''))
   \<and> LLMConfig_init bare_env None (Some ''secret'') (Inr MISTRAL) =
       Inr \<lparr>provider = MISTRAL,
            api_url = str_or None (getenv bare_env ''LLM_API_URL''),
            api_key = str_or (Some ''secret'') (getenv bare_env ''LLM_API_KEY''),
            model = getenv bare_env ''LLM_MODEL''\<rparr>"
  using LLMConfig_init_checks_key_only [of None bare_env None "Inr MISTRAL" MISTRAL]
    LLMConfig_init_checks_key_only [of "Some ''secret''" bare_env None "Inr MISTRAL" MISTRAL]
    bare_missing bare_given
  by (intro conjI) blast+

text \<open>
  Claim C9, as stated, fails for the endpoint and the model: with a key and neither
  \<^verbatim>\<open>LLM_API_URL\<close> nor \<^verbatim>\<open>LLM_MODEL\<close>, the constructor returns a configuration whose
  endpoint and model are \<^verbatim>\<open>None\<close>.
\<close>

theorem LLMConfig_init_no_endpoint_counterexample:
  "LLMConfig_init bare_env None (Some ''secret'') (Inr MISTRAL) =
     Inr \<lparr>provider = MISTRAL, api_url = None, api_key = Some ''secret'', model = None\<rparr>"
  by (simp add: LLMConfig_init_def Let_def str_or_def str_missing_def bare_env_def offline_env_def)

section \<open>Properties of the rate limiter\<close>

lemma interval_rate_limiter: "interval rate_limiter = 6"
  by (simp add: rate_limiter_def new_limiter_def)

lemma wait_stamp:
  assumes "wait lateness delay (rl, now) = (rl', t)"
  shows "last_request_time rl' = t"
    and "interval rl' = interval rl"
    and "0 \<le> lateness \<Longrightarrow> 0 \<le> delay \<Longrightarrow> now \<le> t"
    and "0 \<le> lateness \<Longrightarrow> 0 \<le> delay \<Longrightarrow> last_request_time rl + interval rl \<le> t"
  using assms by (auto simp: wait_def Let_def split: if_splits)

text \<open>
  Claim C8. With the configured rate of 10 requests per minute the interval is 6
  seconds. When \<^verbatim>\<open>wait\<close> is called twice in succession on a limiter with that interval,
  the first call records the time at which it returns as the time of the last request,
  and the second call returns no earlier than 6 seconds after that recorded time. Time is
  exact here, a sleep lasts at least as long as asked, and no time runs backwards between
  two readings of the clock.
\<close>

theorem wait_twice_spacing:
  assumes "interval rl = interval rate_limiter"
    and "0 \<le> late1" "0 \<le> delay1" "0 \<le> gap" "0 \<le> late2" "0 \<le> delay2"
    and first: "wait late1 delay1 (rl, now) = (rl1, t1)"
    and second: "wait late2 delay2 (rl1, t1 + gap) = (rl2, t2)"
  shows "last_request_time rl1 = t1 \<and> last_request_time rl1 + 6 \<le> t2"
proof -
  have "interval rl1 = 6"
    using wait_stamp(2) [OF first] assms(1) interval_rate_limiter by simp
  moreover have "last_request_time rl1 + interval rl1 \<le> t2"
    using wait_stamp(4) [OF second] assms by simp
  ultimately show ?thesis
    using wait_stamp(1) [OF first] by simp
qed

lemma sample_first_wait:
  "wait 0 0 (rate_limiter, 100) = (rate_limiter\<lparr>last_request_time := 100\<rparr>, 100)"
  by (simp add: wait_def rate_limiter_def new_limiter_def Let_def)

lemma sample_second_wait:
  "wait 0 0 (rate_limiter\<lparr>last_request_time := 100\<rparr>, 100 + 1)
     = (rate_limiter\<lparr>last_request_time := 106\<rparr>, 106)"
  by (simp add: wait_def rate_limiter_def new_limiter_def Let_def)

theorem wait_twice_spacing_witness:
  "wait 0 0 (rate_limiter, 100) = (rate_limiter\<lparr>last_request_time := 100\<rparr>, 100)
   \<and> wait 0 0 (rate_limiter\<lparr>last_request_time := 100\<rparr>, 100 + 1)
       = (rate_limiter\<lparr>last_request_time := 106\<rparr>, 106)
   \<and> last_request_time (rate_limiter\<lparr>last_request_time := 100\<rparr>) + 6 \<le> (106 :: real)"
  using wait_twice_spacing [OF refl _ _ _ _ _ sample_first_wait sample_second_wait]
    sample_first_wait sample_second_wait
  by simp

section \<open>Properties of the orchestrator\<close>

lemma execute_command_failure_error:
  assumes "execute_command E tm command params w = (r, w')" and "\<not> success r"
  shows "\<exists>msg. r = failure msg"
proof (cases "\<exists>c. command = JStr c")
  case False
  then have "execute_command E tm command params w =
               (failure (not_allowed_text (py_str E command)), w)"
    by (intro execute_command_non_string) blast
  with assms(1) show ?thesis by auto
next
  case True
  then obtain c where c: "command = JStr c" by blast
  show ?thesis
  proof (cases "c \<in> set ALLOWED_COMMANDS")
    case False
    with assms(1) c show ?thesis by (auto simp: execute_command_def)
  next
    case True
    obtain res w1 where rt: "run_tool E tm c params w = (res, w1)"
      by (cases "run_tool E tm c params w")
    show ?thesis
    proof (cases res)
      case (Inl e)
      with assms(1) c True rt show ?thesis by (auto simp: execute_command_def)
    next
      case (Inr result)
      show ?thesis
      proof (cases "validate_data E result")
        case (Inl e)
        with assms(1) c True rt Inr show ?thesis by (auto simp: execute_command_def)
      next
        case vd: (Inr d)
        with assms c True rt Inr show ?thesis by (auto simp: execute_command_def)
      qed
    qed
  qed
qed

lemma run_plan_failures:
  assumes "run_plan E tm cmds w = (resps, w')"
  shows "\<exists>es. map error (filter (\<lambda>resp. \<not> success resp) resps) = map Some es"
  using assms
proof (induction cmds arbitrary: w resps w')
  case Nil
  then show ?case by simp
next
  case (Cons cmd rest)
  obtain command params where cmd: "cmd = (command, params)" by (cases cmd)
  obtain r w1 where ex: "execute_command E tm command params w = (r, w1)"
    by (cases "execute_command E tm command params w")
  obtain rs w2 where rp: "run_plan E tm rest w1 = (rs, w2)"
    by (cases "run_plan E tm rest w1")
  from Cons.prems cmd ex rp have resps: "resps = r # rs" by simp
  from Cons.IH [OF rp] obtain es where
    es: "map error (filter (\<lambda>resp. \<not> success resp) rs) = map Some es" by blast
  show ?case
  proof (cases "success r")
    case True
    with resps es show ?thesis by auto
  next
    case False
    from execute_command_failure_error [OF ex False] obtain msg where "r = failure msg" by blast
    then have "error r = Some msg" by (simp add: failure_def)
    with False resps es have
      "map error (filter (\<lambda>resp. \<not> success resp) resps) = map Some (msg # es)" by simp
    then show ?thesis by blast
  qed
qed

lemma join_errors_Some: "join_errors E i (map Some es) = Inr es"
  by (induction es arbitrary: i) simp_all

lemma model_calls_tool:
  "svc \<noteq> ModelAPI \<Longrightarrow> model_calls (w @ [Request svc arg]) = model_calls w"
  by (simp add: model_calls_def)

lemma run_tool_model_calls:
  assumes "run_tool E tm c params w = (res, w')"
  shows "model_calls w' = model_calls w"
proof (cases "merge_params E tm c params")
  case (Inl e)
  with assms show ?thesis by (simp add: run_tool_def)
next
  case (Inr tp)
  obtain ds where s: "search E (dict_get tp ''query'') w
                        = (ds, w @ [Request SearchAPI (dict_get tp ''query'')])"
    using search_result by blast
  obtain dw where g: "get_weather E (dict_get tp ''location'') w
                        = (dw, w @ [Request WeatherAPI (dict_get tp ''location'')])"
    using get_weather_result by blast
  obtain rn where n: "get_latest_news E (dict_get tp ''topic'') w
          = (rn, w @ [Request NewsAPI (if truthy (dict_get tp ''topic'')
                                       then dict_get tp ''topic'' else JNull)])"
    by (cases "http E (length w) (Request NewsAPI (if truthy (dict_get tp ''topic'')
                                       then dict_get tp ''topic'' else JNull))")
      (simp_all add: get_latest_news_def fetch_def)
  have unfolded: "run_tool E tm c params w =
          (if c = ''search'' then (Inr (JObj ds), w @ [Request SearchAPI (dict_get tp ''query'')])
           else if c = ''news''
           then (rn, w @ [Request NewsAPI (if truthy (dict_get tp ''topic'')
                                           then dict_get tp ''topic'' else JNull)])
           else if c = ''weather''
           then (Inr (JObj dw), w @ [Request WeatherAPI (dict_get tp ''location'')])
           else if c = ''time''
           then (Inr (JObj (get_time E (location tm) (dict_get tp ''timezone''))), w)
           else (Inr (JObj (help_result E tm)), w))"
    by (simp add: run_tool_def Inr s g n)
  have "w' = w \<or> (\<exists>svc arg. svc \<noteq> ModelAPI \<and> w' = w @ [Request svc arg])"
  proof (cases "c = ''search''")
    case True
    with unfolded assms have "w' = w @ [Request SearchAPI (dict_get tp ''query'')]" by simp
    then show ?thesis by blast
  next
    case ns: False
    show ?thesis
    proof (cases "c = ''news''")
      case True
      with ns unfolded assms have
        "w' = w @ [Request NewsAPI (if truthy (dict_get tp ''topic'')
                                    then dict_get tp ''topic'' else JNull)]" by simp
      then show ?thesis by blast
    next
      case nn: False
      show ?thesis
      proof (cases "c = ''weather''")
        case True
        with ns nn unfolded assms have "w' = w @ [Request WeatherAPI (dict_get tp ''location'')]"
          by simp
        then show ?thesis by blast
      next
        case nw: False
        with ns nn unfolded assms have "w' = w"
          by (cases "c = ''time''") simp_all
        then show ?thesis by blast
      qed
    qed
  qed
  then show ?thesis
    using model_calls_tool by auto
qed

lemma execute_command_model_calls:
  assumes "execute_command E tm command params w = (r, w')"
  shows "model_calls w' = model_calls w"
proof (cases "\<exists>c. command = JStr c")
  case False
  then have "execute_command E tm command params w =
               (failure (not_allowed_text (py_str E command)), w)"
    by (intro execute_command_non_string) blast
  with assms show ?thesis by simp
next
  case True
  then obtain c where c: "command = JStr c" by blast
  show ?thesis
  proof (cases "c \<in> set ALLOWED_COMMANDS")
    case False
    with assms c show ?thesis by (simp add: execute_command_def)
  next
    case True
    obtain res w1 where rt: "run_tool E tm c params w = (res, w1)"
      by (cases "run_tool E tm c params w")
    from assms c True rt have "w' = w1"
      by (simp add: execute_command_def split: sum.splits)
    with run_tool_model_calls [OF rt] show ?thesis by simp
  qed
qed

lemma run_plan_model_calls:
  assumes "run_plan E tm cmds w = (resps, w')"
  shows "model_calls w' = model_calls w"
  using assms
proof (induction cmds arbitrary: w resps w')
  case Nil
  then show ?case by simp
next
  case (Cons cmd rest)
  obtain command params where cmd: "cmd = (command, params)" by (cases cmd)
  obtain r w1 where ex: "execute_command E tm command params w = (r, w1)"
    by (cases "execute_command E tm command params w")
  obtain rs w2 where rp: "run_plan E tm rest w1 = (rs, w2)"
    by (cases "run_plan E tm rest w1")
  from Cons.prems cmd ex rp have "w' = w2" by simp
  with Cons.IH [OF rp] execute_command_model_calls [OF ex] show ?case by simp
qed

text \<open>
  Claim C1. When the plan was obtained and one of the responses of its commands has
  \<open>success = False\<close>, \<^verbatim>\<open>process_request\<close> returns the text
  \<^verbatim>\<open>Error(s) occurred:\<close> followed by the error strings of all the failing responses, in
  the order of the plan, joined by \<^verbatim>\<open>; \<close>. Nothing of the responses that succeeded is
  in the result. The world it returns is the world right after the commands of the plan:
  neither the draft, nor a search of the enrichment, nor the final answer was requested,
  and the number of requests to the model is the one reached when the plan arrived.
\<close>

theorem process_request_aborts_on_failure:
  assumes plan: "structured_output_prompt E (Inr MISTRAL) w = (Inr plan, w1)"
    and cmds: "plan_commands E plan = Inr cmds"
    and run: "run_plan E tm cmds w1 = (resps, w2)"
    and failed: "\<exists>r \<in> set resps. \<not> success r"
  shows "\<exists>es. map error (filter (\<lambda>resp. \<not> success resp) resps) = map Some es
            \<and> es \<noteq> []
            \<and> process_request E tm user_input w =
                (Inr (JStr (''Error(s) occurred: '' @ join ''; '' es)), w2)
            \<and> model_calls w2 = model_calls w1"
proof -
  from run_plan_failures [OF run] obtain es where
    es: "map error (filter (\<lambda>resp. \<not> success resp) resps) = map Some es" by blast
  from failed have some: "filter (\<lambda>resp. \<not> success resp) resps \<noteq> []"
    by (simp add: filter_empty_conv)
  then have "map error (filter (\<lambda>resp. \<not> success resp) resps) \<noteq> []" by simp
  with es have ne: "es \<noteq> []" by auto
  have "process_request E tm user_input w =
          (Inr (JStr (''Error(s) occurred: '' @ join ''; '' es)), w2)"
    using ne some by (simp add: process_request_def plan cmds run es join_errors_Some errors_text_def Let_def)
  with es ne run_plan_model_calls [OF run] show ?thesis by blast
qed

lemmas pipeline_eval =
  structured_output_prompt_def chat_prompt_def LLMConfig_init_def str_or_def str_missing_def
  fetch_def optional_json_def extract_reply_def choices_content_def py_item_def py_first_def
  model_body_def chat_handler_def offline_env_def quoted_def

lemma sample_plan:
  "structured_output_prompt planning_env (Inr MISTRAL) [] =
     (Inr [JObj [(''command'', JStr ''delete''), (''params'', JObj [])],
           JObj [(''command'', JStr ''help''), (''params'', JObj [])]],
      [Request ModelAPI JNull])"
  by (simp add: pipeline_eval parser_eval planning_env_def plan_text_def plan_value_def)

lemma sample_cmds:
  "plan_commands planning_env
     [JObj [(''command'', JStr ''delete''), (''params'', JObj [])],
      JObj [(''command'', JStr ''help''), (''params'', JObj [])]]
   = Inr [(JStr ''delete'', JObj []), (JStr ''help'', JObj [])]"
  by (simp add: py_item_def)

lemma sample_run:
  "run_plan planning_env sample_manager
     [(JStr ''delete'', JObj []), (JStr ''help'', JObj [])] [Request ModelAPI JNull]
   = ([failure (not_allowed_text ''delete''),
       \<lparr>success = True, data = help_result planning_env sample_manager, error = None\<rparr>],
      [Request ModelAPI JNull])"
  by (simp add: execute_command_def ALLOWED_COMMANDS_def run_tool_def merge_params_def
      validate_data_def)

theorem process_request_aborts_on_failure_witness:
  "structured_output_prompt planning_env (Inr MISTRAL) [] =
     (Inr [JObj [(''command'', JStr ''delete''), (''params'', JObj [])],
           JObj [(''command'', JStr ''help''), (''params'', JObj [])]],
      [Request ModelAPI JNull])
   \<and> plan_commands planning_env
       [JObj [(''command'', JStr ''delete''), (''params'', JObj [])],
        JObj [(''command'', JStr ''help''), (''params'', JObj [])]]
     = Inr [(JStr ''delete'', JObj []), (JStr ''help'', JObj [])]
   \<and> run_plan planning_env sample_manager
       [(JStr ''delete'', JObj []), (JStr ''help'', JObj [])] [Request ModelAPI JNull]
     = ([failure (not_allowed_text ''delete''),
         \<lparr>success = True, data = help_result planning_env sample_manager, error = None\<rparr>],
        [Request ModelAPI JNull])
   \<and> process_request planning_env sample_manager ''weather and more'' [] =
       (Inr (JStr (''Error(s) occurred: '' @ not_allowed_text ''delete'')),
        [Request ModelAPI JNull])"
proof -
  have failed: "\<exists>r \<in> set [failure (not_allowed_text ''delete''),
       \<lparr>success = True, data = help_result planning_env sample_manager, error = None\<rparr>].
          \<not> success r"
    by (simp add: failure_def)
  from process_request_aborts_on_failure [OF sample_plan sample_cmds sample_run failed,
      of "''weather and more''"]
  obtain es where
    "map error (filter (\<lambda>resp. \<not> success resp) [failure (not_allowed_text ''delete''),
       \<lparr>success = True, data = help_result planning_env sample_manager, error = None\<rparr>])
       = map Some es"
    and pr: "process_request planning_env sample_manager ''weather and more'' [] =
       (Inr (JStr (''Error(s) occurred: '' @ join ''; '' es)), [Request ModelAPI JNull])"
    by blast
  then have "es = [not_allowed_text ''delete'']"
    by (auto simp: failure_def)
  with pr sample_plan sample_cmds sample_run show ?thesis by simp
qed

lemma search_command:
  "\<exists>d. execute_command E tm (JStr ''search'') (JObj [(''query'', q)]) w =
         (\<lparr>success = True, data = d, error = None\<rparr>, w @ [Request SearchAPI q])"
proof -
  have allowed: "''search'' \<in> set ALLOWED_COMMANDS"
    by (simp add: ALLOWED_COMMANDS_def)
  have m: "merge_params E tm ''search'' (JObj [(''query'', q)]) =
             Inr (dict_set (defaults_for tm ''search'') ''query'' q)"
    by (simp add: merge_params_def py_dict_update_def dict_update_def)
  have g: "dict_get (dict_set (defaults_for tm ''search'') ''query'' q) ''query'' = q"
    by (simp add: dict_get_def dict_get_default_def map_of_dict_set)
  obtain ds where s: "search E q w = (ds, w @ [Request SearchAPI q])"
    using search_result by blast
  have "run_tool E tm ''search'' (JObj [(''query'', q)]) w =
          (Inr (JObj ds), w @ [Request SearchAPI q])"
    by (simp add: run_tool_def m g s)
  then have "execute_command E tm (JStr ''search'') (JObj [(''query'', q)]) w =
         (\<lparr>success = True, data = ds, error = None\<rparr>, w @ [Request SearchAPI q])"
    by (simp add: execute_command_def allowed validate_data_def)
  then show ?thesis by blast
qed

lemma length_search_responses: "length (search_responses E tm queries w) = length queries"
proof (induction queries arbitrary: w)
  case Nil
  show ?case by simp
next
  case (Cons q qs)
  from search_command [of E tm q w] obtain d where
    "execute_command E tm (JStr ''search'') (JObj [(''query'', q)]) w =
         (\<lparr>success = True, data = d, error = None\<rparr>, w @ [Request SearchAPI q])" by blast
  with Cons.IH show ?case by simp
qed

lemma search_each_spec:
  "search_each E tm queries acc w =
     (acc @ enrichment_items queries (search_responses E tm queries w),
      w @ map (Request SearchAPI) queries)"
proof (induction queries arbitrary: acc w)
  case Nil
  show ?case by (simp add: enrichment_items_def)
next
  case (Cons q qs)
  from search_command [of E tm q w] obtain d where
    ex: "execute_command E tm (JStr ''search'') (JObj [(''query'', q)]) w =
         (\<lparr>success = True, data = d, error = None\<rparr>, w @ [Request SearchAPI q])" by blast
  show ?case
    by (simp add: ex Cons.IH enrichment_items_def)
qed

lemma enrich_list:
  assumes "dict_get d ''needs_search'' = JArr queries"
  shows "enrich E tm (JObj d) w =
           (Inr (enrichment_items queries (search_responses E tm queries w)),
            w @ map (Request SearchAPI) queries)"
proof (cases "queries = []")
  case True
  with assms show ?thesis
    by (simp add: enrich_def py_get_def py_get_default_def dict_get_def enrichment_items_def)
next
  case False
  with assms show ?thesis
    by (simp add: enrich_def py_get_def py_get_default_def dict_get_def py_iter_def
        search_each_spec)
qed

lemma enrich_nothing:
  assumes "\<not> truthy (dict_get d ''needs_search'')"
  shows "enrich E tm (JObj d) w = (Inr [], w)"
  using assms by (simp add: enrich_def py_get_def py_get_default_def dict_get_def)

lemma process_request_finalizes:
  assumes plan: "structured_output_prompt E (Inr MISTRAL) w = (Inr plan, w1)"
    and cmds: "plan_commands E plan = Inr cmds"
    and run: "run_plan E tm cmds w1 = (resps, w2)"
    and ok: "filter (\<lambda>resp. \<not> success resp) resps = []"
    and draft: "structured_output_prompt E (Inr MISTRAL) w2 = (Inr (analysis # others), w3)"
    and enriched: "enrich E tm analysis w3 = (Inr additional_info, w4)"
  shows "process_request E tm user_input w = chat_prompt E (Inr MISTRAL) w4"
  by (simp add: process_request_def plan cmds run ok draft enriched py_first_def Let_def)

section \<open>Transport failures and the plan\<close>

lemma run_plan_append:
  "run_plan E tm (xs @ ys) w =
     (case run_plan E tm xs w of
        (r1, w') \<Rightarrow> (case run_plan E tm ys w' of (r2, w'') \<Rightarrow> (r1 @ r2, w'')))"
proof (induction xs arbitrary: w)
  case Nil
  show ?case by (simp split: prod.splits)
next
  case (Cons x xs)
  obtain command params where x: "x = (command, params)" by (cases x)
  show ?case
    by (simp add: x Cons.IH split: prod.splits)
qed

lemma process_request_continues:
  assumes plan: "structured_output_prompt E (Inr MISTRAL) w = (Inr plan, w1)"
    and cmds: "plan_commands E plan = Inr cmds"
    and run: "run_plan E tm cmds w1 = (resps, w2)"
    and ok: "filter (\<lambda>resp. \<not> success resp) resps = []"
  shows "process_request E tm user_input w = draft_and_finalize E tm w2"
  by (simp add: process_request_def draft_and_finalize_def plan cmds run ok Let_def)

lemma process_request_abort_text:
  assumes plan: "structured_output_prompt E (Inr MISTRAL) w = (Inr plan, w1)"
    and cmds: "plan_commands E plan = Inr cmds"
    and run: "run_plan E tm cmds w1 = (resps, w2)"
    and some: "filter (\<lambda>resp. \<not> success resp) resps \<noteq> []"
  shows "\<exists>es. map error (filter (\<lambda>resp. \<not> success resp) resps) = map Some es
            \<and> process_request E tm user_input w = (Inr (JStr (errors_text es)), w2)"
proof -
  from run_plan_failures [OF run] obtain es where
    es: "map error (filter (\<lambda>resp. \<not> success resp) resps) = map Some es" by blast
  from some have "map error (filter (\<lambda>resp. \<not> success resp) resps) \<noteq> []" by simp
  with es have ne: "es \<noteq> []" by auto
  have "process_request E tm user_input w = (Inr (JStr (errors_text es)), w2)"
    using ne some by (simp add: process_request_def plan cmds run es join_errors_Some Let_def)
  with es show ?thesis by blast
qed

lemma transport_failure_response:
  assumes merge: "merge_params E tm command params = Inr merged"
    and cmd: "(command = ''weather'' \<and> svc = WeatherAPI \<and> key = ''location'')
            \<or> (command = ''search'' \<and> svc = SearchAPI \<and> key = ''query'')"
    and fail: "http E (length w) (Request svc (dict_get merged key)) = HttpRaised e"
  shows "\<exists>d txt.
           execute_command E tm (JStr command) params w =
             (\<lparr>success = True, data = d, error = None\<rparr>, w @ [Request svc (dict_get merged key)])
         \<and> map_of d ''error'' = Some (JStr txt)
         \<and> (if exn_cls e = RequestsTimeout
            then txt = (if command = ''weather'' then ''Request timed out after multiple retries''
                        else ''Search request timed out'')
            else str_contains txt (exn_str e))"
  using cmd
proof
  assume a: "command = ''weather'' \<and> svc = WeatherAPI \<and> key = ''location''"
  then have f: "http E (length w) (Request WeatherAPI (dict_get merged ''location'')) = HttpRaised e"
    using fail by simp
  have m: "merge_params E tm ''weather'' params = Inr merged"
    using merge a by simp
  have ex: "execute_command E tm (JStr ''weather'') params w =
          (\<lparr>success = True, data = weather_handler (dict_get merged ''location'') e, error = None\<rparr>,
           w @ [Request WeatherAPI (dict_get merged ''location'')])"
    by (simp add: execute_weather [OF m] get_weather_failed [OF f])
  from weather_handler_error [of "dict_get merged ''location''" e]
  obtain t where "map_of (weather_handler (dict_get merged ''location'') e) ''error'' = Some (JStr t)"
    and "if exn_cls e = RequestsTimeout
         then t = ''Request timed out after multiple retries''
         else str_contains t (exn_str e)"
    by blast
  with a ex show ?thesis
    by (intro exI [of _ "weather_handler (dict_get merged ''location'') e"] exI [of _ t]) simp
next
  assume a: "command = ''search'' \<and> svc = SearchAPI \<and> key = ''query''"
  then have f: "http E (length w) (Request SearchAPI (dict_get merged ''query'')) = HttpRaised e"
    using fail by simp
  have m: "merge_params E tm ''search'' params = Inr merged"
    using merge a by simp
  have ex: "execute_command E tm (JStr ''search'') params w =
          (\<lparr>success = True, data = search_failed E (dict_get merged ''query'') e, error = None\<rparr>,
           w @ [Request SearchAPI (dict_get merged ''query'')])"
    by (simp add: execute_search [OF m] search_failed_eq [OF f])
  from search_failed_error [of E "dict_get merged ''query''" e]
  obtain t where "map_of (search_failed E (dict_get merged ''query'') e) ''error'' = Some (JStr t)"
    and "if exn_cls e = RequestsTimeout
         then t = ''Search request timed out''
         else str_contains t (exn_str e)"
    by blast
  with a ex show ?thesis
    by (intro exI [of _ "search_failed E (dict_get merged ''query'') e"] exI [of _ t]) simp
qed

text \<open>
  Claim C2. Take an invocation of \<^verbatim>\<open>weather\<close> or \<^verbatim>\<open>search\<close> whose parameters merge
  and whose request raises, a timeout included. The tool catches the exception, so
  \<^verbatim>\<open>execute_command\<close> returns \<open>success = True\<close> with no error of its own, and the data
  holds under \<^verbatim>\<open>error\<close> a text: the fixed text of the tool for a timeout, a text that
  contains the message of the exception otherwise. The request is the only change of the
  world. When that invocation is a step of the plan of \<^verbatim>\<open>process_request\<close>, its
  response stands in the list of the responses and is not among the failed ones: the
  failed responses are those of the other steps. With none of these, \<^verbatim>\<open>process_request\<close>
  goes on to the draft, the enrichment and the answer; with some, the text it returns
  lists the errors of the other steps only.
\<close>

theorem transport_failure_is_success:
  assumes merge: "merge_params E tm command params = Inr merged"
    and cmd: "(command = ''weather'' \<and> svc = WeatherAPI \<and> key = ''location'')
            \<or> (command = ''search'' \<and> svc = SearchAPI \<and> key = ''query'')"
    and fail: "http E (length w) (Request svc (dict_get merged key)) = HttpRaised e"
  shows "\<exists>d txt.
           execute_command E tm (JStr command) params w =
             (\<lparr>success = True, data = d, error = None\<rparr>, w @ [Request svc (dict_get merged key)])
         \<and> map_of d ''error'' = Some (JStr txt)
         \<and> (if exn_cls e = RequestsTimeout
            then txt = (if command = ''weather'' then ''Request timed out after multiple retries''
                        else ''Search request timed out'')
            else str_contains txt (exn_str e))
         \<and> (structured_output_prompt E (Inr MISTRAL) w0 = (Inr plan, w1)
              \<and> plan_commands E plan = Inr (before @ (JStr command, params) # after)
              \<and> run_plan E tm before w1 = (rs1, w)
              \<and> run_plan E tm after (w @ [Request svc (dict_get merged key)]) = (rs2, w2)
            \<longrightarrow>
              run_plan E tm (before @ (JStr command, params) # after) w1 =
                (rs1 @ \<lparr>success = True, data = d, error = None\<rparr> # rs2, w2)
              \<and> filter (\<lambda>resp. \<not> success resp)
                    (rs1 @ \<lparr>success = True, data = d, error = None\<rparr> # rs2)
                  = filter (\<lambda>resp. \<not> success resp) (rs1 @ rs2)
              \<and> (filter (\<lambda>resp. \<not> success resp) (rs1 @ rs2) = [] \<longrightarrow>
                    process_request E tm user_input w0 = draft_and_finalize E tm w2)
              \<and> (filter (\<lambda>resp. \<not> success resp) (rs1 @ rs2) \<noteq> [] \<longrightarrow>
                    (\<exists>es. map error (filter (\<lambda>resp. \<not> success resp) (rs1 @ rs2)) = map Some es
                       \<and> process_request E tm user_input w0
                           = (Inr (JStr (errors_text es)), w2))))"
proof -
  from transport_failure_response [OF merge cmd fail] obtain d t where
    ex: "execute_command E tm (JStr command) params w =
             (\<lparr>success = True, data = d, error = None\<rparr>, w @ [Request svc (dict_get merged key)])"
    and er: "map_of d ''error'' = Some (JStr t)"
    and tx: "if exn_cls e = RequestsTimeout
            then t = (if command = ''weather'' then ''Request timed out after multiple retries''
                        else ''Search request timed out'')
            else str_contains t (exn_str e)"
    by blast
  let ?r = "\<lparr>success = True, data = d, error = None\<rparr>"
  let ?cmds = "before @ (JStr command, params) # after"
  have orch: "run_plan E tm ?cmds w1 = (rs1 @ ?r # rs2, w2)
              \<and> filter (\<lambda>resp. \<not> success resp) (rs1 @ ?r # rs2)
                  = filter (\<lambda>resp. \<not> success resp) (rs1 @ rs2)
              \<and> (filter (\<lambda>resp. \<not> success resp) (rs1 @ rs2) = [] \<longrightarrow>
                    process_request E tm user_input w0 = draft_and_finalize E tm w2)
              \<and> (filter (\<lambda>resp. \<not> success resp) (rs1 @ rs2) \<noteq> [] \<longrightarrow>
                    (\<exists>es. map error (filter (\<lambda>resp. \<not> success resp) (rs1 @ rs2)) = map Some es
                       \<and> process_request E tm user_input w0
                           = (Inr (JStr (errors_text es)), w2)))"
    if h: "structured_output_prompt E (Inr MISTRAL) w0 = (Inr plan, w1)
              \<and> plan_commands E plan = Inr ?cmds
              \<and> run_plan E tm before w1 = (rs1, w)
              \<and> run_plan E tm after (w @ [Request svc (dict_get merged key)]) = (rs2, w2)"
  proof -
    from h have run: "run_plan E tm ?cmds w1 = (rs1 @ ?r # rs2, w2)"
      by (simp add: run_plan_append ex)
    have flt: "filter (\<lambda>resp. \<not> success resp) (rs1 @ ?r # rs2)
                  = filter (\<lambda>resp. \<not> success resp) (rs1 @ rs2)"
      by simp
    from h have p: "structured_output_prompt E (Inr MISTRAL) w0 = (Inr plan, w1)"
      and c: "plan_commands E plan = Inr ?cmds" by blast+
    have cont: "process_request E tm user_input w0 = draft_and_finalize E tm w2"
      if "filter (\<lambda>resp. \<not> success resp) (rs1 @ rs2) = []"
    proof -
      from that flt have "filter (\<lambda>resp. \<not> success resp) (rs1 @ ?r # rs2) = []"
        by simp
      then show ?thesis
        by (rule process_request_continues [OF p c run])
    qed
    have abort: "\<exists>es. map error (filter (\<lambda>resp. \<not> success resp) (rs1 @ rs2)) = map Some es
                       \<and> process_request E tm user_input w0
                           = (Inr (JStr (errors_text es)), w2)"
      if "filter (\<lambda>resp. \<not> success resp) (rs1 @ rs2) \<noteq> []"
    proof -
      from that flt have "filter (\<lambda>resp. \<not> success resp) (rs1 @ ?r # rs2) \<noteq> []"
        by simp
      from process_request_abort_text [OF p c run this, of user_input] flt
      show ?thesis by simp
    qed
    from run flt cont abort show ?thesis by blast
  qed
  from ex er tx orch show ?thesis by blast
qed


lemma wp_merge:
  "merge_params weather_plan_env sample_manager ''weather'' (JObj []) =
     Inr [(''location'', JStr ''London, UK'')]"
  by (simp add: merge_params_def defaults_for_def sample_manager_def ToolManager_init_def
      fallback_location_def py_str_def)

lemma wp_fail:
  "http weather_plan_env (length [Request ModelAPI JNull])
        (Request WeatherAPI (dict_get [(''location'', JStr ''London, UK'')] ''location''))
     = HttpRaised (Exn RequestException ''connection refused'')"
  by (simp add: weather_plan_env_def offline_env_def)

lemma wp_plan:
  "structured_output_prompt weather_plan_env (Inr MISTRAL) [] =
     (Inr [JObj [(''command'', JStr ''weather''), (''params'', JObj [])]],
      [Request ModelAPI JNull])"
  by (simp add: pipeline_eval parser_eval weather_plan_env_def weather_plan_text_def
      weather_plan_value_def)

lemma wp_cmds:
  "plan_commands weather_plan_env [JObj [(''command'', JStr ''weather''), (''params'', JObj [])]]
     = Inr ([] @ (JStr ''weather'', JObj []) # [])"
  by (simp add: py_item_def)

lemma wp_draft:
  "draft_and_finalize weather_plan_env sample_manager
     ([Request ModelAPI JNull]
        @ [Request WeatherAPI (dict_get [(''location'', JStr ''London, UK'')] ''location'')]) =
     (Inl (Exn PlainException ''API request failed: connection refused''),
      [Request ModelAPI JNull, Request WeatherAPI (JStr ''London, UK''), Request ModelAPI JNull])"
  by (simp add: draft_and_finalize_def pipeline_eval weather_plan_env_def dict_get_def
      dict_get_default_def)

lemma dialogue_search_merge:
  "merge_params dialogue_env sample_manager ''search'' (JObj [(''query'', JStr ''b'')]) =
     Inr [(''query'', JStr ''b'')]"
  by (simp add: merge_params_def defaults_for_def sample_manager_def ToolManager_init_def
      py_dict_update_def dict_update_def dict_set_def)

lemma dialogue_search_fail:
  "http dialogue_env
        (length [Request ModelAPI JNull, Request ModelAPI JNull, Request SearchAPI (JStr ''a'')])
        (Request SearchAPI (dict_get [(''query'', JStr ''b'')] ''query''))
     = HttpRaised (Exn RequestsTimeout ''timed out'')"
  by (simp add: dialogue_env_def offline_env_def)

theorem transport_failure_is_success_witness:
  "merge_params weather_plan_env sample_manager ''weather'' (JObj []) =
     Inr [(''location'', JStr ''London, UK'')]
   \<and> http weather_plan_env (length [Request ModelAPI JNull])
        (Request WeatherAPI (dict_get [(''location'', JStr ''London, UK'')] ''location''))
       = HttpRaised (Exn RequestException ''connection refused'')
   \<and> structured_output_prompt weather_plan_env (Inr MISTRAL) [] =
       (Inr [JObj [(''command'', JStr ''weather''), (''params'', JObj [])]],
        [Request ModelAPI JNull])
   \<and> plan_commands weather_plan_env
         [JObj [(''command'', JStr ''weather''), (''params'', JObj [])]]
       = Inr ([] @ (JStr ''weather'', JObj []) # [])
   \<and> (\<exists>d txt.
         execute_command weather_plan_env sample_manager (JStr ''weather'') (JObj [])
             [Request ModelAPI JNull] =
           (\<lparr>success = True, data = d, error = None\<rparr>,
            [Request ModelAPI JNull]
              @ [Request WeatherAPI (dict_get [(''location'', JStr ''London, UK'')] ''location'')])
       \<and> map_of d ''error'' = Some (JStr txt)
       \<and> str_contains txt ''connection refused'')
   \<and> process_request weather_plan_env sample_manager ''weather'' [] =
       (Inl (Exn PlainException ''API request failed: connection refused''),
        [Request ModelAPI JNull, Request WeatherAPI (JStr ''London, UK''), Request ModelAPI JNull])
   \<and> merge_params dialogue_env sample_manager ''search'' (JObj [(''query'', JStr ''b'')]) =
       Inr [(''query'', JStr ''b'')]
   \<and> http dialogue_env
        (length [Request ModelAPI JNull, Request ModelAPI JNull, Request SearchAPI (JStr ''a'')])
        (Request SearchAPI (dict_get [(''query'', JStr ''b'')] ''query''))
       = HttpRaised (Exn RequestsTimeout ''timed out'')
   \<and> (\<exists>d.
         execute_command dialogue_env sample_manager (JStr ''search'')
             (JObj [(''query'', JStr ''b'')])
             [Request ModelAPI JNull, Request ModelAPI JNull, Request SearchAPI (JStr ''a'')] =
           (\<lparr>success = True, data = d, error = None\<rparr>,
            [Request ModelAPI JNull, Request ModelAPI JNull, Request SearchAPI (JStr ''a'')]
              @ [Request SearchAPI (dict_get [(''query'', JStr ''b'')] ''query'')])
       \<and> map_of d ''error'' = Some (JStr ''Search request timed out''))"
proof -
  have c2: "(''search'' = ''weather'' \<and> SearchAPI = WeatherAPI \<and> ''query'' = ''location'')
         \<or> (''search'' = ''search'' \<and> SearchAPI = SearchAPI \<and> ''query'' = ''query'')"
    by simp
  from transport_failure_is_success [OF dialogue_search_merge c2 dialogue_search_fail]
  obtain d2 t2 where
    ex2: "execute_command dialogue_env sample_manager (JStr ''search'')
             (JObj [(''query'', JStr ''b'')])
             [Request ModelAPI JNull, Request ModelAPI JNull, Request SearchAPI (JStr ''a'')] =
           (\<lparr>success = True, data = d2, error = None\<rparr>,
            [Request ModelAPI JNull, Request ModelAPI JNull, Request SearchAPI (JStr ''a'')]
              @ [Request SearchAPI (dict_get [(''query'', JStr ''b'')] ''query'')])"
    and er2: "map_of d2 ''error'' = Some (JStr t2)"
    and tx2: "if exn_cls (Exn RequestsTimeout ''timed out'') = RequestsTimeout
            then t2 = (if ''search'' = ''weather''
                       then ''Request timed out after multiple retries''
                       else ''Search request timed out'')
            else str_contains t2 (exn_str (Exn RequestsTimeout ''timed out''))"
    by blast
  from tx2 have "t2 = ''Search request timed out''" by simp
  with ex2 er2 have srch: "\<exists>d.
         execute_command dialogue_env sample_manager (JStr ''search'')
             (JObj [(''query'', JStr ''b'')])
             [Request ModelAPI JNull, Request ModelAPI JNull, Request SearchAPI (JStr ''a'')] =
           (\<lparr>success = True, data = d, error = None\<rparr>,
            [Request ModelAPI JNull, Request ModelAPI JNull, Request SearchAPI (JStr ''a'')]
              @ [Request SearchAPI (dict_get [(''query'', JStr ''b'')] ''query'')])
       \<and> map_of d ''error'' = Some (JStr ''Search request timed out'')"
    by blast
  have c: "(''weather'' = ''weather'' \<and> WeatherAPI = WeatherAPI \<and> ''location'' = ''location'')
         \<or> (''weather'' = ''search'' \<and> WeatherAPI = SearchAPI \<and> ''location'' = ''query'')"
    by simp
  have r1: "run_plan weather_plan_env sample_manager [] [Request ModelAPI JNull]
              = ([], [Request ModelAPI JNull])" by simp
  have r2: "run_plan weather_plan_env sample_manager []
              ([Request ModelAPI JNull]
                @ [Request WeatherAPI (dict_get [(''location'', JStr ''London, UK'')] ''location'')])
              = ([], [Request ModelAPI JNull]
                @ [Request WeatherAPI (dict_get [(''location'', JStr ''London, UK'')] ''location'')])"
    by simp
  have f: "filter (\<lambda>resp. \<not> success resp) (([] :: ToolResponse list) @ []) = []" by simp
  from transport_failure_is_success [OF wp_merge c wp_fail,
      of "[]" "[JObj [(''command'', JStr ''weather''), (''params'', JObj [])]]"
         "[Request ModelAPI JNull]" "[]" "[]" "[]" "[]"
         "[Request ModelAPI JNull]
            @ [Request WeatherAPI (dict_get [(''location'', JStr ''London, UK'')] ''location'')]"
         "''weather''"]
  obtain d t where
    ex: "execute_command weather_plan_env sample_manager (JStr ''weather'') (JObj [])
             [Request ModelAPI JNull] =
           (\<lparr>success = True, data = d, error = None\<rparr>,
            [Request ModelAPI JNull]
              @ [Request WeatherAPI (dict_get [(''location'', JStr ''London, UK'')] ''location'')])"
    and er: "map_of d ''error'' = Some (JStr t)"
    and tx: "str_contains t ''connection refused''"
    and orch: "structured_output_prompt weather_plan_env (Inr MISTRAL) [] =
       (Inr [JObj [(''command'', JStr ''weather''), (''params'', JObj [])]],
        [Request ModelAPI JNull])
       \<and> plan_commands weather_plan_env
             [JObj [(''command'', JStr ''weather''), (''params'', JObj [])]]
           = Inr ([] @ (JStr ''weather'', JObj []) # [])
       \<and> run_plan weather_plan_env sample_manager [] [Request ModelAPI JNull]
              = ([], [Request ModelAPI JNull])
       \<and> run_plan weather_plan_env sample_manager []
              ([Request ModelAPI JNull]
                @ [Request WeatherAPI (dict_get [(''location'', JStr ''London, UK'')] ''location'')])
              = ([], [Request ModelAPI JNull]
                @ [Request WeatherAPI (dict_get [(''location'', JStr ''London, UK'')] ''location'')])
       \<longrightarrow> (filter (\<lambda>resp. \<not> success resp) (([] :: ToolResponse list) @ []) = [] \<longrightarrow>
              process_request weather_plan_env sample_manager ''weather'' [] =
                draft_and_finalize weather_plan_env sample_manager
                  ([Request ModelAPI JNull]
                     @ [Request WeatherAPI
                          (dict_get [(''location'', JStr ''London, UK'')] ''location'')]))"
    by auto
  from orch wp_plan wp_cmds r1 r2 f
  have "process_request weather_plan_env sample_manager ''weather'' [] =
                draft_and_finalize weather_plan_env sample_manager
                  ([Request ModelAPI JNull]
                     @ [Request WeatherAPI
                          (dict_get [(''location'', JStr ''London, UK'')] ''location'')])"
    by blast
  with wp_draft have pr: "process_request weather_plan_env sample_manager ''weather'' [] =
       (Inl (Exn PlainException ''API request failed: connection refused''),
        [Request ModelAPI JNull, Request WeatherAPI (JStr ''London, UK''), Request ModelAPI JNull])"
    by simp
  from ex er tx have "\<exists>d txt.
         execute_command weather_plan_env sample_manager (JStr ''weather'') (JObj [])
             [Request ModelAPI JNull] =
           (\<lparr>success = True, data = d, error = None\<rparr>,
            [Request ModelAPI JNull]
              @ [Request WeatherAPI (dict_get [(''location'', JStr ''London, UK'')] ''location'')])
       \<and> map_of d ''error'' = Some (JStr txt)
       \<and> str_contains txt ''connection refused''"
    by blast
  with wp_merge wp_fail wp_plan wp_cmds pr dialogue_search_merge dialogue_search_fail srch
  show ?thesis
    by (intro conjI)
qed

section \<open>Properties of the enrichment\<close>

lemma search_command_value:
  "execute_command E tm (JStr ''search'') (JObj [(''query'', q)]) w =
     (\<lparr>success = True, data = fst (search E q w), error = None\<rparr>, w @ [Request SearchAPI q])"
proof -
  have m: "merge_params E tm ''search'' (JObj [(''query'', q)]) =
             Inr (dict_set (defaults_for tm ''search'') ''query'' q)"
    by (simp add: merge_params_def py_dict_update_def dict_update_def)
  have g: "dict_get (dict_set (defaults_for tm ''search'') ''query'' q) ''query'' = q"
    by (simp add: dict_get_def dict_get_default_def map_of_dict_set)
  obtain ds where s: "search E q w = (ds, w @ [Request SearchAPI q])"
    using search_result by blast
  show ?thesis
    unfolding execute_search [OF m] g s by simp
qed

lemma search_responses_nth:
  "i < length queries \<Longrightarrow>
   search_responses E tm queries w ! i =
     \<lparr>success = True,
      data = fst (search E (queries ! i) (w @ map (Request SearchAPI) (take i queries))),
      error = None\<rparr>"
proof (induction queries arbitrary: w i)
  case Nil
  then show ?case by simp
next
  case (Cons q qs)
  show ?case
  proof (cases i)
    case 0
    then show ?thesis by (simp add: search_command_value)
  next
    case (Suc j)
    with Cons.prems have "j < length qs" by simp
    from Cons.IH [OF this, of "w @ [Request SearchAPI q]"] Suc
    show ?thesis by (simp add: search_command_value)
  qed
qed

lemma search_responses_succeed:
  "filter (\<lambda>r. \<not> success r) (search_responses E tm queries w) = []"
proof (induction queries arbitrary: w)
  case Nil
  show ?case by simp
next
  case (Cons q qs)
  show ?case by (simp add: search_command_value Cons.IH)
qed

lemma enrichment_items_all:
  assumes "filter (\<lambda>r. \<not> success r) responses = []"
  shows "enrichment_items queries responses = all_items queries responses"
proof -
  from assms have "\<forall>r \<in> set responses. success r"
    by (simp add: filter_empty_conv)
  then have "\<forall>qr \<in> set (zip queries responses). success (snd qr)"
    by (auto dest: set_zip_rightD)
  then have "filter (\<lambda>qr. success (snd qr)) (zip queries responses) = zip queries responses"
    by (simp add: filter_id_conv)
  then show ?thesis by (simp add: enrichment_items_def all_items_def)
qed

lemma all_items_nth:
  assumes "i < length queries" and "length responses = length queries"
  shows "all_items queries responses ! i =
           JObj [(''query'', queries ! i), (''data'', JObj (data (responses ! i)))]"
  using assms by (simp add: all_items_def)

lemma search_failed_error_text:
  "map_of (search_failed E q e) ''error'' =
     Some (JStr (if exn_cls e = RequestsTimeout then ''Search request timed out'' else exn_str e))"
  by (simp add: search_failed_def)

text \<open>
  Claim C7, as the code has it. For an analysis whose \<^verbatim>\<open>needs_search\<close> is a list, the
  enrichment runs the dispatcher's \<^verbatim>\<open>search\<close> once for every entry, in order: the
  world gains exactly one search request per entry and there is one response per entry.
  It never raises. The code keeps the responses with \<open>success = True\<close>, and the
  dispatcher gives every search that value, so none is left out: the enrichment holds
  one item \<^verbatim>\<open>{query, data}\<close> per entry, in order, the data being the mapping the search
  tool returned. For a search whose request failed or timed out, that mapping is the one
  the tool builds in its handler, with the text of the failure under \<^verbatim>\<open>error\<close>; the
  item is collected like any other. When \<^verbatim>\<open>needs_search\<close> is absent or empty, the
  enrichment makes no request and collects nothing. In both cases \<^verbatim>\<open>process_request\<close>
  goes on to the final call of the model, in the world the enrichment left.
\<close>

theorem enrich_collects_every_search:
  "(dict_get d ''needs_search'' = JArr queries \<longrightarrow>
      enrich E tm (JObj d) w =
        (Inr (all_items queries (search_responses E tm queries w)),
         w @ map (Request SearchAPI) queries)
      \<and> enrichment_items queries (search_responses E tm queries w)
          = all_items queries (search_responses E tm queries w)
      \<and> length (search_responses E tm queries w) = length queries
      \<and> length (all_items queries (search_responses E tm queries w)) = length queries
      \<and> filter (\<lambda>r. \<not> success r) (search_responses E tm queries w) = [])
   \<and> (i < length queries \<longrightarrow>
      search_responses E tm queries w ! i =
        \<lparr>success = True,
         data = fst (search E (queries ! i) (w @ map (Request SearchAPI) (take i queries))),
         error = None\<rparr>
      \<and> all_items queries (search_responses E tm queries w) ! i =
          JObj [(''query'', queries ! i),
                (''data'', JObj (fst (search E (queries ! i)
                                        (w @ map (Request SearchAPI) (take i queries)))))])
   \<and> (i < length queries
        \<and> http E (length w + i) (Request SearchAPI (queries ! i)) = HttpRaised e \<longrightarrow>
      all_items queries (search_responses E tm queries w) ! i =
        JObj [(''query'', queries ! i), (''data'', JObj (search_failed E (queries ! i) e))]
      \<and> map_of (search_failed E (queries ! i) e) ''error'' =
          Some (JStr (if exn_cls e = RequestsTimeout then ''Search request timed out''
                      else exn_str e)))
   \<and> (\<not> truthy (dict_get d ''needs_search'') \<longrightarrow> enrich E tm (JObj d) w = (Inr [], w))
   \<and> (structured_output_prompt E (Inr MISTRAL) w0 = (Inr plan, w1)
        \<and> plan_commands E plan = Inr cmds
        \<and> run_plan E tm cmds w1 = (resps, w2)
        \<and> filter (\<lambda>resp. \<not> success resp) resps = []
        \<and> structured_output_prompt E (Inr MISTRAL) w2 = (Inr (JObj d # others), w)
        \<and> (dict_get d ''needs_search'' = JArr queries \<or> \<not> truthy (dict_get d ''needs_search'')
              \<and> queries = []) \<longrightarrow>
      process_request E tm user_input w0 =
        chat_prompt E (Inr MISTRAL) (w @ map (Request SearchAPI) queries))"
proof -
  have all: "enrichment_items queries (search_responses E tm queries w)
          = all_items queries (search_responses E tm queries w)"
    by (rule enrichment_items_all [OF search_responses_succeed])
  have len: "length (search_responses E tm queries w) = length queries"
    by (rule length_search_responses)
  have nth: "all_items queries (search_responses E tm queries w) ! i =
          JObj [(''query'', queries ! i),
                (''data'', JObj (fst (search E (queries ! i)
                                        (w @ map (Request SearchAPI) (take i queries)))))]"
    if "i < length queries"
    using all_items_nth [OF that len] search_responses_nth [OF that, of E tm w] by simp
  have 1: "dict_get d ''needs_search'' = JArr queries \<longrightarrow>
      enrich E tm (JObj d) w =
        (Inr (all_items queries (search_responses E tm queries w)),
         w @ map (Request SearchAPI) queries)
      \<and> enrichment_items queries (search_responses E tm queries w)
          = all_items queries (search_responses E tm queries w)
      \<and> length (search_responses E tm queries w) = length queries
      \<and> length (all_items queries (search_responses E tm queries w)) = length queries
      \<and> filter (\<lambda>r. \<not> success r) (search_responses E tm queries w) = []"
    using enrich_list [of d queries E tm w] all len search_responses_succeed [of E tm queries w]
    by (simp add: all_items_def)
  have 2: "i < length queries \<longrightarrow>
      search_responses E tm queries w ! i =
        \<lparr>success = True,
         data = fst (search E (queries ! i) (w @ map (Request SearchAPI) (take i queries))),
         error = None\<rparr>
      \<and> all_items queries (search_responses E tm queries w) ! i =
          JObj [(''query'', queries ! i),
                (''data'', JObj (fst (search E (queries ! i)
                                        (w @ map (Request SearchAPI) (take i queries)))))]"
    using search_responses_nth [of i queries E tm w] nth by blast
  have 3: "i < length queries
        \<and> http E (length w + i) (Request SearchAPI (queries ! i)) = HttpRaised e \<longrightarrow>
      all_items queries (search_responses E tm queries w) ! i =
        JObj [(''query'', queries ! i), (''data'', JObj (search_failed E (queries ! i) e))]
      \<and> map_of (search_failed E (queries ! i) e) ''error'' =
          Some (JStr (if exn_cls e = RequestsTimeout then ''Search request timed out''
                      else exn_str e))"
  proof (intro impI conjI)
    assume a: "i < length queries
        \<and> http E (length w + i) (Request SearchAPI (queries ! i)) = HttpRaised e"
    then have "http E (length (w @ map (Request SearchAPI) (take i queries)))
                 (Request SearchAPI (queries ! i)) = HttpRaised e"
      by simp
    from search_failed_eq [OF this] nth a
    show "all_items queries (search_responses E tm queries w) ! i =
        JObj [(''query'', queries ! i), (''data'', JObj (search_failed E (queries ! i) e))]"
      by simp
    show "map_of (search_failed E (queries ! i) e) ''error'' =
          Some (JStr (if exn_cls e = RequestsTimeout then ''Search request timed out''
                      else exn_str e))"
      by (rule search_failed_error_text)
  qed
  have 4: "\<not> truthy (dict_get d ''needs_search'') \<longrightarrow> enrich E tm (JObj d) w = (Inr [], w)"
    using enrich_nothing [of d E tm w] by blast
  have 5: "structured_output_prompt E (Inr MISTRAL) w0 = (Inr plan, w1)
        \<and> plan_commands E plan = Inr cmds
        \<and> run_plan E tm cmds w1 = (resps, w2)
        \<and> filter (\<lambda>resp. \<not> success resp) resps = []
        \<and> structured_output_prompt E (Inr MISTRAL) w2 = (Inr (JObj d # others), w)
        \<and> (dict_get d ''needs_search'' = JArr queries \<or> \<not> truthy (dict_get d ''needs_search'')
              \<and> queries = []) \<longrightarrow>
      process_request E tm user_input w0 =
        chat_prompt E (Inr MISTRAL) (w @ map (Request SearchAPI) queries)"
  proof
    assume a: "structured_output_prompt E (Inr MISTRAL) w0 = (Inr plan, w1)
        \<and> plan_commands E plan = Inr cmds
        \<and> run_plan E tm cmds w1 = (resps, w2)
        \<and> filter (\<lambda>resp. \<not> success resp) resps = []
        \<and> structured_output_prompt E (Inr MISTRAL) w2 = (Inr (JObj d # others), w)
        \<and> (dict_get d ''needs_search'' = JArr queries \<or> \<not> truthy (dict_get d ''needs_search'')
              \<and> queries = [])"
    then have "\<exists>info. enrich E tm (JObj d) w = (Inr info, w @ map (Request SearchAPI) queries)"
      using enrich_list [of d queries E tm w] enrich_nothing [of d E tm w] by auto
    then obtain info where
      "enrich E tm (JObj d) w = (Inr info, w @ map (Request SearchAPI) queries)"
      by blast
    with a show "process_request E tm user_input w0 =
        chat_prompt E (Inr MISTRAL) (w @ map (Request SearchAPI) queries)"
      by (intro process_request_finalizes) blast+
  qed
  from 1 2 3 4 5 show ?thesis by (intro conjI)
qed

lemma dialogue_plan:
  "structured_output_prompt dialogue_env (Inr MISTRAL) [] = (Inr [], [Request ModelAPI JNull])"
  by (simp add: pipeline_eval parser_eval dialogue_env_def)

lemma dialogue_draft:
  "structured_output_prompt dialogue_env (Inr MISTRAL) [Request ModelAPI JNull] =
     (Inr (JObj [(''needs_search'', JArr [JStr ''a'', JStr ''b''])] # []),
      [Request ModelAPI JNull, Request ModelAPI JNull])"
  by (simp add: pipeline_eval parser_eval dialogue_env_def draft_text_def draft_value_def)

lemma dialogue_final:
  "chat_prompt dialogue_env (Inr MISTRAL)
     ([Request ModelAPI JNull, Request ModelAPI JNull]
        @ map (Request SearchAPI) [JStr ''a'', JStr ''b'']) =
     (Inr (JStr ''Done.''),
      [Request ModelAPI JNull, Request ModelAPI JNull,
       Request SearchAPI (JStr ''a''), Request SearchAPI (JStr ''b''), Request ModelAPI JNull])"
  by (simp add: pipeline_eval dialogue_env_def)

lemma dialogue_timeout:
  "http dialogue_env (length [Request ModelAPI JNull, Request ModelAPI JNull] + 1)
        (Request SearchAPI ([JStr ''a'', JStr ''b''] ! 1))
     = HttpRaised (Exn RequestsTimeout ''timed out'')"
  by (simp add: dialogue_env_def offline_env_def)

theorem enrich_collects_every_search_witness:
  "dict_get [(''needs_search'', JArr [JStr ''a'', JStr ''b''])] ''needs_search''
     = JArr [JStr ''a'', JStr ''b'']
   \<and> enrich dialogue_env sample_manager
         (JObj [(''needs_search'', JArr [JStr ''a'', JStr ''b''])])
         [Request ModelAPI JNull, Request ModelAPI JNull] =
        (Inr (all_items [JStr ''a'', JStr ''b'']
                (search_responses dialogue_env sample_manager [JStr ''a'', JStr ''b'']
                   [Request ModelAPI JNull, Request ModelAPI JNull])),
         [Request ModelAPI JNull, Request ModelAPI JNull]
           @ map (Request SearchAPI) [JStr ''a'', JStr ''b''])
   \<and> length (all_items [JStr ''a'', JStr ''b'']
                (search_responses dialogue_env sample_manager [JStr ''a'', JStr ''b'']
                   [Request ModelAPI JNull, Request ModelAPI JNull])) = 2
   \<and> (1 :: nat) < length [JStr ''a'', JStr ''b'']
   \<and> http dialogue_env (length [Request ModelAPI JNull, Request ModelAPI JNull] + 1)
        (Request SearchAPI ([JStr ''a'', JStr ''b''] ! 1))
       = HttpRaised (Exn RequestsTimeout ''timed out'')
   \<and> all_items [JStr ''a'', JStr ''b'']
        (search_responses dialogue_env sample_manager [JStr ''a'', JStr ''b'']
           [Request ModelAPI JNull, Request ModelAPI JNull]) ! 1 =
       JObj [(''query'', JStr ''b''),
             (''data'', JObj (search_failed dialogue_env (JStr ''b'')
                                (Exn RequestsTimeout ''timed out'')))]
   \<and> map_of (search_failed dialogue_env (JStr ''b'') (Exn RequestsTimeout ''timed out''))
        ''error'' = Some (JStr ''Search request timed out'')
   \<and> \<not> truthy (dict_get [] ''needs_search'')
   \<and> enrich dialogue_env sample_manager (JObj []) [] = (Inr [], [])
   \<and> process_request dialogue_env sample_manager ''what now'' [] =
       (Inr (JStr ''Done.''),
        [Request ModelAPI JNull, Request ModelAPI JNull,
         Request SearchAPI (JStr ''a''), Request SearchAPI (JStr ''b''), Request ModelAPI JNull])"
proof -
  have g: "dict_get [(''needs_search'', JArr [JStr ''a'', JStr ''b''])] ''needs_search''
             = JArr [JStr ''a'', JStr ''b'']"
    by (simp add: dict_get_def dict_get_default_def)
  have n: "\<not> truthy (dict_get [] ''needs_search'')"
    by (simp add: dict_get_def dict_get_default_def)
  have l: "(1 :: nat) < length [JStr ''a'', JStr ''b'']" by simp
  have c: "plan_commands dialogue_env [] = Inr []" by simp
  have r: "run_plan dialogue_env sample_manager [] [Request ModelAPI JNull]
             = ([], [Request ModelAPI JNull])" by simp
  have f: "filter (\<lambda>resp. \<not> success resp) ([] :: ToolResponse list) = []" by simp
  note a = enrich_collects_every_search
      [where d = "[(''needs_search'', JArr [JStr ''a'', JStr ''b''])]"
         and queries = "[JStr ''a'', JStr ''b'']" and E = dialogue_env and tm = sample_manager
         and w = "[Request ModelAPI JNull, Request ModelAPI JNull]" and i = 1
         and e = "Exn RequestsTimeout ''timed out''" and ?w0.0 = "[]" and plan = "[]"
         and ?w1.0 = "[Request ModelAPI JNull]" and cmds = "[]" and resps = "[]"
         and ?w2.0 = "[Request ModelAPI JNull]" and others = "[]"
         and user_input = "''what now''"]
  note b = enrich_collects_every_search [where d = "[]" and queries = "[]" and E = dialogue_env
         and tm = sample_manager and w = "[]" and i = 0]
  from a g have 1: "enrich dialogue_env sample_manager
         (JObj [(''needs_search'', JArr [JStr ''a'', JStr ''b''])])
         [Request ModelAPI JNull, Request ModelAPI JNull] =
        (Inr (all_items [JStr ''a'', JStr ''b'']
                (search_responses dialogue_env sample_manager [JStr ''a'', JStr ''b'']
                   [Request ModelAPI JNull, Request ModelAPI JNull])),
         [Request ModelAPI JNull, Request ModelAPI JNull]
           @ map (Request SearchAPI) [JStr ''a'', JStr ''b''])"
    and 2: "length (all_items [JStr ''a'', JStr ''b'']
                (search_responses dialogue_env sample_manager [JStr ''a'', JStr ''b'']
                   [Request ModelAPI JNull, Request ModelAPI JNull])) = 2"
    by simp_all
  from a l dialogue_timeout
  have "all_items [JStr ''a'', JStr ''b'']
        (search_responses dialogue_env sample_manager [JStr ''a'', JStr ''b'']
           [Request ModelAPI JNull, Request ModelAPI JNull]) ! 1 =
       JObj [(''query'', [JStr ''a'', JStr ''b''] ! 1),
             (''data'', JObj (search_failed dialogue_env ([JStr ''a'', JStr ''b''] ! 1)
                                (Exn RequestsTimeout ''timed out'')))]
      \<and> map_of (search_failed dialogue_env ([JStr ''a'', JStr ''b''] ! 1)
                  (Exn RequestsTimeout ''timed out'')) ''error'' =
          Some (JStr (if exn_cls (Exn RequestsTimeout ''timed out'') = RequestsTimeout
                      then ''Search request timed out''
                      else exn_str (Exn RequestsTimeout ''timed out'')))"
    by blast
  then have 5: "all_items [JStr ''a'', JStr ''b'']
        (search_responses dialogue_env sample_manager [JStr ''a'', JStr ''b'']
           [Request ModelAPI JNull, Request ModelAPI JNull]) ! 1 =
       JObj [(''query'', JStr ''b''),
             (''data'', JObj (search_failed dialogue_env (JStr ''b'')
                                (Exn RequestsTimeout ''timed out'')))]"
    and 6: "map_of (search_failed dialogue_env (JStr ''b'') (Exn RequestsTimeout ''timed out''))
        ''error'' = Some (JStr ''Search request timed out'')"
    by simp_all
  from b n have 3: "enrich dialogue_env sample_manager (JObj []) [] = (Inr [], [])"
    by blast
  from a g dialogue_plan c r f dialogue_draft
  have "process_request dialogue_env sample_manager ''what now'' [] =
        chat_prompt dialogue_env (Inr MISTRAL)
          ([Request ModelAPI JNull, Request ModelAPI JNull]
            @ map (Request SearchAPI) [JStr ''a'', JStr ''b''])"
    by blast
  with dialogue_final have 4: "process_request dialogue_env sample_manager ''what now'' [] =
       (Inr (JStr ''Done.''),
        [Request ModelAPI JNull, Request ModelAPI JNull,
         Request SearchAPI (JStr ''a''), Request SearchAPI (JStr ''b''), Request ModelAPI JNull])"
    by simp
  from g 1 2 l dialogue_timeout 5 6 n 3 4 show ?thesis by (intro conjI)
qed

text \<open>
  Claim C7, as stated, fails where it says that failed searches are dropped and that only
  the successes are collected: the second search below times out, and the enrichment
  holds its item, with the text of the failure, next to the item of the first.
\<close>

theorem enrich_keeps_failed_search_counterexample:
  "http dialogue_env 3 (Request SearchAPI (JStr ''b''))
     = HttpRaised (Exn RequestsTimeout ''timed out'')
   \<and> enrich dialogue_env sample_manager draft_value
       [Request ModelAPI JNull, Request ModelAPI JNull] =
     (Inr [JObj [(''query'', JStr ''a''),
                 (''data'', JObj [(''abstract'', JStr ''T: S''),
                                  (''results'', JArr [JObj [(''title'', JStr ''T''),
                                                            (''description'', JStr ''S''),
                                                            (''url'', JStr ''L'')]]),
                                  (''query'', JStr ''a'')])],
           JObj [(''query'', JStr ''b''),
                 (''data'', JObj [(''error'', JStr ''Search request timed out''),
                                  (''results'', JArr []),
                                  (''abstract'', JStr ''Search timed out, please try again''),
                                  (''query'', JStr ''b'')])]],
      [Request ModelAPI JNull, Request ModelAPI JNull,
       Request SearchAPI (JStr ''a''), Request SearchAPI (JStr ''b'')])"
proof -
  have a: "search dialogue_env (JStr ''a'') [Request ModelAPI JNull, Request ModelAPI JNull] =
     ([(''abstract'', JStr ''T: S''),
       (''results'', JArr [JObj [(''title'', JStr ''T''), (''description'', JStr ''S''),
                                 (''url'', JStr ''L'')]]),
       (''query'', JStr ''a'')],
      [Request ModelAPI JNull, Request ModelAPI JNull, Request SearchAPI (JStr ''a'')])"
    by (simp add: search_def fetch_def dialogue_env_def offline_env_def search_body_def
        search_results_def py_in_def py_item_def py_iter_def item_description_def
        dict_has_def dict_get_def dict_get_default_def search_abstract_def py_str_def Let_def)
  have b: "search dialogue_env (JStr ''b'')
             [Request ModelAPI JNull, Request ModelAPI JNull, Request SearchAPI (JStr ''a'')] =
     ([(''error'', JStr ''Search request timed out''),
       (''results'', JArr []),
       (''abstract'', JStr ''Search timed out, please try again''),
       (''query'', JStr ''b'')],
      [Request ModelAPI JNull, Request ModelAPI JNull, Request SearchAPI (JStr ''a''),
       Request SearchAPI (JStr ''b'')])"
    by (simp add: search_def fetch_def dialogue_env_def offline_env_def search_failed_def)
  have h: "http dialogue_env 3 (Request SearchAPI (JStr ''b''))
     = HttpRaised (Exn RequestsTimeout ''timed out'')"
    by (simp add: dialogue_env_def offline_env_def)
  have e: "enrich dialogue_env sample_manager draft_value
       [Request ModelAPI JNull, Request ModelAPI JNull] =
     (Inr [JObj [(''query'', JStr ''a''),
                 (''data'', JObj [(''abstract'', JStr ''T: S''),
                                  (''results'', JArr [JObj [(''title'', JStr ''T''),
                                                            (''description'', JStr ''S''),
                                                            (''url'', JStr ''L'')]]),
                                  (''query'', JStr ''a'')])],
           JObj [(''query'', JStr ''b''),
                 (''data'', JObj [(''error'', JStr ''Search request timed out''),
                                  (''results'', JArr []),
                                  (''abstract'', JStr ''Search timed out, please try again''),
                                  (''query'', JStr ''b'')])]],
      [Request ModelAPI JNull, Request ModelAPI JNull,
       Request SearchAPI (JStr ''a''), Request SearchAPI (JStr ''b'')])"
    by (simp add: draft_value_def enrich_def py_get_def py_get_default_def dict_get_default_def
        py_iter_def search_command_value a b)
  from h e show ?thesis by (intro conjI)
qed

end
